theory Spec2Isabelle
  imports Complex_Main
begin

section \<open>Python values as the constructor of \<open>Normal\<close> sees them\<close>

text \<open>
  \<open>normal.py\<close> inspects its arguments through \<open>np.isscalar\<close>, \<open>np.shape\<close>,
  \<open>isinstance\<close>, the attribute \<open>.shape\<close> and, for Kronecker operators, the factors
  \<open>.A\<close>, \<open>.B\<close> and the flag \<open>._ABequal\<close>. A value is therefore its class, its shape
  and an uninterpreted content of type \<open>'c\<close> (the numbers it holds).
\<close>

type_synonym shape = "nat list"

datatype error =
    ValueError string
  | TypeError string
  | AttributeError string
  | IndexError string
  | NotImplementedError string
  | ZeroDivisionError string
  | OverflowError string

text \<open>
  The operator classes of \<open>probnum.linalg.linear_operators\<close> that the code tells apart.
  \<open>Kronecker\<close> and \<open>SymmetricKronecker\<close> carry the shapes of their factors \<open>A\<close> and
  \<open>B\<close>; \<open>SymmetricKronecker\<close> also carries \<open>_ABequal\<close>. Any other operator class is
  \<open>LinearOperator\<close> with its class name.
\<close>

datatype linop =
    LinearOperator string
  | Kronecker "nat \<times> nat" "nat \<times> nat"
  | SymmetricKronecker "nat \<times> nat" "nat \<times> nat" bool

text \<open>
  \<open>Scalar name generic c\<close>: a value for which \<open>np.isscalar\<close> holds (\<open>generic\<close>: it is a
  NumPy scalar, which has an attribute \<open>.shape = ()\<close>; a Python number has none).
  \<open>ndarray s c\<close>: a NumPy array of shape \<open>s\<close>. \<open>spmatrix name (r, k) c\<close>: a SciPy sparse
  matrix. \<open>LinOp op (r, k) c\<close>: a linear operator of shape \<open>(r, k)\<close>.
  \<open>Object name s has c\<close>: any other object, with the shape \<open>np.shape\<close> reports for it and
  whether it has an attribute \<open>.shape\<close>.
\<close>

datatype 'c pyval =
    Scalar string bool 'c
  | ndarray shape 'c
  | spmatrix string "nat \<times> nat" 'c
  | LinOp linop "nat \<times> nat" 'c
  | Object string shape bool 'c

fun np_isscalar :: "'c pyval \<Rightarrow> bool" where
  "np_isscalar (Scalar _ _ _) = True"
| "np_isscalar _ = False"

fun np_shape :: "'c pyval \<Rightarrow> shape" where
  "np_shape (Scalar _ _ _) = []"
| "np_shape (ndarray s _) = s"
| "np_shape (spmatrix _ (r, k) _) = [r, k]"
| "np_shape (LinOp _ (r, k) _) = [r, k]"
| "np_shape (Object _ s _ _) = s"

fun class_name :: "'c pyval \<Rightarrow> string" where
  "class_name (Scalar n _ _) = n"
| "class_name (ndarray _ _) = ''ndarray''"
| "class_name (spmatrix n _ _) = n"
| "class_name (LinOp (LinearOperator n) _ _) = n"
| "class_name (LinOp (Kronecker _ _) _ _) = ''Kronecker''"
| "class_name (LinOp (SymmetricKronecker _ _ _) _ _) = ''SymmetricKronecker''"
| "class_name (Object n _ _ _) = n"

text \<open>\<open>isinstance(v, (np.ndarray, scipy.sparse.spmatrix))\<close>\<close>

fun isinstance_array :: "'c pyval \<Rightarrow> bool" where
  "isinstance_array (ndarray _ _) = True"
| "isinstance_array (spmatrix _ _ _) = True"
| "isinstance_array _ = False"

text \<open>\<open>isinstance(v, scipy.sparse.linalg.LinearOperator)\<close>\<close>

fun isinstance_LinearOperator :: "'c pyval \<Rightarrow> bool" where
  "isinstance_LinearOperator (LinOp _ _ _) = True"
| "isinstance_LinearOperator _ = False"

text \<open>\<open>isinstance(cov, linear_operators.SymmetricKronecker) and cov._ABequal\<close>\<close>

fun SymmetricKronecker_ABequal :: "'c pyval \<Rightarrow> bool" where
  "SymmetricKronecker_ABequal (LinOp (SymmetricKronecker _ _ e) _ _) = e"
| "SymmetricKronecker_ABequal _ = False"

text \<open>The attribute \<open>v.shape\<close>; reading it from an object that has none raises.\<close>

fun shape_attr :: "'c pyval \<Rightarrow> error + shape" where
  "shape_attr (Scalar n g _) = (if g then Inr [] else Inl (AttributeError n))"
| "shape_attr (ndarray s _) = Inr s"
| "shape_attr (spmatrix _ (r, k) _) = Inr [r, k]"
| "shape_attr (LinOp _ (r, k) _) = Inr [r, k]"
| "shape_attr (Object n s h _) = (if h then Inr s else Inl (AttributeError n))"

text \<open>The value without its content: class and shape only.\<close>

definition kind :: "'c pyval \<Rightarrow> unit pyval" where
  "kind v = map_pyval (\<lambda>_. ()) v"

text \<open>
  Two values are alike when \<open>np.isscalar\<close>, \<open>np.shape\<close>, the two \<open>isinstance\<close> tests and
  the attribute \<open>.shape\<close> do not tell them apart: the one has the shape of the other and
  is, like it, a number, an array or a linear operator.
\<close>

definition alike :: "'c pyval \<Rightarrow> 'c pyval \<Rightarrow> bool" where
  "alike v w \<longleftrightarrow>
     np_isscalar v = np_isscalar w \<and> np_shape v = np_shape w \<and>
     isinstance_array v = isinstance_array w \<and>
     isinstance_LinearOperator v = isinstance_LinearOperator w \<and>
     shape_attr v = shape_attr w"


section \<open>Distributions\<close>

datatype variant =
    UnivariateNormal
  | MultivariateNormal
  | MatrixvariateNormal
  | OperatorvariateNormal
  | SymmetricKroneckerIdenticalFactorsNormal

fun variant_name :: "variant \<Rightarrow> string" where
  "variant_name UnivariateNormal = ''_UnivariateNormal''"
| "variant_name MultivariateNormal = ''_MultivariateNormal''"
| "variant_name MatrixvariateNormal = ''_MatrixvariateNormal''"
| "variant_name OperatorvariateNormal = ''_OperatorvariateNormal''"
| "variant_name SymmetricKroneckerIdenticalFactorsNormal =
     ''_SymmetricKroneckerIdenticalFactorsNormal''"

type_synonym random_state = "nat option"

text \<open>
  An instance of a subclass of \<open>Normal\<close>: its class and what \<open>Normal.__init__\<close> hands to
  the base class (\<open>parameters = {"mean": mean, "cov": cov}\<close> and \<open>random_state\<close>).
\<close>

record 'c normal =
  variant :: variant
  Normal_mean :: "'c pyval"
  Normal_cov :: "'c pyval"
  Normal_random_state :: random_state

definition bind :: "error + 'a \<Rightarrow> ('a \<Rightarrow> error + 'b) \<Rightarrow> error + 'b" where
  "bind r f = (case r of Inl e \<Rightarrow> Inl e | Inr v \<Rightarrow> f v)"

section \<open>\<open>Normal.__new__\<close>: the choice of the subclass\<close>

definition dim1shapes :: "shape list" where
  "dim1shapes = [[1, 1], [1], []]"

definition cannot_instantiate :: "string \<Rightarrow> string \<Rightarrow> string" where
  "cannot_instantiate tm tc =
     ''Cannot instantiate normal distributions with mean of type '' @ tm @
     '' and covariance of type '' @ tc @ ''.''"

text \<open>\<open>Normal.__new__\<close> for \<open>cls is Normal\<close>, branch by branch.\<close>

definition Normal_new :: "'c pyval \<Rightarrow> 'c pyval \<Rightarrow> error + variant" where
  "Normal_new mean cov =
     (if (np_isscalar mean \<and> np_isscalar cov) \<or>
         (np_shape mean \<in> set dim1shapes \<and> np_shape cov \<in> set dim1shapes)
      then Inr UnivariateNormal
      else if isinstance_array mean \<and> isinstance_array cov
      then (if length (np_shape mean) = 1 then Inr MultivariateNormal
            else Inr MatrixvariateNormal)
      else if isinstance_LinearOperator mean \<or> isinstance_LinearOperator cov
      then (if SymmetricKronecker_ABequal cov
            then Inr SymmetricKroneckerIdenticalFactorsNormal
            else Inr OperatorvariateNormal)
      else Inl (ValueError (cannot_instantiate (class_name mean) (class_name cov))))"

section \<open>The \<open>__init__\<close> methods\<close>

text \<open>
  \<open>Normal.__init__\<close> passes the parameters on to \<open>Distribution.__init__\<close>, which is not
  part of the sources at hand; it is taken to store them.
\<close>

definition Normal_init ::
  "variant \<Rightarrow> 'c pyval \<Rightarrow> 'c pyval \<Rightarrow> random_state \<Rightarrow> error + 'c normal" where
  "Normal_init self mean cov rs =
     Inr \<lparr>variant = self, Normal_mean = mean, Normal_cov = cov, Normal_random_state = rs\<rparr>"

text \<open>
  Python's \<open>float(v)\<close>: a \<open>float\<close> is returned as it is; for anything else the
  conversion of the content is the parameter \<open>to_float\<close>, and the result is a \<open>float\<close>.
\<close>

definition py_float :: "('c pyval \<Rightarrow> error + 'c) \<Rightarrow> 'c pyval \<Rightarrow> error + 'c pyval" where
  "py_float to_float v =
     (case v of
        Scalar n g c \<Rightarrow>
          if n = ''float'' \<and> \<not> g then Inr v
          else bind (to_float v) (\<lambda>x. Inr (Scalar ''float'' False x))
      | _ \<Rightarrow> bind (to_float v) (\<lambda>x. Inr (Scalar ''float'' False x)))"

definition UnivariateNormal_init ::
  "('c pyval \<Rightarrow> error + 'c) \<Rightarrow> variant \<Rightarrow> 'c pyval \<Rightarrow> 'c pyval \<Rightarrow> random_state
     \<Rightarrow> error + 'c normal" where
  "UnivariateNormal_init to_float self mean cov rs =
     bind (py_float to_float mean) (\<lambda>m.
     bind (py_float to_float cov) (\<lambda>c.
       Normal_init self m c rs))"

definition shape_mismatch :: string where
  "shape_mismatch =
     ''Shape mismatch of mean and covariance. Total number of elements of the mean must match '' @
     ''the first and second dimension of the covariance.''"

text \<open>
  \<open>np.prod(mean.shape)\<close>: NumPy multiplies the dimensions as signed 64-bit integers, so
  the product wraps around; the product of no dimension is 1.
\<close>

definition np_prod :: "shape \<Rightarrow> int" where
  "np_prod s =
     (let p = int (prod_list s) mod 2 ^ 64 in if p < 2 ^ 63 then p else p - 2 ^ 64)"

definition MultivariateNormal_init ::
  "variant \<Rightarrow> 'c pyval \<Rightarrow> 'c pyval \<Rightarrow> random_state \<Rightarrow> error + 'c normal" where
  "MultivariateNormal_init self mean cov rs =
     bind (shape_attr mean) (\<lambda>mean_shape.
     bind (shape_attr cov) (\<lambda>cov_shape.
       let mean_dim = np_prod mean_shape in
       if length cov_shape \<noteq> 2
       then Inl (ValueError ''Covariance must be a 2D matrix or linear operator.'')
       else if mean_dim \<noteq> int (cov_shape ! 0) \<or> mean_dim \<noteq> int (cov_shape ! 1)
       then Inl (ValueError shape_mismatch)
       else Normal_init self mean cov rs))"

definition MatrixvariateNormal_init ::
  "variant \<Rightarrow> 'c pyval \<Rightarrow> 'c pyval \<Rightarrow> random_state \<Rightarrow> error + 'c normal" where
  "MatrixvariateNormal_init self mean cov rs =
     bind (shape_attr mean) (\<lambda>mean_shape.
     bind (shape_attr cov) (\<lambda>cov_shape.
       let mean_dim = np_prod mean_shape in
       if length cov_shape \<noteq> 2
       then Inl (ValueError ''Covariance must be a 2D matrix.'')
       else if mean_dim \<noteq> int (cov_shape ! 0) \<or> mean_dim \<noteq> int (cov_shape ! 1)
       then Inl (ValueError shape_mismatch)
       else Normal_init self mean cov rs))"

text \<open>\<open>m, n = mean.shape\<close>\<close>

fun unpack2 :: "shape \<Rightarrow> error + nat \<times> nat" where
  "unpack2 [m, n] = Inr (m, n)"
| "unpack2 [] = Inl (ValueError ''not enough values to unpack (expected 2, got 0)'')"
| "unpack2 [m] = Inl (ValueError ''not enough values to unpack (expected 2, got 1)'')"
| "unpack2 _ = Inl (ValueError ''too many values to unpack (expected 2)'')"

text \<open>\<open>s[i]\<close> on a tuple\<close>

definition index :: "shape \<Rightarrow> nat \<Rightarrow> error + nat" where
  "index s i = (if i < length s then Inr (s ! i) else Inl (IndexError ''tuple index out of range''))"

definition kronecker_mismatch :: string where
  "kronecker_mismatch =
     ''Kronecker structured covariance must have factors with the same shape as the mean.''"

definition symmetric_kronecker_mismatch :: string where
  "symmetric_kronecker_mismatch =
     ''Normal distributions with symmetric Kronecker structured covariance must have square mean'' @
     '' and square covariance factors with matching dimensions.''"

text \<open>
  Modelled from the spec: the class \<open>SymmetricKronecker\<close> is not part of the sources at
  hand. "\<open>SymmetricKronecker(A,B)\<close> represents the symmetric Kronecker product acting on
  vectorized symmetric matrices": it takes a symmetric \<open>n\<close> by \<open>n\<close> matrix to one, so
  each of its two factors is square.
\<close>

definition SymmetricKronecker_factors :: "nat \<times> nat \<Rightarrow> nat \<times> nat \<Rightarrow> bool" where
  "SymmetricKronecker_factors A B \<longleftrightarrow> fst A = snd A \<and> fst B = snd B"

text \<open>
  The general case of \<open>_OperatorvariateNormal.__init__\<close>:
  \<open>self._mean_dim != cov.shape[0] or self._mean_dim != cov.shape[1]\<close>, the second
  comparison evaluated only when the first is false.
\<close>

definition general_mismatch :: "int \<Rightarrow> 'c pyval \<Rightarrow> error + bool" where
  "general_mismatch mean_dim cov =
     bind (shape_attr cov) (\<lambda>cov_shape.
     bind (index cov_shape 0) (\<lambda>c0.
       if mean_dim \<noteq> int c0 then Inr True
       else bind (index cov_shape 1) (\<lambda>c1. Inr (mean_dim \<noteq> int c1))))"

definition OperatorvariateNormal_init ::
  "variant \<Rightarrow> 'c pyval \<Rightarrow> 'c pyval \<Rightarrow> random_state \<Rightarrow> error + 'c normal" where
  "OperatorvariateNormal_init self mean cov rs =
     bind (shape_attr mean) (\<lambda>mean_shape.
       let mean_dim = np_prod mean_shape in
       case cov of
         LinOp (Kronecker A B) _ _ \<Rightarrow>
           bind (unpack2 mean_shape) (\<lambda>(m, n).
             if m \<noteq> fst A \<or> m \<noteq> snd A \<or> n \<noteq> fst B \<or> n \<noteq> snd B
             then Inl (ValueError kronecker_mismatch)
             else Normal_init self mean cov rs)
       | LinOp (SymmetricKronecker A B _) _ _ \<Rightarrow>
           bind (unpack2 mean_shape) (\<lambda>(m, n).
             if m \<noteq> n \<or> n \<noteq> fst A \<or> n \<noteq> snd B
             then Inl (ValueError symmetric_kronecker_mismatch)
             else Normal_init self mean cov rs)
       | _ \<Rightarrow>
           bind (general_mismatch mean_dim cov) (\<lambda>bad.
             if bad then Inl (ValueError ''Shape mismatch of mean and covariance.'')
             else Normal_init self mean cov rs))"

text \<open>
  \<open>_SymmetricKroneckerIdenticalFactorsNormal.__init__\<close> tests
  \<open>m != self._n or self._n != cov.A.shape[0] or self._n != cov.B.shape[1]\<close> from left to
  right and then runs the initialiser of its superclass \<open>_OperatorvariateNormal\<close>. The
  factors \<open>A\<close> and \<open>B\<close> are attributes of the two Kronecker classes; \<open>Normal.__new__\<close>
  chooses this class for a \<open>SymmetricKronecker\<close> only.
\<close>

definition SymmetricKroneckerIdenticalFactorsNormal_init ::
  "variant \<Rightarrow> 'c pyval \<Rightarrow> 'c pyval \<Rightarrow> random_state \<Rightarrow> error + 'c normal" where
  "SymmetricKroneckerIdenticalFactorsNormal_init self mean cov rs =
     bind (shape_attr mean) (\<lambda>mean_shape.
     bind (unpack2 mean_shape) (\<lambda>(m, n).
       case cov of
         LinOp (SymmetricKronecker A B _) _ _ \<Rightarrow>
           if m \<noteq> n \<or> n \<noteq> fst A \<or> n \<noteq> snd B
           then Inl (ValueError symmetric_kronecker_mismatch)
           else OperatorvariateNormal_init self mean cov rs
       | LinOp (Kronecker A B) _ _ \<Rightarrow>
           if m \<noteq> n \<or> n \<noteq> fst A \<or> n \<noteq> snd B
           then Inl (ValueError symmetric_kronecker_mismatch)
           else OperatorvariateNormal_init self mean cov rs
       | _ \<Rightarrow>
           if m \<noteq> n then Inl (ValueError symmetric_kronecker_mismatch)
           else Inl (AttributeError (class_name cov))))"

text \<open>\<open>Normal(mean, cov, random_state)\<close>: \<open>__new__\<close>, then the \<open>__init__\<close> of the class chosen.\<close>

definition Normal ::
  "('c pyval \<Rightarrow> error + 'c) \<Rightarrow> 'c pyval \<Rightarrow> 'c pyval \<Rightarrow> random_state \<Rightarrow> error + 'c normal" where
  "Normal to_float mean cov rs =
     bind (Normal_new mean cov) (\<lambda>self.
       case self of
         UnivariateNormal \<Rightarrow> UnivariateNormal_init to_float self mean cov rs
       | MultivariateNormal \<Rightarrow> MultivariateNormal_init self mean cov rs
       | MatrixvariateNormal \<Rightarrow> MatrixvariateNormal_init self mean cov rs
       | OperatorvariateNormal \<Rightarrow> OperatorvariateNormal_init self mean cov rs
       | SymmetricKroneckerIdenticalFactorsNormal \<Rightarrow>
           SymmetricKroneckerIdenticalFactorsNormal_init self mean cov rs)"

section \<open>Other distributions, operands and the collaborators of \<open>normal.py\<close>\<close>

text \<open>
  \<open>Dirac support random_state\<close> is a point mass; its \<open>mean()\<close> is its support.
  \<open>Distribution name random_state\<close> stands for an instance of any other distribution
  class. An operand of an arithmetic operator is a value or a distribution.
\<close>

datatype 'c distribution =
    NormalDist "'c normal"
  | Dirac "'c pyval" random_state
  | Distribution string random_state

datatype 'c pyobj = Val "'c pyval" | Dist "'c distribution"

fun distribution_name :: "'c distribution \<Rightarrow> string" where
  "distribution_name (NormalDist N) = variant_name (variant N)"
| "distribution_name (Dirac _ _) = ''Dirac''"
| "distribution_name (Distribution n _) = n"

text \<open>\<open>other.__class__.__name__\<close>\<close>

fun obj_class_name :: "'c pyobj \<Rightarrow> string" where
  "obj_class_name (Val v) = class_name v"
| "obj_class_name (Dist d) = distribution_name d"

text \<open>
  What \<open>normal.py\<close> calls and does not define: the built-in \<open>float\<close>, \<open>asdist\<close>, the
  comparison \<open>x == 0\<close> taken as a truth value, the arithmetic of NumPy and SciPy on values
  (\<open>+\<close>, \<open>*\<close>, \<open>**\<close>, \<open>@\<close>, unary \<open>-\<close> and \<open>+\<close>, \<open>.transpose()\<close>/\<open>.T\<close>, \<open>np.squeeze\<close>),
  the content of an integer literal, the operator constructors \<open>Identity\<close> and
  \<open>Kronecker\<close>, and the operators of the other distribution classes (\<open>-d\<close>, \<open>~d\<close>,
  \<open>d * e\<close>). They are parameters of the model; each may raise.
\<close>

record 'c externals =
  to_float :: "'c pyval \<Rightarrow> error + 'c"
  asdist :: "'c pyobj \<Rightarrow> error + 'c distribution"
  eq_zero :: "'c pyobj \<Rightarrow> error + bool"
  int_content :: "int \<Rightarrow> 'c"
  py_add :: "'c pyval \<Rightarrow> 'c pyval \<Rightarrow> error + 'c pyval"
  py_mul :: "'c pyval \<Rightarrow> 'c pyval \<Rightarrow> error + 'c pyval"
  py_pow :: "'c pyval \<Rightarrow> 'c pyval \<Rightarrow> error + 'c pyval"
  py_matmul :: "'c pyval \<Rightarrow> 'c pyval \<Rightarrow> error + 'c pyval"
  py_neg :: "'c pyval \<Rightarrow> error + 'c pyval"
  py_pos :: "'c pyval \<Rightarrow> error + 'c pyval"
  py_transpose :: "'c pyval \<Rightarrow> error + 'c pyval"
  np_squeeze :: "'c pyval \<Rightarrow> error + 'c pyval"
  linops_Identity :: "nat \<Rightarrow> error + 'c pyval"
  linops_Kronecker :: "'c pyval \<Rightarrow> 'c pyval \<Rightarrow> error + 'c pyval"
  dist_neg :: "'c distribution \<Rightarrow> error + 'c distribution"
  dist_inv :: "'c distribution \<Rightarrow> error + 'c distribution"
  dist_mul :: "'c distribution \<Rightarrow> 'c distribution \<Rightarrow> error + 'c distribution"

text \<open>An integer literal of the source, such as the \<open>0\<close> of \<open>0 * self.mean()\<close>.\<close>

definition int_lit :: "'c externals \<Rightarrow> int \<Rightarrow> 'c pyval" where
  "int_lit ext i = Scalar ''int'' False (int_content ext i)"

text \<open>\<open>Normal(mean=..., cov=..., random_state=...)\<close> as an expression inside a method.\<close>

definition Normal_dist ::
  "'c externals \<Rightarrow> 'c pyval \<Rightarrow> 'c pyval \<Rightarrow> random_state \<Rightarrow> error + 'c distribution" where
  "Normal_dist ext mean cov rs = bind (Normal (to_float ext) mean cov rs) (\<lambda>N. Inr (NormalDist N))"

definition not_implemented_for :: "string \<Rightarrow> string \<Rightarrow> string \<Rightarrow> string" where
  "not_implemented_for what a b = what @ '' not implemented for '' @ a @ '' and '' @ b @ ''.''"

section \<open>Binary arithmetic operations\<close>

text \<open>
  The methods as functions: from what the receiver stores and the operand to what the
  result stores, or to the exception raised. Which object the result is, and what becomes
  of the objects that exist, is the matter of the section on distributions as objects
  below, where the methods that only raise (\<open>__pow__\<close>, \<open>__rpow__\<close> and the augmented
  assignments) and \<open>__pos__\<close> and \<open>__abs__\<close> are found as well.
\<close>

definition Normal_add :: "'c externals \<Rightarrow> 'c normal \<Rightarrow> 'c pyobj \<Rightarrow> error + 'c distribution" where
  "Normal_add ext self other =
     bind (asdist ext other) (\<lambda>otherdist.
       case otherdist of
         Dirac delta _ \<Rightarrow>
           bind (py_add ext (Normal_mean self) delta) (\<lambda>m.
             Normal_dist ext m (Normal_cov self) (Normal_random_state self))
       | _ \<Rightarrow> Inl (NotImplementedError (not_implemented_for ''Addition''
                  (variant_name (variant self)) (obj_class_name other))))"

definition Normal_sub :: "'c externals \<Rightarrow> 'c normal \<Rightarrow> 'c pyobj \<Rightarrow> error + 'c distribution" where
  "Normal_sub ext self other =
     bind (asdist ext other) (\<lambda>otherdist.
       case otherdist of
         Dirac _ _ \<Rightarrow>
           bind (dist_neg ext otherdist) (\<lambda>negated. Normal_add ext self (Dist negated))
       | _ \<Rightarrow> Inl (NotImplementedError (not_implemented_for ''Subtraction''
                  (variant_name (variant self)) (obj_class_name other))))"

definition Normal_mul :: "'c externals \<Rightarrow> 'c normal \<Rightarrow> 'c pyobj \<Rightarrow> error + 'c distribution" where
  "Normal_mul ext self other =
     bind (asdist ext other) (\<lambda>otherdist.
       case otherdist of
         Dirac delta _ \<Rightarrow>
           bind (eq_zero ext (Val delta)) (\<lambda>zero.
             if zero
             then bind (py_mul ext (int_lit ext 0) (Normal_mean self)) (\<lambda>support.
                    Inr (Dirac support (Normal_random_state self)))
             else bind (py_mul ext (Normal_mean self) delta) (\<lambda>m.
                  bind (py_pow ext delta (int_lit ext 2)) (\<lambda>delta2.
                  bind (py_mul ext (Normal_cov self) delta2) (\<lambda>c.
                    Normal_dist ext m c (Normal_random_state self)))))
       | _ \<Rightarrow> Inl (NotImplementedError (not_implemented_for ''Multiplication''
                  (variant_name (variant self)) (obj_class_name other))))"

definition Normal_truediv :: "'c externals \<Rightarrow> 'c normal \<Rightarrow> 'c pyobj \<Rightarrow> error + 'c distribution" where
  "Normal_truediv ext self other =
     bind (eq_zero ext other) (\<lambda>zero.
       if zero then Inl (ZeroDivisionError ''Division by zero not supported.'')
       else bind (asdist ext other) (\<lambda>otherdist.
         case otherdist of
           Dirac _ _ \<Rightarrow>
             bind (dist_inv ext otherdist) (\<lambda>inverted. Normal_mul ext self (Dist inverted))
         | _ \<Rightarrow> Inl (NotImplementedError (not_implemented_for ''Division''
                    (variant_name (variant self)) (obj_class_name other)))))"

section \<open>Unary arithmetic operations\<close>

text \<open>\<open>try: ... except Exception: raise NotImplementedError(...)\<close>\<close>

definition except_NotImplementedError :: "string \<Rightarrow> error + 'a \<Rightarrow> error + 'a" where
  "except_NotImplementedError msg r =
     (case r of Inl _ \<Rightarrow> Inl (NotImplementedError msg) | Inr v \<Rightarrow> Inr v)"

definition Normal_neg :: "'c externals \<Rightarrow> 'c normal \<Rightarrow> error + 'c distribution" where
  "Normal_neg ext self =
     except_NotImplementedError
       (''Negation not implemented for '' @ variant_name (variant self) @ ''.'')
       (bind (py_neg ext (Normal_mean self)) (\<lambda>m.
          Normal_dist ext m (Normal_cov self) (Normal_random_state self)))"

text \<open>
  \<open>__invert__\<close> returns
  \<open>Distribution(parameters={}, sample=lambda size: operator.abs(self.sample(size=size)), ...)\<close>.
\<close>

definition Normal_invert :: "'c externals \<Rightarrow> 'c normal \<Rightarrow> error + 'c distribution" where
  "Normal_invert ext self = Inr (Distribution ''Distribution'' (Normal_random_state self))"

section \<open>Binary arithmetic operations with reflected operands\<close>

definition Normal_radd :: "'c externals \<Rightarrow> 'c normal \<Rightarrow> 'c pyobj \<Rightarrow> error + 'c distribution" where
  "Normal_radd ext self other =
     bind (asdist ext other) (\<lambda>otherdist.
       case otherdist of
         Dirac _ _ \<Rightarrow> Normal_add ext self (Dist otherdist)
       | _ \<Rightarrow> Inl (NotImplementedError (not_implemented_for ''Addition''
                  (obj_class_name other) (variant_name (variant self)))))"

definition Normal_rsub :: "'c externals \<Rightarrow> 'c normal \<Rightarrow> 'c pyobj \<Rightarrow> error + 'c distribution" where
  "Normal_rsub ext self other =
     bind (asdist ext other) (\<lambda>otherdist.
       case otherdist of
         Dirac _ _ \<Rightarrow>
           bind (Normal_neg ext self) (\<lambda>negated.
             case negated of
               NormalDist N \<Rightarrow> Normal_add ext N (Dist otherdist)
             | _ \<Rightarrow> Inl (TypeError ''unsupported operand type(s) for +''))
       | _ \<Rightarrow> Inl (NotImplementedError (not_implemented_for ''Subtraction''
                  (obj_class_name other) (variant_name (variant self)))))"

definition Normal_rmul :: "'c externals \<Rightarrow> 'c normal \<Rightarrow> 'c pyobj \<Rightarrow> error + 'c distribution" where
  "Normal_rmul ext self other =
     bind (asdist ext other) (\<lambda>otherdist.
       case otherdist of
         Dirac _ _ \<Rightarrow> Normal_mul ext self (Dist otherdist)
       | _ \<Rightarrow> Inl (NotImplementedError (not_implemented_for ''Multiplication''
                  (obj_class_name other) (variant_name (variant self)))))"

text \<open>
  \<open>Normal.__rmatmul__\<close>; the override in \<open>_MultivariateNormal\<close> differs only in writing
  \<open>delta.T\<close> for \<open>delta.transpose()\<close>.
\<close>

definition Normal_rmatmul :: "'c externals \<Rightarrow> 'c normal \<Rightarrow> 'c pyobj \<Rightarrow> error + 'c distribution" where
  "Normal_rmatmul ext self other =
     bind (asdist ext other) (\<lambda>otherdist.
       case otherdist of
         Dirac delta _ \<Rightarrow>
           bind (py_matmul ext delta (Normal_mean self)) (\<lambda>m.
           bind (py_transpose ext delta) (\<lambda>deltaT.
           bind (py_matmul ext (Normal_cov self) deltaT) (\<lambda>c1.
           bind (py_matmul ext delta c1) (\<lambda>c.
             Normal_dist ext m c (Normal_random_state self)))))
       | _ \<Rightarrow> Inl (NotImplementedError (not_implemented_for ''Matrix multiplication''
                  (obj_class_name other) (variant_name (variant self)))))"

definition Normal_rtruediv :: "'c externals \<Rightarrow> 'c normal \<Rightarrow> 'c pyobj \<Rightarrow> error + 'c distribution" where
  "Normal_rtruediv ext self other =
     bind (asdist ext other) (\<lambda>otherdist.
       case otherdist of
         Dirac _ _ \<Rightarrow>
           bind (Normal_invert ext self) (\<lambda>inverted. dist_mul ext inverted otherdist)
       | _ \<Rightarrow> Inl (NotImplementedError (not_implemented_for ''Division''
                  (obj_class_name other) (variant_name (variant self)))))"

section \<open>Matrix multiplication, class by class\<close>

definition UnivariateNormal_matmul ::
  "'c externals \<Rightarrow> 'c normal \<Rightarrow> 'c pyobj \<Rightarrow> error + 'c distribution" where
  "UnivariateNormal_matmul ext self other =
     bind (asdist ext other) (\<lambda>otherdist.
       case otherdist of
         Dirac delta _ \<Rightarrow>
           bind (py_matmul ext (Normal_mean self) delta) (\<lambda>m1.
           bind (np_squeeze ext m1) (\<lambda>m.
           bind (py_transpose ext delta) (\<lambda>deltaT.
           bind (py_matmul ext (Normal_cov self) deltaT) (\<lambda>c1.
           bind (py_matmul ext delta c1) (\<lambda>c2.
           bind (np_squeeze ext c2) (\<lambda>c.
             Normal_dist ext m c (Normal_random_state self)))))))
       | _ \<Rightarrow> Inl (NotImplementedError (not_implemented_for ''Matrix multiplication''
                  (variant_name (variant self)) (obj_class_name other))))"

definition MultivariateNormal_matmul ::
  "'c externals \<Rightarrow> 'c normal \<Rightarrow> 'c pyobj \<Rightarrow> error + 'c distribution" where
  "MultivariateNormal_matmul ext self other =
     bind (asdist ext other) (\<lambda>otherdist.
       case otherdist of
         Dirac delta _ \<Rightarrow>
           bind (py_matmul ext (Normal_mean self) delta) (\<lambda>m.
           bind (py_transpose ext delta) (\<lambda>deltaT.
           bind (py_matmul ext (Normal_cov self) delta) (\<lambda>c1.
           bind (py_matmul ext deltaT c1) (\<lambda>c.
             Normal_dist ext m c (Normal_random_state self)))))
       | _ \<Rightarrow> Inl (NotImplementedError (not_implemented_for ''Matrix multiplication''
                  (variant_name (variant self)) (obj_class_name other))))"

definition MatrixvariateNormal_matmul ::
  "'c externals \<Rightarrow> 'c normal \<Rightarrow> 'c pyobj \<Rightarrow> error + 'c distribution" where
  "MatrixvariateNormal_matmul ext self other =
     bind (asdist ext other) (\<lambda>otherdist.
       case otherdist of
         Dirac delta _ \<Rightarrow> Inl (NotImplementedError [])
       | _ \<Rightarrow> Inl (NotImplementedError (not_implemented_for ''Matrix multiplication''
                  (variant_name (variant self)) (obj_class_name other))))"

definition OperatorvariateNormal_matmul ::
  "'c externals \<Rightarrow> 'c normal \<Rightarrow> 'c pyobj \<Rightarrow> error + 'c distribution" where
  "OperatorvariateNormal_matmul ext self other =
     bind (asdist ext other) (\<lambda>otherdist.
       case otherdist of
         Dirac othermean _ \<Rightarrow>
           bind (shape_attr othermean) (\<lambda>othershape.
           bind (index othershape 0) (\<lambda>k.
           bind (linops_Identity ext k) (\<lambda>identity.
           bind (linops_Kronecker ext identity othermean) (\<lambda>delta.
           bind (py_matmul ext (Normal_mean self) othermean) (\<lambda>m.
           bind (py_transpose ext delta) (\<lambda>deltaT.
           bind (py_matmul ext (Normal_cov self) delta) (\<lambda>c1.
           bind (py_matmul ext deltaT c1) (\<lambda>c.
             Normal_dist ext m c (Normal_random_state self)))))))))
       | _ \<Rightarrow> Inl (NotImplementedError (not_implemented_for ''Matrix multiplication''
                  (variant_name (variant self)) (obj_class_name other))))"

text \<open>
  \<open>self @ other\<close>: the method of the class of \<open>self\<close>;
  \<open>_SymmetricKroneckerIdenticalFactorsNormal\<close> inherits that of \<open>_OperatorvariateNormal\<close>.
\<close>

definition Normal_matmul :: "'c externals \<Rightarrow> 'c normal \<Rightarrow> 'c pyobj \<Rightarrow> error + 'c distribution" where
  "Normal_matmul ext self other =
     (case variant self of
        UnivariateNormal \<Rightarrow> UnivariateNormal_matmul ext self other
      | MultivariateNormal \<Rightarrow> MultivariateNormal_matmul ext self other
      | MatrixvariateNormal \<Rightarrow> MatrixvariateNormal_matmul ext self other
      | OperatorvariateNormal \<Rightarrow> OperatorvariateNormal_matmul ext self other
      | SymmetricKroneckerIdenticalFactorsNormal \<Rightarrow> OperatorvariateNormal_matmul ext self other)"

section \<open>The cases of the construction, in the words of the specification\<close>

text \<open>
  "A scalar mean and cov (or shapes \<open>()\<close>, \<open>(1,)\<close>, \<open>(1,1)\<close>)", "dense array/sparse mean
  and cov", "a LinearOperator-typed mean or cov".
\<close>

definition univariate_args :: "'c pyval \<Rightarrow> 'c pyval \<Rightarrow> bool" where
  "univariate_args mean cov \<longleftrightarrow>
     (np_isscalar mean \<and> np_isscalar cov) \<or>
     (np_shape mean \<in> {[], [1], [1, 1]} \<and> np_shape cov \<in> {[], [1], [1, 1]})"

definition array_args :: "'c pyval \<Rightarrow> 'c pyval \<Rightarrow> bool" where
  "array_args mean cov \<longleftrightarrow> isinstance_array mean \<and> isinstance_array cov"

definition operator_args :: "'c pyval \<Rightarrow> 'c pyval \<Rightarrow> bool" where
  "operator_args mean cov \<longleftrightarrow> isinstance_LinearOperator mean \<or> isinstance_LinearOperator cov"

section \<open>What the constructor establishes\<close>

text \<open>
  \<open>restore m c rs r\<close>: the outcome \<open>r\<close> of a construction with the stored parameters
  replaced by \<open>m\<close>, \<open>c\<close> and \<open>rs\<close>.
\<close>

definition restore :: "'c pyval \<Rightarrow> 'c pyval \<Rightarrow> random_state \<Rightarrow> error + 'c normal \<Rightarrow> error + 'c normal" where
  "restore m c rs r =
     (case r of Inl e \<Rightarrow> Inl e
      | Inr N \<Rightarrow> Inr (N\<lparr>Normal_mean := m, Normal_cov := c, Normal_random_state := rs\<rparr>))"

text \<open>
  A Normal is \<open>constructed\<close> when the constructor, given the parameters it stores, builds
  just it: its class is the one \<open>Normal.__new__\<close> selects for them and they pass the
  checks of its \<open>__init__\<close>.
\<close>

definition constructed :: "('c pyval \<Rightarrow> error + 'c) \<Rightarrow> 'c normal \<Rightarrow> bool" where
  "constructed tf N \<longleftrightarrow>
     Normal tf (Normal_mean N) (Normal_cov N) (Normal_random_state N) = Inr N"

text \<open>\<open>isinstance(otherdist, Dirac)\<close>\<close>

fun isinstance_Dirac :: "'c distribution \<Rightarrow> bool" where
  "isinstance_Dirac (Dirac _ _) = True"
| "isinstance_Dirac _ = False"

text \<open>"The other operand converts to an exact point-mass (Dirac) distribution."\<close>

definition converts_to_Dirac :: "'c externals \<Rightarrow> 'c pyobj \<Rightarrow> bool" where
  "converts_to_Dirac ext other =
     (case asdist ext other of Inl _ \<Rightarrow> False | Inr otherdist \<Rightarrow> isinstance_Dirac otherdist)"

text \<open>"A newly constructed distribution": what \<open>Normal(...)\<close>, \<open>Dirac(...)\<close> or \<open>Distribution(...)\<close> returns.\<close>

fun newly_constructed :: "('c pyval \<Rightarrow> error + 'c) \<Rightarrow> 'c distribution \<Rightarrow> bool" where
  "newly_constructed tf (NormalDist N) = constructed tf N"
| "newly_constructed tf (Dirac _ _) = True"
| "newly_constructed tf (Distribution _ _) = True"

section \<open>A fragment of Python and NumPy for the examples\<close>

text \<open>
  For the examples the content of a value is the list of its entries, which are whole
  numbers: an entry \<open>n\<close> of a \<open>float\<close> or of an array (of dtype \<open>float64\<close>) stands for
  the binary64 number of that value, an entry of an \<open>int\<close> for that integer. Binary64
  holds the whole number \<open>n\<close> exactly when \<open>n = m * 2 ^ e\<close> with \<open>\<bar>m\<bar> < 2 ^ 53\<close> and
  \<open>e \<le> 971\<close>. The fragment gives a result only where Python and NumPy compute it without
  rounding. The \<open>OverflowError\<close> of \<open>**\<close> is given with an empty message, its text being
  that of the C library at hand. Whatever else there is, is reported as the \<open>TypeError\<close>
  \<open>not_covered\<close>, which stands for no behaviour of Python.
\<close>

definition not_covered :: "error + 'a" where
  "not_covered = Inl (TypeError ''not covered'')"

definition binary64 :: "int \<Rightarrow> bool" where
  "binary64 n \<longleftrightarrow> (\<exists>e \<le> 971. 2 ^ e dvd n \<and> \<bar>n div 2 ^ e\<bar> < 2 ^ 53)"

text \<open>The classes of numbers of the fragment: Python's \<open>float\<close> and \<open>int\<close>.\<close>

definition number_class :: "string \<Rightarrow> bool \<Rightarrow> bool" where
  "number_class n g \<longleftrightarrow> \<not> g \<and> (n = ''float'' \<or> n = ''int'')"

text \<open>
  \<open>float(v)\<close> for a \<open>float\<close>, for an \<open>int\<close> that binary64 holds, and for an array with
  exactly one entry.
\<close>

definition np_to_float :: "int list pyval \<Rightarrow> error + int list" where
  "np_to_float v =
     (case v of
        Scalar n g c \<Rightarrow>
          if number_class n g \<and> length c = 1 \<and> list_all binary64 c then Inr c else not_covered
      | ndarray s c \<Rightarrow>
          if prod_list s = 1 \<and> length c = 1 \<and> list_all binary64 c then Inr c else not_covered
      | _ \<Rightarrow> not_covered)"

text \<open>
  The class of the result of \<open>+\<close> and \<open>*\<close> on two numbers: an \<open>int\<close> for two \<open>int\<close>s, a
  \<open>float\<close> otherwise. An \<open>int\<close> is exact whatever its size.
\<close>

definition result_class :: "string \<Rightarrow> string \<Rightarrow> string" where
  "result_class n n' = (if n = ''int'' \<and> n' = ''int'' then ''int'' else ''float'')"

text \<open>
  An operation on numbers of which one is a \<open>float\<close> is exact when the operands and the
  result are numbers that binary64 holds.
\<close>

definition exact :: "string \<Rightarrow> int list \<Rightarrow> bool" where
  "exact n xs \<longleftrightarrow> n = ''int'' \<or> list_all binary64 xs"

text \<open>
  \<open>+\<close> and \<open>*\<close> (the argument \<open>f\<close>) on two numbers, on a number and an array, and on
  two arrays of one shape; the arrays have at least one axis.
\<close>

fun np_elementwise ::
  "(int \<Rightarrow> int \<Rightarrow> int) \<Rightarrow> int list pyval \<Rightarrow> int list pyval \<Rightarrow> error + int list pyval" where
  "np_elementwise f (Scalar n g [a]) (Scalar n' g' [b]) =
     (if number_class n g \<and> number_class n' g' \<and> exact (result_class n n') [a, b, f a b]
      then Inr (Scalar (result_class n n') False [f a b]) else not_covered)"
| "np_elementwise f (Scalar n g [a]) (ndarray s ys) =
     (if number_class n g \<and> s \<noteq> [] \<and> list_all binary64 (a # ys @ map (f a) ys)
      then Inr (ndarray s (map (f a) ys)) else not_covered)"
| "np_elementwise f (ndarray s xs) (Scalar n g [b]) =
     (if number_class n g \<and> s \<noteq> [] \<and> list_all binary64 (b # xs @ map (\<lambda>a. f a b) xs)
      then Inr (ndarray s (map (\<lambda>a. f a b) xs)) else not_covered)"
| "np_elementwise f (ndarray s xs) (ndarray t ys) =
     (if s = t \<and> s \<noteq> [] \<and> length xs = length ys \<and>
         list_all binary64 (xs @ ys @ map2 f xs ys)
      then Inr (ndarray s (map2 f xs ys)) else not_covered)"
| "np_elementwise f _ _ = not_covered"

text \<open>
  \<open>x ** k\<close> for two numbers, \<open>k\<close> not negative. The power of two \<open>int\<close>s is an \<open>int\<close>;
  otherwise it is a power of \<open>float\<close>s, which raises \<open>OverflowError\<close> when it is out of
  the range of binary64.
\<close>

fun np_pow :: "int list pyval \<Rightarrow> int list pyval \<Rightarrow> error + int list pyval" where
  "np_pow (Scalar n g [a]) (Scalar n' g' [k]) =
     (if number_class n g \<and> number_class n' g' \<and> 0 \<le> k
      then if n = ''int'' \<and> n' = ''int'' then Inr (Scalar ''int'' False [a ^ nat k])
           else if \<not> (binary64 a \<and> binary64 k) then not_covered
           else if 2 ^ 1024 \<le> \<bar>a ^ nat k\<bar> then Inl (OverflowError [])
           else if binary64 (a ^ nat k) then Inr (Scalar ''float'' False [a ^ nat k])
           else not_covered
      else not_covered)"
| "np_pow _ _ = not_covered"

text \<open>Unary \<open>-\<close> and \<open>+\<close>.\<close>

fun np_negative :: "int list pyval \<Rightarrow> error + int list pyval" where
  "np_negative (Scalar n g xs) =
     (if number_class n g then Inr (Scalar n g (map uminus xs)) else not_covered)"
| "np_negative (ndarray s xs) = (if s \<noteq> [] then Inr (ndarray s (map uminus xs)) else not_covered)"
| "np_negative _ = not_covered"

fun np_positive :: "int list pyval \<Rightarrow> error + int list pyval" where
  "np_positive (Scalar n g xs) = (if number_class n g then Inr (Scalar n g xs) else not_covered)"
| "np_positive (ndarray s xs) = (if s \<noteq> [] then Inr (ndarray s xs) else not_covered)"
| "np_positive _ = not_covered"

text \<open>
  \<open>asdist\<close>: a distribution is returned as it is, a number or an array becomes the point
  mass at it.
\<close>

fun np_asdist :: "int list pyobj \<Rightarrow> error + int list distribution" where
  "np_asdist (Dist d) = Inr d"
| "np_asdist (Val (Scalar n g xs)) =
     (if number_class n g then Inr (Dirac (Scalar n g xs) None) else not_covered)"
| "np_asdist (Val (ndarray s xs)) = Inr (Dirac (ndarray s xs) None)"
| "np_asdist _ = not_covered"

text \<open>
  The truth value of \<open>x == 0\<close>: for a number and for an array with one entry, whether it
  is zero; an array with more entries has no truth value; a distribution is not equal to
  \<open>0\<close>.
\<close>

fun np_eq_zero :: "int list pyobj \<Rightarrow> error + bool" where
  "np_eq_zero (Val (Scalar n g xs)) = (if number_class n g then Inr (xs = [0]) else not_covered)"
| "np_eq_zero (Val (ndarray s xs)) =
     (if length xs = 1 then Inr (xs = [0])
      else if 1 < length xs
      then Inl (ValueError (''The truth value of an array with more than one element is '' @
                  ''ambiguous. Use a.any() or a.all()''))
      else not_covered)"
| "np_eq_zero (Dist d) = Inr False"
| "np_eq_zero _ = not_covered"

text \<open>The negation of a point mass is the point mass at the negated support.\<close>

fun np_dist_neg :: "int list distribution \<Rightarrow> error + int list distribution" where
  "np_dist_neg (Dirac v rs) = bind (np_negative v) (\<lambda>w. Inr (Dirac w rs))"
| "np_dist_neg _ = not_covered"

definition np_ext :: "int list externals" where
  "np_ext =
     \<lparr>to_float = np_to_float,
      asdist = np_asdist,
      eq_zero = np_eq_zero,
      int_content = (\<lambda>i. [i]),
      py_add = np_elementwise (+),
      py_mul = np_elementwise (*),
      py_pow = np_pow,
      py_matmul = (\<lambda>_ _. not_covered),
      py_neg = np_negative,
      py_pos = np_positive,
      py_transpose = (\<lambda>_. not_covered),
      np_squeeze = (\<lambda>_. not_covered),
      linops_Identity = (\<lambda>_. not_covered),
      linops_Kronecker = (\<lambda>_ _. not_covered),
      dist_neg = np_dist_neg,
      dist_inv = (\<lambda>_. not_covered),
      dist_mul = (\<lambda>_ _. not_covered)\<rparr>"

text \<open>\<open>Normal(mean=1., cov=1.)\<close>\<close>

definition N_one :: "int list normal" where
  "N_one =
     \<lparr>variant = UnivariateNormal, Normal_mean = Scalar ''float'' False [1],
      Normal_cov = Scalar ''float'' False [1], Normal_random_state = None\<rparr>"

text \<open>\<open>Normal(mean=np.array([1., 2.]), cov=np.eye(2))\<close>\<close>

definition N_two :: "int list normal" where
  "N_two =
     \<lparr>variant = MultivariateNormal, Normal_mean = ndarray [2] [1, 2],
      Normal_cov = ndarray [2, 2] [1, 0, 0, 1], Normal_random_state = None\<rparr>"

text \<open>The \<open>float\<close> \<open>2.0 ** 600\<close>, whose square is out of the range of binary64.\<close>

definition huge :: int where
  "huge = 2 ^ 600"

section \<open>Distributions as objects\<close>

text \<open>
  A distribution is an object: two names may stand for one object, and a method may
  change an object or return one that exists already. The heap holds the distribution
  objects in the order of their creation, and a reference is a position in it; creating
  an object appends it. Numbers, arrays and operators stay values: \<open>normal.py\<close> has no
  statement that changes one. An operand is such a value or a reference to a distribution.
  The methods of \<open>Normal\<close> are given here statement by statement, with \<open>self\<close> a reference.
\<close>

type_synonym ref = nat

type_synonym 'c heap = "'c distribution list"

datatype 'c operand = Value "'c pyval" | Reference ref

text \<open>
  A piece of code takes the heap and gives back a result, or the exception it raises,
  and the heap as it leaves it.
\<close>

type_synonym ('c, 'a) action = "'c heap \<Rightarrow> (error + 'a) \<times> 'c heap"

text \<open>An expression that does not touch the heap.\<close>

definition returns :: "error + 'a \<Rightarrow> ('c, 'a) action" where
  "returns r = (\<lambda>h. (r, h))"

text \<open>One statement after another; an exception ends the sequence.\<close>

definition and_then :: "('c, 'a) action \<Rightarrow> ('a \<Rightarrow> ('c, 'b) action) \<Rightarrow> ('c, 'b) action" where
  "and_then a f = (\<lambda>h. case a h of (Inl e, h') \<Rightarrow> (Inl e, h') | (Inr v, h') \<Rightarrow> f v h')"

text \<open>The creation of an object.\<close>

definition allocate :: "'c distribution \<Rightarrow> ('c, ref) action" where
  "allocate d = (\<lambda>h. (Inr (length h), h @ [d]))"

text \<open>
  The object behind a reference. Every reference of Python stands for an object; a
  position beyond the heap is no reference of Python, and reading it is an error of the
  model.
\<close>

definition no_object :: "error + 'a" where
  "no_object = Inl (TypeError ''no such object'')"

definition lookup :: "ref \<Rightarrow> ('c, 'c distribution) action" where
  "lookup r = (\<lambda>h. (if r < length h then Inr (h ! r) else no_object, h))"

text \<open>\<open>self\<close> in a method of \<open>Normal\<close>: its class, \<open>self.mean()\<close>, \<open>self.cov()\<close>, \<open>self.random_state\<close>.\<close>

definition self_Normal :: "ref \<Rightarrow> ('c, 'c normal) action" where
  "self_Normal self =
     and_then (lookup self) (\<lambda>d.
       case d of NormalDist N \<Rightarrow> returns (Inr N) | _ \<Rightarrow> returns no_object)"

text \<open>\<open>other.__class__.__name__\<close>\<close>

definition operand_class_name :: "'c operand \<Rightarrow> ('c, string) action" where
  "operand_class_name other =
     (case other of
        Value v \<Rightarrow> returns (Inr (class_name v))
      | Reference r \<Rightarrow> and_then (lookup r) (\<lambda>d. returns (Inr (distribution_name d))))"

text \<open>
  The calls \<open>Normal(mean=..., cov=..., random_state=...)\<close>, \<open>Dirac(support=...,
  random_state=...)\<close> and \<open>Distribution(parameters={}, sample=..., random_state=...)\<close>: each
  creates an object; the first runs \<open>__new__\<close> and \<open>__init__\<close> before.
\<close>

definition Normal_object ::
  "'c externals \<Rightarrow> 'c pyval \<Rightarrow> 'c pyval \<Rightarrow> random_state \<Rightarrow> ('c, ref) action" where
  "Normal_object ext mean cov rs =
     and_then (returns (Normal (to_float ext) mean cov rs)) (\<lambda>N. allocate (NormalDist N))"

definition Dirac_object :: "'c pyval \<Rightarrow> random_state \<Rightarrow> ('c, ref) action" where
  "Dirac_object support rs = allocate (Dirac support rs)"

definition Distribution_object :: "random_state \<Rightarrow> ('c, ref) action" where
  "Distribution_object rs = allocate (Distribution ''Distribution'' rs)"

text \<open>
  What \<open>normal.py\<close> calls on objects and does not define: \<open>asdist\<close>, the comparison
  \<open>x == 0\<close>, and the operators of the other distribution classes (\<open>-d\<close>, \<open>~d\<close>, \<open>d * e\<close>).
  Each may create objects, change objects and raise.
\<close>

record 'c object_externals =
  asdist_object :: "'c operand \<Rightarrow> ('c, ref) action"
  eq_zero_object :: "'c operand \<Rightarrow> ('c, bool) action"
  neg_object :: "ref \<Rightarrow> ('c, ref) action"
  inv_object :: "ref \<Rightarrow> ('c, ref) action"
  mul_object :: "ref \<Rightarrow> ref \<Rightarrow> ('c, ref) action"

text \<open>
  \<open>raise NotImplementedError("... not implemented for {} and {}.".format(...))\<close> with
  the class names of \<open>self\<close> and \<open>other\<close>, in this order or, in a reflected method, in
  the other.
\<close>

definition raise_not_implemented ::
  "string \<Rightarrow> bool \<Rightarrow> ref \<Rightarrow> 'c operand \<Rightarrow> ('c, 'a) action" where
  "raise_not_implemented what reflected self other =
     and_then (self_Normal self) (\<lambda>N.
     and_then (operand_class_name other) (\<lambda>name.
       returns (Inl (NotImplementedError
         (if reflected then not_implemented_for what name (variant_name (variant N))
          else not_implemented_for what (variant_name (variant N)) name)))))"

text \<open>\<open>try: ... except Exception: raise NotImplementedError(msg)\<close>\<close>

definition except_raise :: "string \<Rightarrow> ('c, 'a) action \<Rightarrow> ('c, 'a) action" where
  "except_raise msg a =
     (\<lambda>h. case a h of (Inl _, h') \<Rightarrow> (Inl (NotImplementedError msg), h')
                    | (Inr v, h') \<Rightarrow> (Inr v, h'))"

subsection \<open>Binary arithmetic operations\<close>

definition Normal_add_object ::
  "'c externals \<Rightarrow> 'c object_externals \<Rightarrow> ref \<Rightarrow> 'c operand \<Rightarrow> ('c, ref) action" where
  "Normal_add_object ext oext self other =
     and_then (asdist_object oext other) (\<lambda>otherdist.
     and_then (lookup otherdist) (\<lambda>d.
       case d of
         Dirac delta _ \<Rightarrow>
           and_then (self_Normal self) (\<lambda>N.
           and_then (returns (py_add ext (Normal_mean N) delta)) (\<lambda>m.
             Normal_object ext m (Normal_cov N) (Normal_random_state N)))
       | _ \<Rightarrow> raise_not_implemented ''Addition'' False self other))"

definition Normal_sub_object ::
  "'c externals \<Rightarrow> 'c object_externals \<Rightarrow> ref \<Rightarrow> 'c operand \<Rightarrow> ('c, ref) action" where
  "Normal_sub_object ext oext self other =
     and_then (asdist_object oext other) (\<lambda>otherdist.
     and_then (lookup otherdist) (\<lambda>d.
       case d of
         Dirac _ _ \<Rightarrow>
           and_then (neg_object oext otherdist) (\<lambda>negated.
             Normal_add_object ext oext self (Reference negated))
       | _ \<Rightarrow> raise_not_implemented ''Subtraction'' False self other))"

definition Normal_mul_object ::
  "'c externals \<Rightarrow> 'c object_externals \<Rightarrow> ref \<Rightarrow> 'c operand \<Rightarrow> ('c, ref) action" where
  "Normal_mul_object ext oext self other =
     and_then (asdist_object oext other) (\<lambda>otherdist.
     and_then (lookup otherdist) (\<lambda>d.
       case d of
         Dirac delta _ \<Rightarrow>
           and_then (eq_zero_object oext (Value delta)) (\<lambda>zero.
             if zero
             then and_then (self_Normal self) (\<lambda>N.
                  and_then (returns (py_mul ext (int_lit ext 0) (Normal_mean N))) (\<lambda>support.
                    Dirac_object support (Normal_random_state N)))
             else and_then (self_Normal self) (\<lambda>N.
                  and_then (returns (py_mul ext (Normal_mean N) delta)) (\<lambda>m.
                  and_then (returns (py_pow ext delta (int_lit ext 2))) (\<lambda>delta2.
                  and_then (returns (py_mul ext (Normal_cov N) delta2)) (\<lambda>c.
                    Normal_object ext m c (Normal_random_state N))))))
       | _ \<Rightarrow> raise_not_implemented ''Multiplication'' False self other))"

definition Normal_truediv_object ::
  "'c externals \<Rightarrow> 'c object_externals \<Rightarrow> ref \<Rightarrow> 'c operand \<Rightarrow> ('c, ref) action" where
  "Normal_truediv_object ext oext self other =
     and_then (eq_zero_object oext other) (\<lambda>zero.
       if zero then returns (Inl (ZeroDivisionError ''Division by zero not supported.''))
       else and_then (asdist_object oext other) (\<lambda>otherdist.
            and_then (lookup otherdist) (\<lambda>d.
              case d of
                Dirac _ _ \<Rightarrow>
                  and_then (inv_object oext otherdist) (\<lambda>inverted.
                    Normal_mul_object ext oext self (Reference inverted))
              | _ \<Rightarrow> raise_not_implemented ''Division'' False self other)))"

definition Normal_pow_object :: "ref \<Rightarrow> 'c operand \<Rightarrow> ('c, ref) action" where
  "Normal_pow_object self exponent = raise_not_implemented ''Exponentiation'' False self exponent"

subsection \<open>Unary arithmetic operations\<close>

definition Normal_neg_object :: "'c externals \<Rightarrow> ref \<Rightarrow> ('c, ref) action" where
  "Normal_neg_object ext self =
     and_then (self_Normal self) (\<lambda>N.
       except_raise (''Negation not implemented for '' @ variant_name (variant N) @ ''.'')
         (and_then (returns (py_neg ext (Normal_mean N))) (\<lambda>m.
            Normal_object ext m (Normal_cov N) (Normal_random_state N))))"

definition Normal_pos_object :: "'c externals \<Rightarrow> ref \<Rightarrow> ('c, ref) action" where
  "Normal_pos_object ext self =
     and_then (self_Normal self) (\<lambda>N.
       except_raise (''Negation not implemented for '' @ variant_name (variant N) @ ''.'')
         (and_then (returns (py_pos ext (Normal_mean N))) (\<lambda>m.
            Normal_object ext m (Normal_cov N) (Normal_random_state N))))"

definition Normal_abs_object :: "ref \<Rightarrow> ('c, ref) action" where
  "Normal_abs_object self =
     and_then (self_Normal self) (\<lambda>N.
       except_raise (''Absolute value not implemented for '' @ variant_name (variant N) @ ''.'')
         (Distribution_object (Normal_random_state N)))"

definition Normal_invert_object :: "ref \<Rightarrow> ('c, ref) action" where
  "Normal_invert_object self =
     and_then (self_Normal self) (\<lambda>N.
       except_raise (''Inversion not implemented for '' @ variant_name (variant N) @ ''.'')
         (Distribution_object (Normal_random_state N)))"

subsection \<open>Binary arithmetic operations with reflected operands\<close>

definition Normal_radd_object ::
  "'c externals \<Rightarrow> 'c object_externals \<Rightarrow> ref \<Rightarrow> 'c operand \<Rightarrow> ('c, ref) action" where
  "Normal_radd_object ext oext self other =
     and_then (asdist_object oext other) (\<lambda>otherdist.
     and_then (lookup otherdist) (\<lambda>d.
       case d of
         Dirac _ _ \<Rightarrow> Normal_add_object ext oext self (Reference otherdist)
       | _ \<Rightarrow> raise_not_implemented ''Addition'' True self other))"

definition Normal_rsub_object ::
  "'c externals \<Rightarrow> 'c object_externals \<Rightarrow> ref \<Rightarrow> 'c operand \<Rightarrow> ('c, ref) action" where
  "Normal_rsub_object ext oext self other =
     and_then (asdist_object oext other) (\<lambda>otherdist.
     and_then (lookup otherdist) (\<lambda>d.
       case d of
         Dirac _ _ \<Rightarrow>
           and_then (Normal_neg_object ext self) (\<lambda>negated.
             Normal_add_object ext oext negated (Reference otherdist))
       | _ \<Rightarrow> raise_not_implemented ''Subtraction'' True self other))"

definition Normal_rmul_object ::
  "'c externals \<Rightarrow> 'c object_externals \<Rightarrow> ref \<Rightarrow> 'c operand \<Rightarrow> ('c, ref) action" where
  "Normal_rmul_object ext oext self other =
     and_then (asdist_object oext other) (\<lambda>otherdist.
     and_then (lookup otherdist) (\<lambda>d.
       case d of
         Dirac _ _ \<Rightarrow> Normal_mul_object ext oext self (Reference otherdist)
       | _ \<Rightarrow> raise_not_implemented ''Multiplication'' True self other))"

definition Normal_rmatmul_object ::
  "'c externals \<Rightarrow> 'c object_externals \<Rightarrow> ref \<Rightarrow> 'c operand \<Rightarrow> ('c, ref) action" where
  "Normal_rmatmul_object ext oext self other =
     and_then (asdist_object oext other) (\<lambda>otherdist.
     and_then (lookup otherdist) (\<lambda>d.
       case d of
         Dirac delta _ \<Rightarrow>
           and_then (self_Normal self) (\<lambda>N.
           and_then (returns (py_matmul ext delta (Normal_mean N))) (\<lambda>m.
           and_then (returns (py_transpose ext delta)) (\<lambda>deltaT.
           and_then (returns (py_matmul ext (Normal_cov N) deltaT)) (\<lambda>c1.
           and_then (returns (py_matmul ext delta c1)) (\<lambda>c.
             Normal_object ext m c (Normal_random_state N))))))
       | _ \<Rightarrow> raise_not_implemented ''Matrix multiplication'' True self other))"

definition Normal_rtruediv_object ::
  "'c externals \<Rightarrow> 'c object_externals \<Rightarrow> ref \<Rightarrow> 'c operand \<Rightarrow> ('c, ref) action" where
  "Normal_rtruediv_object ext oext self other =
     and_then (asdist_object oext other) (\<lambda>otherdist.
     and_then (lookup otherdist) (\<lambda>d.
       case d of
         Dirac _ _ \<Rightarrow>
           and_then (Normal_invert_object self) (\<lambda>inverted.
             mul_object oext inverted otherdist)
       | _ \<Rightarrow> raise_not_implemented ''Division'' True self other))"

definition Normal_rpow_object :: "ref \<Rightarrow> 'c operand \<Rightarrow> ('c, ref) action" where
  "Normal_rpow_object self exponent = raise_not_implemented ''Exponentiation'' True self exponent"

subsection \<open>Augmented arithmetic assignments\<close>

text \<open>Each of them is \<open>raise NotImplementedError\<close>, with no message.\<close>

definition Normal_iadd_object :: "ref \<Rightarrow> 'c operand \<Rightarrow> ('c, ref) action" where
  "Normal_iadd_object self other = returns (Inl (NotImplementedError []))"

definition Normal_isub_object :: "ref \<Rightarrow> 'c operand \<Rightarrow> ('c, ref) action" where
  "Normal_isub_object self other = returns (Inl (NotImplementedError []))"

definition Normal_imul_object :: "ref \<Rightarrow> 'c operand \<Rightarrow> ('c, ref) action" where
  "Normal_imul_object self other = returns (Inl (NotImplementedError []))"

definition Normal_imatmul_object :: "ref \<Rightarrow> 'c operand \<Rightarrow> ('c, ref) action" where
  "Normal_imatmul_object self other = returns (Inl (NotImplementedError []))"

definition Normal_itruediv_object :: "ref \<Rightarrow> 'c operand \<Rightarrow> ('c, ref) action" where
  "Normal_itruediv_object self other = returns (Inl (NotImplementedError []))"

definition Normal_ipow_object :: "ref \<Rightarrow> 'c operand \<Rightarrow> ('c, ref) action" where
  "Normal_ipow_object self exponent = returns (Inl (NotImplementedError []))"

subsection \<open>Matrix multiplication, class by class\<close>

definition UnivariateNormal_matmul_object ::
  "'c externals \<Rightarrow> 'c object_externals \<Rightarrow> ref \<Rightarrow> 'c operand \<Rightarrow> ('c, ref) action" where
  "UnivariateNormal_matmul_object ext oext self other =
     and_then (asdist_object oext other) (\<lambda>otherdist.
     and_then (lookup otherdist) (\<lambda>d.
       case d of
         Dirac delta _ \<Rightarrow>
           and_then (self_Normal self) (\<lambda>N.
           and_then (returns (py_matmul ext (Normal_mean N) delta)) (\<lambda>m1.
           and_then (returns (np_squeeze ext m1)) (\<lambda>m.
           and_then (returns (py_transpose ext delta)) (\<lambda>deltaT.
           and_then (returns (py_matmul ext (Normal_cov N) deltaT)) (\<lambda>c1.
           and_then (returns (py_matmul ext delta c1)) (\<lambda>c2.
           and_then (returns (np_squeeze ext c2)) (\<lambda>c.
             Normal_object ext m c (Normal_random_state N))))))))
       | _ \<Rightarrow> raise_not_implemented ''Matrix multiplication'' False self other))"

definition MultivariateNormal_matmul_object ::
  "'c externals \<Rightarrow> 'c object_externals \<Rightarrow> ref \<Rightarrow> 'c operand \<Rightarrow> ('c, ref) action" where
  "MultivariateNormal_matmul_object ext oext self other =
     and_then (asdist_object oext other) (\<lambda>otherdist.
     and_then (lookup otherdist) (\<lambda>d.
       case d of
         Dirac delta _ \<Rightarrow>
           and_then (self_Normal self) (\<lambda>N.
           and_then (returns (py_matmul ext (Normal_mean N) delta)) (\<lambda>m.
           and_then (returns (py_transpose ext delta)) (\<lambda>deltaT.
           and_then (returns (py_matmul ext (Normal_cov N) delta)) (\<lambda>c1.
           and_then (returns (py_matmul ext deltaT c1)) (\<lambda>c.
             Normal_object ext m c (Normal_random_state N))))))
       | _ \<Rightarrow> raise_not_implemented ''Matrix multiplication'' False self other))"

definition MatrixvariateNormal_matmul_object ::
  "'c object_externals \<Rightarrow> ref \<Rightarrow> 'c operand \<Rightarrow> ('c, ref) action" where
  "MatrixvariateNormal_matmul_object oext self other =
     and_then (asdist_object oext other) (\<lambda>otherdist.
     and_then (lookup otherdist) (\<lambda>d.
       case d of
         Dirac delta _ \<Rightarrow> returns (Inl (NotImplementedError []))
       | _ \<Rightarrow> raise_not_implemented ''Matrix multiplication'' False self other))"

definition OperatorvariateNormal_matmul_object ::
  "'c externals \<Rightarrow> 'c object_externals \<Rightarrow> ref \<Rightarrow> 'c operand \<Rightarrow> ('c, ref) action" where
  "OperatorvariateNormal_matmul_object ext oext self other =
     and_then (asdist_object oext other) (\<lambda>otherdist.
     and_then (lookup otherdist) (\<lambda>d.
       case d of
         Dirac othermean _ \<Rightarrow>
           and_then (returns (shape_attr othermean)) (\<lambda>othershape.
           and_then (returns (index othershape 0)) (\<lambda>k.
           and_then (returns (linops_Identity ext k)) (\<lambda>identity.
           and_then (returns (linops_Kronecker ext identity othermean)) (\<lambda>delta.
           and_then (self_Normal self) (\<lambda>N.
           and_then (returns (py_matmul ext (Normal_mean N) othermean)) (\<lambda>m.
           and_then (returns (py_transpose ext delta)) (\<lambda>deltaT.
           and_then (returns (py_matmul ext (Normal_cov N) delta)) (\<lambda>c1.
           and_then (returns (py_matmul ext deltaT c1)) (\<lambda>c.
             Normal_object ext m c (Normal_random_state N))))))))))
       | _ \<Rightarrow> raise_not_implemented ''Matrix multiplication'' False self other))"

definition Normal_matmul_object ::
  "'c externals \<Rightarrow> 'c object_externals \<Rightarrow> ref \<Rightarrow> 'c operand \<Rightarrow> ('c, ref) action" where
  "Normal_matmul_object ext oext self other =
     and_then (self_Normal self) (\<lambda>N.
       case variant N of
         UnivariateNormal \<Rightarrow> UnivariateNormal_matmul_object ext oext self other
       | MultivariateNormal \<Rightarrow> MultivariateNormal_matmul_object ext oext self other
       | MatrixvariateNormal \<Rightarrow> MatrixvariateNormal_matmul_object oext self other
       | OperatorvariateNormal \<Rightarrow> OperatorvariateNormal_matmul_object ext oext self other
       | SymmetricKroneckerIdenticalFactorsNormal \<Rightarrow>
           OperatorvariateNormal_matmul_object ext oext self other)"

subsection \<open>What a call leaves and what it returns\<close>

text \<open>
  Every Normal of the heap \<open>h\<close> is in \<open>h'\<close> what it was in \<open>h\<close>: the same class, mean,
  covariance and random state under the same reference.
\<close>

definition Normals_unchanged :: "'c heap \<Rightarrow> 'c heap \<Rightarrow> bool" where
  "Normals_unchanged h h' \<longleftrightarrow>
     length h \<le> length h' \<and>
     (\<forall>r < length h. \<forall>N. h ! r = NormalDist N \<longrightarrow> h' ! r = NormalDist N)"

text \<open>The code changes no Normal, whether it returns or raises.\<close>

definition mutates_no_Normal :: "('c, 'a) action \<Rightarrow> bool" where
  "mutates_no_Normal a \<longleftrightarrow> (\<forall>h r h'. a h = (r, h') \<longrightarrow> Normals_unchanged h h')"

text \<open>What the code returns is an object that did not exist when it was called.\<close>

definition returns_new :: "('c, ref) action \<Rightarrow> bool" where
  "returns_new a \<longleftrightarrow> (\<forall>h r h'. a h = (Inr r, h') \<longrightarrow> length h \<le> r \<and> r < length h')"

text \<open>What the code returns is as a constructor leaves it.\<close>

definition returns_constructed :: "('c pyval \<Rightarrow> error + 'c) \<Rightarrow> ('c, ref) action \<Rightarrow> bool" where
  "returns_constructed tf a \<longleftrightarrow>
     (\<forall>h r h'. a h = (Inr r, h') \<longrightarrow> r < length h' \<and> newly_constructed tf (h' ! r))"

text \<open>The collaborators change no Normal.\<close>

definition collaborators_mutate_no_Normal :: "'c object_externals \<Rightarrow> bool" where
  "collaborators_mutate_no_Normal oext \<longleftrightarrow>
     (\<forall>other. mutates_no_Normal (asdist_object oext other)) \<and>
     (\<forall>other. mutates_no_Normal (eq_zero_object oext other)) \<and>
     (\<forall>d. mutates_no_Normal (neg_object oext d)) \<and>
     (\<forall>d. mutates_no_Normal (inv_object oext d)) \<and>
     (\<forall>d e. mutates_no_Normal (mul_object oext d e))"

subsection \<open>Collaborators on objects, for the examples\<close>

text \<open>
  \<open>asdist\<close> returns a distribution as it is and creates the point mass at a value;
  negating a point mass creates the point mass at the negated support.
\<close>

definition np_asdist_object :: "int list operand \<Rightarrow> (int list, ref) action" where
  "np_asdist_object other =
     (case other of
        Reference r \<Rightarrow> returns (Inr r)
      | Value v \<Rightarrow> and_then (returns (np_asdist (Val v))) allocate)"

definition np_eq_zero_object :: "int list operand \<Rightarrow> (int list, bool) action" where
  "np_eq_zero_object other =
     (case other of
        Reference r \<Rightarrow> returns (Inr False)
      | Value v \<Rightarrow> returns (np_eq_zero (Val v)))"

definition np_neg_object :: "ref \<Rightarrow> (int list, ref) action" where
  "np_neg_object r = and_then (lookup r) (\<lambda>d. and_then (returns (np_dist_neg d)) allocate)"

definition np_oext :: "int list object_externals" where
  "np_oext =
     \<lparr>asdist_object = np_asdist_object,
      eq_zero_object = np_eq_zero_object,
      neg_object = np_neg_object,
      inv_object = (\<lambda>_. returns not_covered),
      mul_object = (\<lambda>_ _. returns not_covered)\<rparr>"

section \<open>\<open>_RandomVariableList\<close>\<close>

text \<open>
  A \<open>_RandomVariableList\<close> is a Python list, and an item of a Python list is any object:
  one that is not a list, such as a random variable, or a list again, plain or a
  \<open>_RandomVariableList\<close>, with its items. An index is an integer or a slice
  \<open>start:stop:step\<close>, each part of which may be missing.
\<close>

datatype 'a pyobject =
    NotList 'a
  | PyList "'a pyobject list"
  | RandomVariableList "'a pyobject list"

text \<open>\<open>isinstance(x, list)\<close>, which holds for instances of subclasses of \<open>list\<close> too.\<close>

fun isinstance_list :: "'a pyobject \<Rightarrow> bool" where
  "isinstance_list (NotList _) = False"
| "isinstance_list (PyList _) = True"
| "isinstance_list (RandomVariableList _) = True"

text \<open>The items of a list; an object that is not a list has none.\<close>

fun items :: "'a pyobject \<Rightarrow> 'a pyobject list" where
  "items (NotList _) = []"
| "items (PyList xs) = xs"
| "items (RandomVariableList xs) = xs"

datatype py_index = Index int | Slice "int option" "int option" "int option"

text \<open>\<open>list.__getitem__\<close> with an integer: a negative index counts from the end.\<close>

definition list_getitem_int :: "'a list \<Rightarrow> int \<Rightarrow> error + 'a" where
  "list_getitem_int xs i =
     (let n = int (length xs); j = (if i < 0 then i + n else i)
      in if 0 \<le> j \<and> j < n then Inr (xs ! nat j)
         else Inl (IndexError ''list index out of range''))"

text \<open>
  \<open>slice.indices\<close>: the start, stop and step that a slice stands for on a list of length
  \<open>n\<close>.
\<close>

definition slice_bound :: "int \<Rightarrow> int \<Rightarrow> int \<Rightarrow> int \<Rightarrow> int option \<Rightarrow> int" where
  "slice_bound n lower upper missing given =
     (case given of
        None \<Rightarrow> missing
      | Some v \<Rightarrow> if v < 0 then max (v + n) lower else min v upper)"

definition slice_indices ::
  "nat \<Rightarrow> int option \<Rightarrow> int option \<Rightarrow> int option \<Rightarrow> error + int \<times> int \<times> int" where
  "slice_indices len start stop step =
     (let n = int len; k = (case step of None \<Rightarrow> 1 | Some s \<Rightarrow> s)
      in if k = 0 then Inl (ValueError ''slice step cannot be zero'')
         else let lower = (if k < 0 then - 1 else 0);
                  upper = (if k < 0 then n - 1 else n)
              in Inr (slice_bound n lower upper (if k < 0 then upper else lower) start,
                      slice_bound n lower upper (if k < 0 then lower else upper) stop,
                      k))"

definition slice_length :: "int \<Rightarrow> int \<Rightarrow> int \<Rightarrow> nat" where
  "slice_length start stop k =
     (if k < 0 then (if stop < start then nat ((start - stop - 1) div (- k) + 1) else 0)
      else (if start < stop then nat ((stop - start - 1) div k + 1) else 0))"

text \<open>\<open>list.__getitem__\<close> with a slice: the items of a new list.\<close>

definition list_getitem_slice ::
  "'a list \<Rightarrow> int option \<Rightarrow> int option \<Rightarrow> int option \<Rightarrow> error + 'a list" where
  "list_getitem_slice xs start stop step =
     bind (slice_indices (length xs) start stop step) (\<lambda>(a, b, k).
       Inr (map (\<lambda>i. xs ! nat (a + int i * k)) [0..<slice_length a b k]))"

text \<open>
  \<open>super().__getitem__(idx)\<close>, the method of \<open>list\<close>: the item itself for an integer, a
  new plain list for a slice.
\<close>

definition list_getitem :: "'a pyobject list \<Rightarrow> py_index \<Rightarrow> error + 'a pyobject" where
  "list_getitem self idx =
     (case idx of
        Index i \<Rightarrow> list_getitem_int self i
      | Slice start stop step \<Rightarrow>
          bind (list_getitem_slice self start stop step) (\<lambda>ys. Inr (PyList ys)))"

text \<open>
  \<open>_RandomVariableList.__getitem__\<close>: \<open>_RandomVariableList(result)\<close> is a new list with
  the items of \<open>result\<close>.
\<close>

definition RandomVariableList_getitem ::
  "'a pyobject list \<Rightarrow> py_index \<Rightarrow> error + 'a pyobject" where
  "RandomVariableList_getitem self idx =
     bind (list_getitem self idx) (\<lambda>result.
       if isinstance_list result then Inr (RandomVariableList (items result))
       else Inr result)"

text \<open>
  An array is its shape and its entries in row-major order. An object that is not a list
  is seen through what \<open>rv.mean()\<close>, \<open>rv.cov()\<close>, \<open>rv.distribution.var()\<close> and
  \<open>rv.distribution.std()\<close> return, each an array or an exception.
\<close>

type_synonym 'c array = "shape \<times> 'c list"

record 'c random_variable =
  rv_mean :: "error + 'c array"
  rv_cov :: "error + 'c array"
  rv_distribution_var :: "error + 'c array"
  rv_distribution_std :: "error + 'c array"

text \<open>
  The list that a comprehension builds from the outcomes for the items, in list order:
  the first exception ends it.
\<close>

fun collect :: "(error + 'b) list \<Rightarrow> error + 'b list" where
  "collect [] = Inr []"
| "collect (r # rs) = bind r (\<lambda>y. bind (collect rs) (\<lambda>ys. Inr (y # ys)))"

text \<open>\<open>np.stack\<close> along a new first axis.\<close>

definition np_stack :: "'c array list \<Rightarrow> error + 'c array" where
  "np_stack arrays =
     (case arrays of
        [] \<Rightarrow> Inl (ValueError ''need at least one array to stack'')
      | a # rest \<Rightarrow>
          if \<forall>b \<in> set rest. fst b = fst a
          then Inr (length arrays # fst a, concat (map snd arrays))
          else Inl (ValueError ''all input arrays must have the same shape''))"

text \<open>
  \<open>rv.mean()\<close> and \<open>rv.cov()\<close> for an item \<open>rv\<close>: a plain list has no such method, a
  \<open>_RandomVariableList\<close> has the one defined here. \<open>rv.distribution\<close>: no list has this
  attribute.
\<close>

fun item_mean :: "'c random_variable pyobject \<Rightarrow> error + 'c array" where
  "item_mean (NotList rv) = rv_mean rv"
| "item_mean (PyList _) = Inl (AttributeError ''list'')"
| "item_mean (RandomVariableList xs) = bind (collect (map item_mean xs)) np_stack"

fun item_cov :: "'c random_variable pyobject \<Rightarrow> error + 'c array" where
  "item_cov (NotList rv) = rv_cov rv"
| "item_cov (PyList _) = Inl (AttributeError ''list'')"
| "item_cov (RandomVariableList xs) = bind (collect (map item_cov xs)) np_stack"

fun item_var :: "'c random_variable pyobject \<Rightarrow> error + 'c array" where
  "item_var (NotList rv) = rv_distribution_var rv"
| "item_var (PyList _) = Inl (AttributeError ''list'')"
| "item_var (RandomVariableList _) = Inl (AttributeError ''_RandomVariableList'')"

fun item_std :: "'c random_variable pyobject \<Rightarrow> error + 'c array" where
  "item_std (NotList rv) = rv_distribution_std rv"
| "item_std (PyList _) = Inl (AttributeError ''list'')"
| "item_std (RandomVariableList _) = Inl (AttributeError ''_RandomVariableList'')"

definition RandomVariableList_mean :: "'c random_variable pyobject list \<Rightarrow> error + 'c array" where
  "RandomVariableList_mean self = bind (collect (map item_mean self)) np_stack"

definition RandomVariableList_cov :: "'c random_variable pyobject list \<Rightarrow> error + 'c array" where
  "RandomVariableList_cov self = bind (collect (map item_cov self)) np_stack"

definition RandomVariableList_var :: "'c random_variable pyobject list \<Rightarrow> error + 'c array" where
  "RandomVariableList_var self = bind (collect (map item_var self)) np_stack"

definition RandomVariableList_std :: "'c random_variable pyobject list \<Rightarrow> error + 'c array" where
  "RandomVariableList_std self = bind (collect (map item_std self)) np_stack"

text \<open>
  "Stacked in list order": the result has the shape of the statistics with one more
  axis in front, as long as the list; it has as many entries as that shape says; and its
  \<open>k\<close>-th block along the first axis is the statistic of the \<open>k\<close>-th item.
\<close>

definition stacked_in_order ::
  "('a \<Rightarrow> error + 'c array) \<Rightarrow> shape \<Rightarrow> 'a list \<Rightarrow> error + 'c array \<Rightarrow> bool" where
  "stacked_in_order f s xs r \<longleftrightarrow>
     (case r of
        Inl _ \<Rightarrow> False
      | Inr a \<Rightarrow>
          fst a = length xs # s \<and> length (snd a) = length xs * prod_list s \<and>
          (\<forall>k < length xs.
             f (xs ! k) = Inr (s, take (prod_list s) (drop (k * prod_list s) (snd a)))))"

text \<open>The statistic of every item is an array of shape \<open>s\<close> with as many entries.\<close>

definition all_of_shape :: "('a \<Rightarrow> error + 'c array) \<Rightarrow> shape \<Rightarrow> 'a list \<Rightarrow> bool" where
  "all_of_shape f s xs \<longleftrightarrow>
     (\<forall>x \<in> set xs. case f x of Inl _ \<Rightarrow> False
                           | Inr a \<Rightarrow> fst a = s \<and> length (snd a) = prod_list s)"

text \<open>Two random variables with scalar statistics, for the examples.\<close>

definition rv_one :: "int random_variable" where
  "rv_one = \<lparr>rv_mean = Inr ([], [1]), rv_cov = Inr ([], [4]),
             rv_distribution_var = Inr ([], [4]), rv_distribution_std = Inr ([], [2])\<rparr>"

definition rv_three :: "int random_variable" where
  "rv_three = \<lparr>rv_mean = Inr ([], [3]), rv_cov = Inr ([], [9]),
               rv_distribution_var = Inr ([], [9]), rv_distribution_std = Inr ([], [3])\<rparr>"

section \<open>Properties of the construction\<close>

lemma bind_Inr [simp]: "bind (Inr v) f = f v"
  by (simp add: bind_def)

lemma bind_Inl [simp]: "bind (Inl e) f = Inl e"
  by (simp add: bind_def)

lemma np_shape_kind: "np_shape v = np_shape (kind v)"
  by (cases v) (auto simp: kind_def)

lemma np_isscalar_kind: "np_isscalar v = np_isscalar (kind v)"
  by (cases v) (auto simp: kind_def)

lemma isinstance_array_kind: "isinstance_array v = isinstance_array (kind v)"
  by (cases v) (auto simp: kind_def)

lemma isinstance_LinearOperator_kind:
  "isinstance_LinearOperator v = isinstance_LinearOperator (kind v)"
  by (cases v) (auto simp: kind_def)

lemma SymmetricKronecker_ABequal_kind:
  "SymmetricKronecker_ABequal v = SymmetricKronecker_ABequal (kind v)"
proof (cases v)
  case (LinOp op s c)
  then show ?thesis by (cases op) (auto simp: kind_def)
qed (auto simp: kind_def)

lemma class_name_kind: "class_name v = class_name (kind v)"
proof (cases v)
  case (LinOp op s c)
  then show ?thesis by (cases op) (auto simp: kind_def)
qed (auto simp: kind_def)

lemma shape_attr_kind: "shape_attr v = shape_attr (kind v)"
  by (cases v) (auto simp: kind_def)

lemma Normal_new_kind: "Normal_new mean cov = Normal_new (kind mean) (kind cov)"
  unfolding Normal_new_def
  using np_isscalar_kind [of mean] np_isscalar_kind [of cov]
    np_shape_kind [of mean] np_shape_kind [of cov]
    isinstance_array_kind [of mean] isinstance_array_kind [of cov]
    isinstance_LinearOperator_kind [of mean] isinstance_LinearOperator_kind [of cov]
    SymmetricKronecker_ABequal_kind [of cov]
    class_name_kind [of mean] class_name_kind [of cov]
  by simp

lemma univariate_args_iff:
  "univariate_args mean cov \<longleftrightarrow>
     (np_isscalar mean \<and> np_isscalar cov) \<or>
     (np_shape mean \<in> set dim1shapes \<and> np_shape cov \<in> set dim1shapes)"
  by (auto simp: univariate_args_def dim1shapes_def)

text \<open>
  C1. \<open>Normal.__new__\<close> chooses the subclass from the classes and shapes of \<open>mean\<close> and
  \<open>cov\<close> alone (two pairs of arguments that differ only in their contents get the same
  answer). The cases are those of the specification, read in the order in which it lists
  them, each for the arguments that no earlier case covers: scalars or shapes among
  \<open>()\<close>, \<open>(1,)\<close>, \<open>(1,1)\<close> give the univariate class; then two dense or sparse arrays
  give the multivariate class for a 1-D mean and the matrix-variate class for a 2-D mean;
  then a linear operator as mean or as cov gives the operator-variate class, which is the
  class with identical symmetric Kronecker factors exactly when cov is a
  \<open>SymmetricKronecker\<close> with \<open>_ABequal\<close>; everything else is a \<open>ValueError\<close> whose message
  names the two classes.
\<close>

theorem Normal_new_dispatch:
  "(kind mean = kind mean' \<and> kind cov = kind cov' \<longrightarrow>
      Normal_new mean cov = Normal_new mean' cov') \<and>
   (univariate_args mean cov \<longrightarrow> Normal_new mean cov = Inr UnivariateNormal) \<and>
   (\<not> univariate_args mean cov \<and> array_args mean cov \<and> length (np_shape mean) = 1 \<longrightarrow>
      Normal_new mean cov = Inr MultivariateNormal) \<and>
   (\<not> univariate_args mean cov \<and> array_args mean cov \<and> length (np_shape mean) = 2 \<longrightarrow>
      Normal_new mean cov = Inr MatrixvariateNormal) \<and>
   (\<not> univariate_args mean cov \<and> \<not> array_args mean cov \<and> operator_args mean cov \<longrightarrow>
      Normal_new mean cov =
        Inr (if SymmetricKronecker_ABequal cov then SymmetricKroneckerIdenticalFactorsNormal
             else OperatorvariateNormal)) \<and>
   (\<not> univariate_args mean cov \<and> \<not> array_args mean cov \<and> \<not> operator_args mean cov \<longrightarrow>
      Normal_new mean cov =
        Inl (ValueError (cannot_instantiate (class_name mean) (class_name cov))))"
proof -
  have "Normal_new mean cov = Normal_new mean' cov'"
    if "kind mean = kind mean'" "kind cov = kind cov'"
    using that Normal_new_kind [of mean cov] Normal_new_kind [of mean' cov'] by simp
  moreover have "Normal_new mean cov = Inr UnivariateNormal" if "univariate_args mean cov"
    using that unfolding univariate_args_iff Normal_new_def by simp
  moreover have "Normal_new mean cov = Inr MultivariateNormal"
    if "\<not> univariate_args mean cov" "array_args mean cov" "length (np_shape mean) = 1"
    using that unfolding univariate_args_iff Normal_new_def array_args_def by simp
  moreover have "Normal_new mean cov = Inr MatrixvariateNormal"
    if "\<not> univariate_args mean cov" "array_args mean cov" "length (np_shape mean) = 2"
    using that unfolding univariate_args_iff Normal_new_def array_args_def by simp
  moreover have "Normal_new mean cov =
        Inr (if SymmetricKronecker_ABequal cov then SymmetricKroneckerIdenticalFactorsNormal
             else OperatorvariateNormal)"
    if "\<not> univariate_args mean cov" "\<not> array_args mean cov" "operator_args mean cov"
    using that unfolding univariate_args_iff Normal_new_def array_args_def operator_args_def
    by simp
  moreover have "Normal_new mean cov =
        Inl (ValueError (cannot_instantiate (class_name mean) (class_name cov)))"
    if "\<not> univariate_args mean cov" "\<not> array_args mean cov" "\<not> operator_args mean cov"
    using that unfolding univariate_args_iff Normal_new_def array_args_def operator_args_def
    by simp
  ultimately show ?thesis by blast
qed

theorem Normal_new_dispatch_witness:
  "univariate_args (ndarray [1] ()) (ndarray [1, 1] ()) \<and>
   Normal_new (ndarray [1] ()) (ndarray [1, 1] ()) = Inr UnivariateNormal \<and>
   kind (Scalar ''float'' False (1::nat)) = kind (Scalar ''float'' False (2::nat)) \<and>
   Normal_new (Scalar ''float'' False (1::nat)) (Scalar ''float'' False (1::nat)) =
     Normal_new (Scalar ''float'' False (2::nat)) (Scalar ''float'' False (2::nat)) \<and>
   \<not> univariate_args (ndarray [3] ()) (ndarray [3, 3] ()) \<and>
   array_args (ndarray [3] ()) (ndarray [3, 3] ()) \<and>
   Normal_new (ndarray [3] ()) (ndarray [3, 3] ()) = Inr MultivariateNormal \<and>
   Normal_new (ndarray [2, 2] ()) (spmatrix ''csr_matrix'' (4, 4) ()) = Inr MatrixvariateNormal \<and>
   \<not> array_args (ndarray [2, 2] ()) (LinOp (SymmetricKronecker (2, 2) (2, 2) True) (4, 4) ()) \<and>
   operator_args (ndarray [2, 2] ()) (LinOp (SymmetricKronecker (2, 2) (2, 2) True) (4, 4) ()) \<and>
   Normal_new (ndarray [2, 2] ()) (LinOp (SymmetricKronecker (2, 2) (2, 2) True) (4, 4) ()) =
     Inr SymmetricKroneckerIdenticalFactorsNormal \<and>
   Normal_new (ndarray [2, 2] ()) (LinOp (SymmetricKronecker (2, 2) (2, 2) False) (4, 4) ()) =
     Inr OperatorvariateNormal \<and>
   \<not> operator_args (Object ''list'' [2] False ()) (Object ''list'' [2, 2] False ()) \<and>
   Normal_new (Object ''list'' [2] False ()) (Object ''list'' [2, 2] False ()) =
     Inl (ValueError (cannot_instantiate ''list'' ''list''))"
  using
    Normal_new_dispatch [of "ndarray [1] ()" "ndarray [1] ()" "ndarray [1, 1] ()" "ndarray [1, 1] ()"]
    Normal_new_dispatch [of "Scalar ''float'' False (1::nat)" "Scalar ''float'' False (2::nat)"
       "Scalar ''float'' False (1::nat)" "Scalar ''float'' False (2::nat)"]
    Normal_new_dispatch [of "ndarray [3] ()" "ndarray [3] ()" "ndarray [3, 3] ()" "ndarray [3, 3] ()"]
    Normal_new_dispatch [of "ndarray [2, 2] ()" "ndarray [2, 2] ()"
       "spmatrix ''csr_matrix'' (4, 4) ()" "spmatrix ''csr_matrix'' (4, 4) ()"]
    Normal_new_dispatch [of "ndarray [2, 2] ()" "ndarray [2, 2] ()"
       "LinOp (SymmetricKronecker (2, 2) (2, 2) True) (4, 4) ()"
       "LinOp (SymmetricKronecker (2, 2) (2, 2) True) (4, 4) ()"]
    Normal_new_dispatch [of "ndarray [2, 2] ()" "ndarray [2, 2] ()"
       "LinOp (SymmetricKronecker (2, 2) (2, 2) False) (4, 4) ()"
       "LinOp (SymmetricKronecker (2, 2) (2, 2) False) (4, 4) ()"]
    Normal_new_dispatch [of "Object ''list'' [2] False ()" "Object ''list'' [2] False ()"
       "Object ''list'' [2, 2] False ()" "Object ''list'' [2, 2] False ()"]
  by (simp add: univariate_args_def array_args_def operator_args_def kind_def)

section \<open>Shape checks for dense arrays\<close>


lemma binary64_small: "\<bar>n\<bar> < 2 ^ 53 \<Longrightarrow> binary64 n"
  unfolding binary64_def by (rule exI [of _ 0]) simp

lemma binary64_huge: "binary64 huge"
  unfolding binary64_def huge_def by (rule exI [of _ 600]) simp

lemma huge_nonzero: "huge \<noteq> 0"
  by (simp add: huge_def)

lemma huge_square: "2 ^ 1024 \<le> \<bar>huge ^ 2\<bar>"
proof -
  have "huge ^ 2 = 2 ^ 1200"
    by (simp add: huge_def flip: power_mult)
  moreover have "(2::int) ^ 1024 \<le> 2 ^ 1200"
    by (rule power_increasing) simp_all
  ultimately show ?thesis by simp
qed





section \<open>Shape checks for Kronecker factors\<close>

lemma OperatorvariateNormal_init_Kronecker:
  assumes "shape_attr mean = Inr [m, n]"
  shows "OperatorvariateNormal_init self mean (LinOp (Kronecker A B) s c) rs =
     (if A = (m, m) \<and> B = (n, n)
      then Inr \<lparr>variant = self, Normal_mean = mean, Normal_cov = LinOp (Kronecker A B) s c,
                Normal_random_state = rs\<rparr>
      else Inl (ValueError kronecker_mismatch))"
  using assms
  by (cases A; cases B) (auto simp: OperatorvariateNormal_init_def Normal_init_def)

lemma OperatorvariateNormal_init_SymmetricKronecker:
  assumes "shape_attr mean = Inr [m, n]"
  shows "OperatorvariateNormal_init self mean (LinOp (SymmetricKronecker A B e) s c) rs =
     (if m = n \<and> fst A = n \<and> snd B = n
      then Inr \<lparr>variant = self, Normal_mean = mean,
                Normal_cov = LinOp (SymmetricKronecker A B e) s c, Normal_random_state = rs\<rparr>
      else Inl (ValueError symmetric_kronecker_mismatch))"
  using assms
  by (auto simp: OperatorvariateNormal_init_def Normal_init_def)

lemma SymmetricKroneckerIdenticalFactorsNormal_init_SymmetricKronecker:
  assumes "shape_attr mean = Inr [m, n]"
  shows "SymmetricKroneckerIdenticalFactorsNormal_init self mean
           (LinOp (SymmetricKronecker A B e) s c) rs =
     (if m = n \<and> fst A = n \<and> snd B = n
      then Inr \<lparr>variant = self, Normal_mean = mean,
                Normal_cov = LinOp (SymmetricKronecker A B e) s c, Normal_random_state = rs\<rparr>
      else Inl (ValueError symmetric_kronecker_mismatch))"
  using assms OperatorvariateNormal_init_SymmetricKronecker [OF assms]
  by (auto simp: SymmetricKroneckerIdenticalFactorsNormal_init_def)

text \<open>
  C4. For a mean of shape \<open>(m, n)\<close>: with a \<open>Kronecker\<close> covariance the operator-variate
  initialiser raises a \<open>ValueError\<close> unless \<open>cov.A\<close> has shape \<open>(m, m)\<close> and \<open>cov.B\<close> has
  shape \<open>(n, n)\<close>, and succeeds then; with a \<open>SymmetricKronecker\<close> covariance, whose
  factors are square, it and the initialiser of the identical-factors
  class raise a \<open>ValueError\<close> unless \<open>m = n\<close> and both factors have shape \<open>(n, n)\<close>, and
  succeed then.
\<close>

theorem Kronecker_factor_check:
  assumes "shape_attr mean = Inr [m, n]"
  shows
    "OperatorvariateNormal_init self mean (LinOp (Kronecker A B) s c) rs =
       (if A = (m, m) \<and> B = (n, n)
        then Inr \<lparr>variant = self, Normal_mean = mean, Normal_cov = LinOp (Kronecker A B) s c,
                  Normal_random_state = rs\<rparr>
        else Inl (ValueError kronecker_mismatch)) \<and>
     (SymmetricKronecker_factors A B \<longrightarrow>
        OperatorvariateNormal_init self mean (LinOp (SymmetricKronecker A B e) s c) rs =
          (if m = n \<and> A = (n, n) \<and> B = (n, n)
           then Inr \<lparr>variant = self, Normal_mean = mean,
                     Normal_cov = LinOp (SymmetricKronecker A B e) s c, Normal_random_state = rs\<rparr>
           else Inl (ValueError symmetric_kronecker_mismatch)) \<and>
        SymmetricKroneckerIdenticalFactorsNormal_init self mean
            (LinOp (SymmetricKronecker A B e) s c) rs =
          (if m = n \<and> A = (n, n) \<and> B = (n, n)
           then Inr \<lparr>variant = self, Normal_mean = mean,
                     Normal_cov = LinOp (SymmetricKronecker A B e) s c, Normal_random_state = rs\<rparr>
           else Inl (ValueError symmetric_kronecker_mismatch)))"
proof -
  note K = OperatorvariateNormal_init_Kronecker [OF assms, of self A B s c rs]
  note S = OperatorvariateNormal_init_SymmetricKronecker [OF assms, of self A B e s c rs]
  note I = SymmetricKroneckerIdenticalFactorsNormal_init_SymmetricKronecker
             [OF assms, of self A B e s c rs]
  have "(m = n \<and> fst A = n \<and> snd B = n) = (m = n \<and> A = (n, n) \<and> B = (n, n))"
    if "SymmetricKronecker_factors A B"
    using that unfolding SymmetricKronecker_factors_def by (cases A; cases B) auto
  with K S I show ?thesis by simp
qed

theorem Kronecker_factor_check_witness:
  "shape_attr (ndarray [2, 3] [0::int, 0, 0, 0, 0, 0]) = Inr [2, 3] \<and>
   OperatorvariateNormal_init OperatorvariateNormal (ndarray [2, 3] [0::int, 0, 0, 0, 0, 0])
       (LinOp (Kronecker (2, 2) (3, 3)) (6, 6) []) None =
     Inr \<lparr>variant = OperatorvariateNormal, Normal_mean = ndarray [2, 3] [0, 0, 0, 0, 0, 0],
          Normal_cov = LinOp (Kronecker (2, 2) (3, 3)) (6, 6) [], Normal_random_state = None\<rparr> \<and>
   OperatorvariateNormal_init OperatorvariateNormal (ndarray [2, 3] [0::int, 0, 0, 0, 0, 0])
       (LinOp (Kronecker (2, 2) (3, 2)) (6, 4) []) None =
     Inl (ValueError kronecker_mismatch) \<and>
   SymmetricKronecker_factors (2, 2) (2, 2) \<and>
   shape_attr (ndarray [2, 2] [0::int, 0, 0, 0]) = Inr [2, 2] \<and>
   SymmetricKroneckerIdenticalFactorsNormal_init SymmetricKroneckerIdenticalFactorsNormal
       (ndarray [2, 2] [0::int, 0, 0, 0]) (LinOp (SymmetricKronecker (2, 2) (2, 2) True) (4, 4) [])
       None =
     Inr \<lparr>variant = SymmetricKroneckerIdenticalFactorsNormal,
          Normal_mean = ndarray [2, 2] [0, 0, 0, 0],
          Normal_cov = LinOp (SymmetricKronecker (2, 2) (2, 2) True) (4, 4) [],
          Normal_random_state = None\<rparr> \<and>
   SymmetricKronecker_factors (3, 3) (3, 3) \<and>
   OperatorvariateNormal_init OperatorvariateNormal (ndarray [2, 2] [0::int, 0, 0, 0])
       (LinOp (SymmetricKronecker (3, 3) (3, 3) False) (9, 9) []) None =
     Inl (ValueError symmetric_kronecker_mismatch)"
proof -
  have a: "shape_attr (ndarray [2, 3] [0::int, 0, 0, 0, 0, 0]) = Inr [2, 3]"
    and b: "shape_attr (ndarray [2, 2] [0::int, 0, 0, 0]) = Inr [2, 2]"
    by simp_all
  have f: "SymmetricKronecker_factors (2, 2) (2, 2)" "SymmetricKronecker_factors (3, 3) (3, 3)"
    by (simp_all add: SymmetricKronecker_factors_def)
  from Kronecker_factor_check [OF a, of OperatorvariateNormal "(2, 2)" "(3, 3)" "(6, 6)" "[]" None,
      THEN conjunct1]
    Kronecker_factor_check [OF a, of OperatorvariateNormal "(2, 2)" "(3, 2)" "(6, 4)" "[]" None,
      THEN conjunct1]
    Kronecker_factor_check [OF b, of SymmetricKroneckerIdenticalFactorsNormal
      "(2, 2)" "(2, 2)" "(4, 4)" "[]" None True, THEN conjunct2, rule_format, OF f(1),
      THEN conjunct2]
    Kronecker_factor_check [OF b, of OperatorvariateNormal
      "(3, 3)" "(3, 3)" "(9, 9)" "[]" None False, THEN conjunct2, rule_format, OF f(2),
      THEN conjunct1]
    a b f
  show ?thesis by simp
qed

section \<open>The constructor depends on classes and shapes only\<close>

lemma py_float_is_float:
  "py_float tf v = Inr r \<Longrightarrow> \<exists>x. r = Scalar ''float'' False x"
  by (cases v) (auto simp: py_float_def bind_def split: sum.splits if_splits)

lemma py_float_float [simp]:
  "py_float tf (Scalar ''float'' False x) = Inr (Scalar ''float'' False x)"
  by (simp add: py_float_def)

lemma kind_Scalar: "kind v = kind (Scalar n g x) \<Longrightarrow> \<exists>y. v = Scalar n g y"
  by (cases v) (auto simp: kind_def)

lemma kind_LinOp: "kind v = kind (LinOp op s x) \<Longrightarrow> \<exists>y. v = LinOp op s y"
  by (cases v) (auto simp: kind_def)

lemma shape_attr_cong: "kind v = kind w \<Longrightarrow> shape_attr v = shape_attr w"
  using shape_attr_kind [of v] shape_attr_kind [of w] by simp

lemma class_name_cong: "kind v = kind w \<Longrightarrow> class_name v = class_name w"
  using class_name_kind [of v] class_name_kind [of w] by simp

lemma Normal_new_cong:
  "kind m' = kind m \<Longrightarrow> kind c' = kind c \<Longrightarrow> Normal_new m' c' = Normal_new m c"
  using Normal_new_kind [of m c] Normal_new_kind [of m' c'] by simp

lemma general_mismatch_cong:
  "kind c' = kind c \<Longrightarrow> general_mismatch d c' = general_mismatch d c"
  using shape_attr_cong [of c' c] by (simp add: general_mismatch_def)

lemma OperatorvariateNormal_init_restore:
  assumes "kind m' = kind m" "kind c' = kind c"
  shows "OperatorvariateNormal_init self m' c' rs' =
     restore m' c' rs' (OperatorvariateNormal_init self m c rs)"
proof -
  note sm = shape_attr_cong [OF assms(1)]
  note gm = general_mismatch_cong [OF assms(2)]
  show ?thesis
  proof (cases c)
    case (LinOp op s x)
    with assms(2) obtain y where c': "c' = LinOp op s y"
      by (cases c') (auto simp: kind_def)
    have g: "general_mismatch d (LinOp op' s y) = general_mismatch d (LinOp op' s x)" for d op'
      by (rule general_mismatch_cong) (simp add: kind_def)
    show ?thesis
      unfolding LinOp c'
      by (cases op)
        (simp_all add: OperatorvariateNormal_init_def sm g Normal_init_def Let_def bind_def
          restore_def split: sum.split prod.split)
  next
    case (Scalar n g x)
    with assms(2) obtain y where c': "c' = Scalar n g y"
      by (cases c') (auto simp: kind_def)
    have g: "general_mismatch d (Scalar n g y) = general_mismatch d (Scalar n g x)" for d
      using gm [of d] by (simp add: Scalar c')
    show ?thesis
      unfolding Scalar c'
      by (simp add: OperatorvariateNormal_init_def sm g Normal_init_def Let_def bind_def
          restore_def split: sum.split prod.split)
  next
    case (ndarray s x)
    with assms(2) obtain y where c': "c' = ndarray s y"
      by (cases c') (auto simp: kind_def)
    have g: "general_mismatch d (ndarray s y) = general_mismatch d (ndarray s x)" for d
      using gm [of d] by (simp add: ndarray c')
    show ?thesis
      unfolding ndarray c'
      by (simp add: OperatorvariateNormal_init_def sm g Normal_init_def Let_def bind_def
          restore_def split: sum.split prod.split)
  next
    case (spmatrix n s x)
    with assms(2) obtain y where c': "c' = spmatrix n s y"
      by (cases c') (auto simp: kind_def)
    have g: "general_mismatch d (spmatrix n s y) = general_mismatch d (spmatrix n s x)" for d
      using gm [of d] by (simp add: spmatrix c')
    show ?thesis
      unfolding spmatrix c'
      by (simp add: OperatorvariateNormal_init_def sm g Normal_init_def Let_def bind_def
          restore_def split: sum.split prod.split)
  next
    case (Object n s h x)
    with assms(2) obtain y where c': "c' = Object n s h y"
      by (cases c') (auto simp: kind_def)
    have g: "general_mismatch d (Object n s h y) = general_mismatch d (Object n s h x)" for d
      using gm [of d] by (simp add: Object c')
    show ?thesis
      unfolding Object c'
      by (simp add: OperatorvariateNormal_init_def sm g Normal_init_def Let_def bind_def
          restore_def split: sum.split prod.split)
  qed
qed

lemma SymmetricKroneckerIdenticalFactorsNormal_init_restore:
  assumes "kind m' = kind m" "kind c' = kind c"
  shows "SymmetricKroneckerIdenticalFactorsNormal_init self m' c' rs' =
     restore m' c' rs' (SymmetricKroneckerIdenticalFactorsNormal_init self m c rs)"
proof -
  note sm = shape_attr_cong [OF assms(1)]
  note cn = class_name_cong [OF assms(2)]
  note oc = OperatorvariateNormal_init_restore [OF assms, of self rs' rs]
  show ?thesis
  proof (cases c)
    case (LinOp op s x)
    with assms(2) obtain y where c': "c' = LinOp op s y"
      by (cases c') (auto simp: kind_def)
    show ?thesis
      using oc unfolding LinOp c'
      by (cases op)
        (simp_all add: SymmetricKroneckerIdenticalFactorsNormal_init_def sm bind_def
          restore_def split: sum.split prod.split)
  next
    case (Scalar n g x)
    with assms(2) obtain y where c': "c' = Scalar n g y"
      by (cases c') (auto simp: kind_def)
    show ?thesis
      unfolding Scalar c'
      by (simp add: SymmetricKroneckerIdenticalFactorsNormal_init_def sm bind_def
          restore_def split: sum.split prod.split)
  next
    case (ndarray s x)
    with assms(2) obtain y where c': "c' = ndarray s y"
      by (cases c') (auto simp: kind_def)
    show ?thesis
      unfolding ndarray c'
      by (simp add: SymmetricKroneckerIdenticalFactorsNormal_init_def sm bind_def
          restore_def split: sum.split prod.split)
  next
    case (spmatrix n s x)
    with assms(2) obtain y where c': "c' = spmatrix n s y"
      by (cases c') (auto simp: kind_def)
    show ?thesis
      unfolding spmatrix c'
      by (simp add: SymmetricKroneckerIdenticalFactorsNormal_init_def sm bind_def
          restore_def split: sum.split prod.split)
  next
    case (Object n s h x)
    with assms(2) obtain y where c': "c' = Object n s h y"
      by (cases c') (auto simp: kind_def)
    show ?thesis
      unfolding Object c'
      by (simp add: SymmetricKroneckerIdenticalFactorsNormal_init_def sm bind_def
          restore_def split: sum.split prod.split)
  qed
qed

lemma MultivariateNormal_init_restore:
  assumes "kind m' = kind m" "kind c' = kind c"
  shows "MultivariateNormal_init self m' c' rs' =
     restore m' c' rs' (MultivariateNormal_init self m c rs)"
  by (simp add: MultivariateNormal_init_def shape_attr_cong [OF assms(1)]
      shape_attr_cong [OF assms(2)] Normal_init_def Let_def bind_def restore_def
      split: sum.split)

lemma MatrixvariateNormal_init_restore:
  assumes "kind m' = kind m" "kind c' = kind c"
  shows "MatrixvariateNormal_init self m' c' rs' =
     restore m' c' rs' (MatrixvariateNormal_init self m c rs)"
  by (simp add: MatrixvariateNormal_init_def shape_attr_cong [OF assms(1)]
      shape_attr_cong [OF assms(2)] Normal_init_def Let_def bind_def restore_def
      split: sum.split)

lemma MultivariateNormal_init_result:
  "MultivariateNormal_init self m c rs = Inr N \<Longrightarrow>
   N = \<lparr>variant = self, Normal_mean = m, Normal_cov = c, Normal_random_state = rs\<rparr>"
  by (auto simp: MultivariateNormal_init_def Normal_init_def Let_def bind_def
      split: sum.splits if_splits)

lemma MatrixvariateNormal_init_result:
  "MatrixvariateNormal_init self m c rs = Inr N \<Longrightarrow>
   N = \<lparr>variant = self, Normal_mean = m, Normal_cov = c, Normal_random_state = rs\<rparr>"
  by (auto simp: MatrixvariateNormal_init_def Normal_init_def Let_def bind_def
      split: sum.splits if_splits)

lemma OperatorvariateNormal_init_result:
  "OperatorvariateNormal_init self m c rs = Inr N \<Longrightarrow>
   N = \<lparr>variant = self, Normal_mean = m, Normal_cov = c, Normal_random_state = rs\<rparr>"
  by (auto simp: OperatorvariateNormal_init_def Normal_init_def Let_def bind_def
      split: sum.splits if_splits prod.splits pyval.splits linop.splits)

lemma SymmetricKroneckerIdenticalFactorsNormal_init_result:
  "SymmetricKroneckerIdenticalFactorsNormal_init self m c rs = Inr N \<Longrightarrow>
   N = \<lparr>variant = self, Normal_mean = m, Normal_cov = c, Normal_random_state = rs\<rparr>"
  by (auto simp: SymmetricKroneckerIdenticalFactorsNormal_init_def bind_def
      dest: OperatorvariateNormal_init_result
      split: sum.splits if_splits prod.splits pyval.splits linop.splits)

lemma UnivariateNormal_init_result:
  "UnivariateNormal_init tf self m c rs = Inr N \<Longrightarrow>
   \<exists>x y. N = \<lparr>variant = self, Normal_mean = Scalar ''float'' False x,
                Normal_cov = Scalar ''float'' False y, Normal_random_state = rs\<rparr> \<and>
     py_float tf m = Inr (Scalar ''float'' False x) \<and>
     py_float tf c = Inr (Scalar ''float'' False y)"
  by (auto simp: UnivariateNormal_init_def Normal_init_def bind_def
      dest!: py_float_is_float split: sum.splits)

lemma Normal_univariate_floats:
  "Normal tf (Scalar ''float'' False x) (Scalar ''float'' False y) rs =
     Inr \<lparr>variant = UnivariateNormal, Normal_mean = Scalar ''float'' False x,
          Normal_cov = Scalar ''float'' False y, Normal_random_state = rs\<rparr>"
  by (simp add: Normal_def Normal_new_def UnivariateNormal_init_def Normal_init_def)

lemma Normal_cases:
  assumes "Normal tf m c rs = Inr N"
  obtains (univariate) x y where
      "N = \<lparr>variant = UnivariateNormal, Normal_mean = Scalar ''float'' False x,
            Normal_cov = Scalar ''float'' False y, Normal_random_state = rs\<rparr>"
      "py_float tf m = Inr (Scalar ''float'' False x)"
      "py_float tf c = Inr (Scalar ''float'' False y)"
      "Normal_new m c = Inr UnivariateNormal"
    | (other) v where
      "N = \<lparr>variant = v, Normal_mean = m, Normal_cov = c, Normal_random_state = rs\<rparr>"
      "Normal_new m c = Inr v" "v \<noteq> UnivariateNormal"
proof -
  from assms obtain v where v: "Normal_new m c = Inr v"
    by (cases "Normal_new m c") (auto simp: Normal_def)
  show thesis
  proof (cases v)
    case UnivariateNormal
    with assms v have "UnivariateNormal_init tf UnivariateNormal m c rs = Inr N"
      by (simp add: Normal_def)
    from UnivariateNormal_init_result [OF this] v UnivariateNormal univariate
    show thesis by blast
  next
    case MultivariateNormal
    with assms v have "MultivariateNormal_init v m c rs = Inr N"
      by (simp add: Normal_def)
    from MultivariateNormal_init_result [OF this] v MultivariateNormal other
    show thesis by blast
  next
    case MatrixvariateNormal
    with assms v have "MatrixvariateNormal_init v m c rs = Inr N"
      by (simp add: Normal_def)
    from MatrixvariateNormal_init_result [OF this] v MatrixvariateNormal other
    show thesis by blast
  next
    case OperatorvariateNormal
    with assms v have "OperatorvariateNormal_init v m c rs = Inr N"
      by (simp add: Normal_def)
    from OperatorvariateNormal_init_result [OF this] v OperatorvariateNormal other
    show thesis by blast
  next
    case SymmetricKroneckerIdenticalFactorsNormal
    with assms v have "SymmetricKroneckerIdenticalFactorsNormal_init v m c rs = Inr N"
      by (simp add: Normal_def)
    from SymmetricKroneckerIdenticalFactorsNormal_init_result [OF this] v
      SymmetricKroneckerIdenticalFactorsNormal other
    show thesis by blast
  qed
qed

lemma Normal_constructed:
  assumes "Normal tf m c rs = Inr N"
  shows "constructed tf N"
  using assms
proof (cases rule: Normal_cases)
  case (univariate x y)
  then show ?thesis
    by (simp add: constructed_def Normal_univariate_floats)
next
  case (other v)
  with assms show ?thesis
    by (simp add: constructed_def)
qed

lemma Normal_restore:
  assumes "kind m' = kind m" "kind c' = kind c"
    and "Normal_new m c = Inr v" "v \<noteq> UnivariateNormal"
  shows "Normal tf m' c' rs' = restore m' c' rs' (Normal tf m c rs)"
proof -
  have v': "Normal_new m' c' = Inr v"
    using Normal_new_cong [OF assms(1,2)] assms(3) by simp
  show ?thesis
    using assms(4) unfolding Normal_def v' assms(3)
    by (cases v)
      (simp_all add: MultivariateNormal_init_restore [OF assms(1,2), of _ rs' rs]
        MatrixvariateNormal_init_restore [OF assms(1,2), of _ rs' rs]
        OperatorvariateNormal_init_restore [OF assms(1,2), of _ rs' rs]
        SymmetricKroneckerIdenticalFactorsNormal_init_restore [OF assms(1,2), of _ rs' rs])
qed

lemma Normal_same_kind:
  assumes "constructed tf N"
    and "kind m' = kind (Normal_mean N)" "kind c' = kind (Normal_cov N)"
  shows "Normal tf m' c' rs' =
     Inr (N\<lparr>Normal_mean := m', Normal_cov := c', Normal_random_state := rs'\<rparr>)"
proof -
  have N: "Normal tf (Normal_mean N) (Normal_cov N) (Normal_random_state N) = Inr N"
    using assms(1) by (simp add: constructed_def)
  from N show ?thesis
  proof (cases rule: Normal_cases)
    case (univariate x y)
    have "Normal_mean N = Scalar ''float'' False x" "Normal_cov N = Scalar ''float'' False y"
      by (subst univariate(1), simp)+
    with assms(2,3) have km: "kind m' = kind (Scalar ''float'' False x)"
      and kc: "kind c' = kind (Scalar ''float'' False y)"
      by simp_all
    from kind_Scalar [OF km] obtain x' where m': "m' = Scalar ''float'' False x'" ..
    from kind_Scalar [OF kc] obtain y' where c': "c' = Scalar ''float'' False y'" ..
    have "variant N = UnivariateNormal"
      by (subst univariate(1), simp)
    then show ?thesis
      unfolding m' c' Normal_univariate_floats by (cases N) simp
  next
    case (other v)
    from Normal_restore [OF assms(2,3) other(2,3), of tf rs' "Normal_random_state N"] N
    show ?thesis by (simp add: restore_def)
  qed
qed

section \<open>Arithmetic with operands that are not point masses\<close>

lemma Normal_add_needs_Dirac:
  "Normal_add ext self other = Inr r \<Longrightarrow> converts_to_Dirac ext other"
  by (cases "asdist ext other"; cases "projr (asdist ext other)")
    (auto simp: Normal_add_def converts_to_Dirac_def)

lemma Normal_sub_needs_Dirac:
  "Normal_sub ext self other = Inr r \<Longrightarrow> converts_to_Dirac ext other"
  by (cases "asdist ext other"; cases "projr (asdist ext other)")
    (auto simp: Normal_sub_def converts_to_Dirac_def)

lemma Normal_mul_needs_Dirac:
  "Normal_mul ext self other = Inr r \<Longrightarrow> converts_to_Dirac ext other"
  by (cases "asdist ext other"; cases "projr (asdist ext other)")
    (auto simp: Normal_mul_def converts_to_Dirac_def)

lemma Normal_truediv_needs_Dirac:
  "Normal_truediv ext self other = Inr r \<Longrightarrow> converts_to_Dirac ext other"
  by (cases "eq_zero ext other"; cases "asdist ext other"; cases "projr (asdist ext other)")
    (auto simp: Normal_truediv_def converts_to_Dirac_def split: if_splits)

lemma Normal_matmul_needs_Dirac:
  "Normal_matmul ext self other = Inr r \<Longrightarrow> converts_to_Dirac ext other"
  by (cases "variant self"; cases "asdist ext other"; cases "projr (asdist ext other)")
    (auto simp: Normal_matmul_def UnivariateNormal_matmul_def MultivariateNormal_matmul_def
      MatrixvariateNormal_matmul_def OperatorvariateNormal_matmul_def converts_to_Dirac_def)

lemma Normal_radd_needs_Dirac:
  "Normal_radd ext self other = Inr r \<Longrightarrow> converts_to_Dirac ext other"
  by (cases "asdist ext other"; cases "projr (asdist ext other)")
    (auto simp: Normal_radd_def converts_to_Dirac_def)

lemma Normal_rsub_needs_Dirac:
  "Normal_rsub ext self other = Inr r \<Longrightarrow> converts_to_Dirac ext other"
  by (cases "asdist ext other"; cases "projr (asdist ext other)")
    (auto simp: Normal_rsub_def converts_to_Dirac_def)

lemma Normal_rmul_needs_Dirac:
  "Normal_rmul ext self other = Inr r \<Longrightarrow> converts_to_Dirac ext other"
  by (cases "asdist ext other"; cases "projr (asdist ext other)")
    (auto simp: Normal_rmul_def converts_to_Dirac_def)

lemma Normal_rmatmul_needs_Dirac:
  "Normal_rmatmul ext self other = Inr r \<Longrightarrow> converts_to_Dirac ext other"
  by (cases "asdist ext other"; cases "projr (asdist ext other)")
    (auto simp: Normal_rmatmul_def converts_to_Dirac_def)

lemma Normal_rtruediv_needs_Dirac:
  "Normal_rtruediv ext self other = Inr r \<Longrightarrow> converts_to_Dirac ext other"
  by (cases "asdist ext other"; cases "projr (asdist ext other)")
    (auto simp: Normal_rtruediv_def converts_to_Dirac_def)

lemma not_Dirac_cases:
  assumes "\<not> isinstance_Dirac d"
  obtains N where "d = NormalDist N" | n rs where "d = Distribution n rs"
  using assms by (cases d) auto

lemma Normal_add_not_Dirac:
  assumes "asdist ext other = Inr d" "\<not> isinstance_Dirac d"
  shows "Normal_add ext self other =
     Inl (NotImplementedError (not_implemented_for ''Addition''
            (variant_name (variant self)) (obj_class_name other)))"
  using assms(2) by (cases d rule: not_Dirac_cases) (simp_all add: Normal_add_def assms(1))

lemma Normal_sub_not_Dirac:
  assumes "asdist ext other = Inr d" "\<not> isinstance_Dirac d"
  shows "Normal_sub ext self other =
     Inl (NotImplementedError (not_implemented_for ''Subtraction''
            (variant_name (variant self)) (obj_class_name other)))"
  using assms(2) by (cases d rule: not_Dirac_cases) (simp_all add: Normal_sub_def assms(1))

lemma Normal_mul_not_Dirac:
  assumes "asdist ext other = Inr d" "\<not> isinstance_Dirac d"
  shows "Normal_mul ext self other =
     Inl (NotImplementedError (not_implemented_for ''Multiplication''
            (variant_name (variant self)) (obj_class_name other)))"
  using assms(2) by (cases d rule: not_Dirac_cases) (simp_all add: Normal_mul_def assms(1))

lemma Normal_truediv_not_Dirac:
  assumes "asdist ext other = Inr d" "\<not> isinstance_Dirac d" "eq_zero ext other = Inr False"
  shows "Normal_truediv ext self other =
     Inl (NotImplementedError (not_implemented_for ''Division''
            (variant_name (variant self)) (obj_class_name other)))"
  using assms(2)
  by (cases d rule: not_Dirac_cases) (simp_all add: Normal_truediv_def assms(1,3))

lemma Normal_matmul_not_Dirac:
  assumes "asdist ext other = Inr d" "\<not> isinstance_Dirac d"
  shows "Normal_matmul ext self other =
     Inl (NotImplementedError (not_implemented_for ''Matrix multiplication''
            (variant_name (variant self)) (obj_class_name other)))"
  using assms(2)
  by (cases d rule: not_Dirac_cases; cases "variant self")
    (simp_all add: Normal_matmul_def UnivariateNormal_matmul_def MultivariateNormal_matmul_def
      MatrixvariateNormal_matmul_def OperatorvariateNormal_matmul_def assms(1))

lemma Normal_radd_not_Dirac:
  assumes "asdist ext other = Inr d" "\<not> isinstance_Dirac d"
  shows "Normal_radd ext self other =
     Inl (NotImplementedError (not_implemented_for ''Addition''
            (obj_class_name other) (variant_name (variant self))))"
  using assms(2) by (cases d rule: not_Dirac_cases) (simp_all add: Normal_radd_def assms(1))

lemma Normal_rsub_not_Dirac:
  assumes "asdist ext other = Inr d" "\<not> isinstance_Dirac d"
  shows "Normal_rsub ext self other =
     Inl (NotImplementedError (not_implemented_for ''Subtraction''
            (obj_class_name other) (variant_name (variant self))))"
  using assms(2) by (cases d rule: not_Dirac_cases) (simp_all add: Normal_rsub_def assms(1))

lemma Normal_rmul_not_Dirac:
  assumes "asdist ext other = Inr d" "\<not> isinstance_Dirac d"
  shows "Normal_rmul ext self other =
     Inl (NotImplementedError (not_implemented_for ''Multiplication''
            (obj_class_name other) (variant_name (variant self))))"
  using assms(2) by (cases d rule: not_Dirac_cases) (simp_all add: Normal_rmul_def assms(1))

lemma Normal_rmatmul_not_Dirac:
  assumes "asdist ext other = Inr d" "\<not> isinstance_Dirac d"
  shows "Normal_rmatmul ext self other =
     Inl (NotImplementedError (not_implemented_for ''Matrix multiplication''
            (obj_class_name other) (variant_name (variant self))))"
  using assms(2) by (cases d rule: not_Dirac_cases) (simp_all add: Normal_rmatmul_def assms(1))

lemma Normal_rtruediv_not_Dirac:
  assumes "asdist ext other = Inr d" "\<not> isinstance_Dirac d"
  shows "Normal_rtruediv ext self other =
     Inl (NotImplementedError (not_implemented_for ''Division''
            (obj_class_name other) (variant_name (variant self))))"
  using assms(2) by (cases d rule: not_Dirac_cases) (simp_all add: Normal_rtruediv_def assms(1))

text \<open>
  C6. For every Normal and every operand: addition, subtraction, multiplication,
  division and matrix multiplication, and their reflected forms, return a result only
  when \<open>asdist\<close> turns the operand into a \<open>Dirac\<close>; when \<open>asdist\<close> turns it into a
  distribution that is not a \<open>Dirac\<close>, each of them raises the \<open>NotImplementedError\<close>
  whose message names the operation and the two classes, in the order of the operands
  (for division, an operand for which \<open>other == 0\<close> is false, the test that the method
  makes first).
\<close>

theorem arithmetic_needs_point_mass:
  "((\<exists>r. Normal_add ext self other = Inr r \<or> Normal_sub ext self other = Inr r \<or>
        Normal_mul ext self other = Inr r \<or> Normal_truediv ext self other = Inr r \<or>
        Normal_matmul ext self other = Inr r \<or> Normal_radd ext self other = Inr r \<or>
        Normal_rsub ext self other = Inr r \<or> Normal_rmul ext self other = Inr r \<or>
        Normal_rmatmul ext self other = Inr r \<or> Normal_rtruediv ext self other = Inr r) \<longrightarrow>
      converts_to_Dirac ext other) \<and>
   (asdist ext other = Inr d \<and> \<not> isinstance_Dirac d \<longrightarrow>
      Normal_add ext self other =
        Inl (NotImplementedError (not_implemented_for ''Addition''
               (variant_name (variant self)) (obj_class_name other))) \<and>
      Normal_sub ext self other =
        Inl (NotImplementedError (not_implemented_for ''Subtraction''
               (variant_name (variant self)) (obj_class_name other))) \<and>
      Normal_mul ext self other =
        Inl (NotImplementedError (not_implemented_for ''Multiplication''
               (variant_name (variant self)) (obj_class_name other))) \<and>
      (eq_zero ext other = Inr False \<longrightarrow>
         Normal_truediv ext self other =
           Inl (NotImplementedError (not_implemented_for ''Division''
                  (variant_name (variant self)) (obj_class_name other)))) \<and>
      Normal_matmul ext self other =
        Inl (NotImplementedError (not_implemented_for ''Matrix multiplication''
               (variant_name (variant self)) (obj_class_name other))) \<and>
      Normal_radd ext self other =
        Inl (NotImplementedError (not_implemented_for ''Addition''
               (obj_class_name other) (variant_name (variant self)))) \<and>
      Normal_rsub ext self other =
        Inl (NotImplementedError (not_implemented_for ''Subtraction''
               (obj_class_name other) (variant_name (variant self)))) \<and>
      Normal_rmul ext self other =
        Inl (NotImplementedError (not_implemented_for ''Multiplication''
               (obj_class_name other) (variant_name (variant self)))) \<and>
      Normal_rmatmul ext self other =
        Inl (NotImplementedError (not_implemented_for ''Matrix multiplication''
               (obj_class_name other) (variant_name (variant self)))) \<and>
      Normal_rtruediv ext self other =
        Inl (NotImplementedError (not_implemented_for ''Division''
               (obj_class_name other) (variant_name (variant self)))))"
proof (intro conjI impI)
  assume "\<exists>r. Normal_add ext self other = Inr r \<or> Normal_sub ext self other = Inr r \<or>
        Normal_mul ext self other = Inr r \<or> Normal_truediv ext self other = Inr r \<or>
        Normal_matmul ext self other = Inr r \<or> Normal_radd ext self other = Inr r \<or>
        Normal_rsub ext self other = Inr r \<or> Normal_rmul ext self other = Inr r \<or>
        Normal_rmatmul ext self other = Inr r \<or> Normal_rtruediv ext self other = Inr r"
  then show "converts_to_Dirac ext other"
    using Normal_add_needs_Dirac Normal_sub_needs_Dirac Normal_mul_needs_Dirac
      Normal_truediv_needs_Dirac Normal_matmul_needs_Dirac Normal_radd_needs_Dirac
      Normal_rsub_needs_Dirac Normal_rmul_needs_Dirac Normal_rmatmul_needs_Dirac
      Normal_rtruediv_needs_Dirac
    by (elim exE disjE) fast+
qed (simp_all add: Normal_add_not_Dirac Normal_sub_not_Dirac Normal_mul_not_Dirac
    Normal_truediv_not_Dirac Normal_matmul_not_Dirac Normal_radd_not_Dirac
    Normal_rsub_not_Dirac Normal_rmul_not_Dirac Normal_rmatmul_not_Dirac
    Normal_rtruediv_not_Dirac)

lemma to_float_np_ext [simp]: "to_float np_ext = np_to_float"
  by (simp add: np_ext_def)


lemma Normal_add_N_one_one:
  "Normal_add np_ext N_one (Val (Scalar ''float'' False [1])) =
     Inr (NormalDist (N_one\<lparr>Normal_mean := Scalar ''float'' False [2]\<rparr>))"
  by (simp add: Normal_add_def Normal_dist_def np_ext_def N_one_def Normal_univariate_floats
      number_class_def result_class_def exact_def binary64_small)

theorem arithmetic_needs_point_mass_witness:
  "asdist np_ext (Dist (Distribution ''Uniform'' None)) = Inr (Distribution ''Uniform'' None) \<and>
   \<not> isinstance_Dirac (Distribution ''Uniform'' None :: int list distribution) \<and>
   eq_zero np_ext (Dist (Distribution ''Uniform'' None)) = Inr False \<and>
   Normal_add np_ext N_one (Dist (Distribution ''Uniform'' None)) =
     Inl (NotImplementedError ''Addition not implemented for _UnivariateNormal and Uniform.'') \<and>
   Normal_truediv np_ext N_one (Dist (Distribution ''Uniform'' None)) =
     Inl (NotImplementedError ''Division not implemented for _UnivariateNormal and Uniform.'') \<and>
   Normal_matmul np_ext N_one (Dist (Distribution ''Uniform'' None)) =
     Inl (NotImplementedError
       ''Matrix multiplication not implemented for _UnivariateNormal and Uniform.'') \<and>
   Normal_rsub np_ext N_one (Dist (Distribution ''Uniform'' None)) =
     Inl (NotImplementedError ''Subtraction not implemented for Uniform and _UnivariateNormal.'') \<and>
   (\<exists>r. Normal_add np_ext N_one (Val (Scalar ''float'' False [1])) = Inr r) \<and>
   converts_to_Dirac np_ext (Val (Scalar ''float'' False [1]))"
proof -
  let ?U = "Distribution ''Uniform'' None :: int list distribution"
  have a: "asdist np_ext (Dist ?U) = Inr ?U \<and> \<not> isinstance_Dirac ?U"
    and z: "eq_zero np_ext (Dist ?U) = Inr False"
    by (simp_all add: np_ext_def)
  have n: "variant_name (variant N_one) = ''_UnivariateNormal''"
    by (simp add: N_one_def)
  note T = arithmetic_needs_point_mass [of np_ext N_one "Dist ?U" ?U, THEN conjunct2,
      rule_format, OF a]
  have e: "\<exists>r. Normal_add np_ext N_one (Val (Scalar ''float'' False [1])) = Inr r \<or>
        Normal_sub np_ext N_one (Val (Scalar ''float'' False [1])) = Inr r \<or>
        Normal_mul np_ext N_one (Val (Scalar ''float'' False [1])) = Inr r \<or>
        Normal_truediv np_ext N_one (Val (Scalar ''float'' False [1])) = Inr r \<or>
        Normal_matmul np_ext N_one (Val (Scalar ''float'' False [1])) = Inr r \<or>
        Normal_radd np_ext N_one (Val (Scalar ''float'' False [1])) = Inr r \<or>
        Normal_rsub np_ext N_one (Val (Scalar ''float'' False [1])) = Inr r \<or>
        Normal_rmul np_ext N_one (Val (Scalar ''float'' False [1])) = Inr r \<or>
        Normal_rmatmul np_ext N_one (Val (Scalar ''float'' False [1])) = Inr r \<or>
        Normal_rtruediv np_ext N_one (Val (Scalar ''float'' False [1])) = Inr r"
    by (rule exI, rule disjI1, rule Normal_add_N_one_one)
  note C = arithmetic_needs_point_mass [of np_ext N_one "Val (Scalar ''float'' False [1])",
      THEN conjunct1, rule_format, OF e]
  show ?thesis
    using a z T C Normal_add_N_one_one
    by (simp add: n not_implemented_for_def)
qed

section \<open>What the constructor accepts\<close>

lemma kind_alike: "kind v = kind w \<Longrightarrow> alike v w"
  using np_isscalar_kind [of v] np_isscalar_kind [of w] np_shape_kind [of v] np_shape_kind [of w]
    isinstance_array_kind [of v] isinstance_array_kind [of w]
    isinstance_LinearOperator_kind [of v] isinstance_LinearOperator_kind [of w]
    shape_attr_kind [of v] shape_attr_kind [of w]
  by (simp add: alike_def)







lemma Normal_univariate:
  assumes "np_shape m \<in> set dim1shapes" "np_shape c \<in> set dim1shapes"
    and "py_float tf m = Inr x" "py_float tf c = Inr y"
  shows "Normal tf m c rs =
     Inr \<lparr>variant = UnivariateNormal, Normal_mean = x, Normal_cov = y, Normal_random_state = rs\<rparr>"
  using assms by (simp add: Normal_def Normal_new_def UnivariateNormal_init_def Normal_init_def)


lemma Normal_result:
  assumes "Normal tf m c rs = Inr N'"
  shows "constructed tf N' \<and> Normal_random_state N' = rs \<and>
     (variant N' \<noteq> UnivariateNormal \<longrightarrow> Normal_mean N' = m \<and> Normal_cov N' = c) \<and>
     (variant N' = UnivariateNormal \<longrightarrow>
        py_float tf m = Inr (Normal_mean N') \<and> py_float tf c = Inr (Normal_cov N'))"
proof -
  note c = Normal_constructed [OF assms]
  from assms show ?thesis
  proof (cases rule: Normal_cases)
    case (univariate x y)
    show ?thesis
      using c univariate(2,3) by (subst (1 2 3 4 5) univariate(1)) simp
  next
    case (other v)
    show ?thesis
      using c other(3) by (subst (1 2 3 4 5) other(1)) simp
  qed
qed

lemma Normal_dist_Inr:
  "Normal_dist ext m c rs = Inr r \<longleftrightarrow>
     (\<exists>N'. Normal (to_float ext) m c rs = Inr N' \<and> r = NormalDist N')"
  by (cases "Normal (to_float ext) m c rs") (auto simp: Normal_dist_def)

lemma Normal_dist_Inl:
  "Normal (to_float ext) m c rs = Inl e \<Longrightarrow> Normal_dist ext m c rs = Inl e"
  by (simp add: Normal_dist_def)

lemma Normal_dist_shifted:
  "(Normal_dist ext m' c0 rs0 = Inr r \<longleftrightarrow>
      (\<exists>N'. Normal (to_float ext) m' c0 rs0 = Inr N' \<and> r = NormalDist N')) \<and>
   (Normal (to_float ext) m' c0 rs0 = Inl err \<longrightarrow> Normal_dist ext m' c0 rs0 = Inl err) \<and>
   (Normal_dist ext m' c0 rs0 = Inr (NormalDist N') \<longrightarrow>
      constructed (to_float ext) N' \<and> Normal_random_state N' = rs0 \<and>
      (variant N' \<noteq> UnivariateNormal \<longrightarrow> Normal_mean N' = m' \<and> Normal_cov N' = c0) \<and>
      (variant N' = UnivariateNormal \<longrightarrow>
         py_float (to_float ext) m' = Inr (Normal_mean N') \<and>
         py_float (to_float ext) c0 = Inr (Normal_cov N')))"
  using Normal_result [of "to_float ext" m' c0 rs0 N']
  by (simp add: Normal_dist_Inr Normal_dist_Inl)





lemma N_two_constructed: "constructed np_to_float N_two"
  by (simp add: constructed_def N_two_def Normal_def Normal_new_def dim1shapes_def
      MultivariateNormal_init_def Normal_init_def np_prod_def)

lemma np_asdist_float:
  "asdist np_ext (Val (Scalar ''float'' False xs)) = Inr (Dirac (Scalar ''float'' False xs) None)"
  by (simp add: np_ext_def number_class_def)

lemma np_asdist_int:
  "asdist np_ext (Val (Scalar ''int'' False xs)) = Inr (Dirac (Scalar ''int'' False xs) None)"
  by (simp add: np_ext_def number_class_def)


section \<open>No method changes a Normal\<close>

lemma Normals_unchanged_refl [simp]: "Normals_unchanged h h"
  by (simp add: Normals_unchanged_def)

lemma Normals_unchanged_trans:
  "Normals_unchanged h h' \<Longrightarrow> Normals_unchanged h' h'' \<Longrightarrow> Normals_unchanged h h''"
  by (auto simp: Normals_unchanged_def)

lemma Normals_unchanged_append [simp]: "Normals_unchanged h (h @ [d])"
  by (simp add: Normals_unchanged_def nth_append)

lemma mutates_no_Normal_returns [simp]: "mutates_no_Normal (returns r)"
  by (simp add: mutates_no_Normal_def returns_def)

lemma mutates_no_Normal_allocate [simp]: "mutates_no_Normal (allocate d)"
  by (auto simp: mutates_no_Normal_def allocate_def)

lemma mutates_no_Normal_lookup [simp]: "mutates_no_Normal (lookup r)"
  by (auto simp: mutates_no_Normal_def lookup_def)

lemma mutates_no_Normal_and_then:
  assumes "mutates_no_Normal a" "\<And>v. mutates_no_Normal (f v)"
  shows "mutates_no_Normal (and_then a f)"
  unfolding mutates_no_Normal_def
proof (intro allI impI)
  fix h r h'
  assume run: "and_then a f h = (r, h')"
  obtain r1 h1 where a: "a h = (r1, h1)"
    by (cases "a h")
  with assms(1) have u1: "Normals_unchanged h h1"
    by (simp add: mutates_no_Normal_def)
  show "Normals_unchanged h h'"
  proof (cases r1)
    case (Inl e)
    with run a u1 show ?thesis
      by (simp add: and_then_def)
  next
    case (Inr v)
    with run a have "f v h1 = (r, h')"
      by (simp add: and_then_def)
    with assms(2) [of v] have "Normals_unchanged h1 h'"
      by (simp add: mutates_no_Normal_def)
    with u1 show ?thesis
      by (rule Normals_unchanged_trans)
  qed
qed

lemma mutates_no_Normal_except_raise:
  assumes "mutates_no_Normal a"
  shows "mutates_no_Normal (except_raise msg a)"
  using assms
  by (auto simp: mutates_no_Normal_def except_raise_def split: prod.splits sum.splits)

lemma mutates_no_Normal_self_Normal [simp]: "mutates_no_Normal (self_Normal self)"
  unfolding self_Normal_def
  by (rule mutates_no_Normal_and_then) (simp_all split: distribution.split)

lemma mutates_no_Normal_operand_class_name [simp]:
  "mutates_no_Normal (operand_class_name other)"
  unfolding operand_class_name_def
  by (cases other) (simp_all add: mutates_no_Normal_and_then)

lemma mutates_no_Normal_raise_not_implemented [simp]:
  "mutates_no_Normal (raise_not_implemented what reflected self other)"
  unfolding raise_not_implemented_def
  by (intro mutates_no_Normal_and_then) simp_all

lemma mutates_no_Normal_Normal_object [simp]: "mutates_no_Normal (Normal_object ext m c rs)"
  unfolding Normal_object_def
  by (intro mutates_no_Normal_and_then) simp_all

lemma mutates_no_Normal_Dirac_object [simp]: "mutates_no_Normal (Dirac_object s rs)"
  by (simp add: Dirac_object_def)

lemma mutates_no_Normal_Distribution_object [simp]: "mutates_no_Normal (Distribution_object rs)"
  by (simp add: Distribution_object_def)

lemma mutates_no_Normal_case_distribution:
  assumes "\<And>N. mutates_no_Normal (f N)" "\<And>x rs. mutates_no_Normal (g x rs)"
    "\<And>n rs. mutates_no_Normal (k n rs)"
  shows "mutates_no_Normal (case d of NormalDist N \<Rightarrow> f N | Dirac x rs \<Rightarrow> g x rs
    | Distribution n rs \<Rightarrow> k n rs)"
  using assms by (cases d) simp_all

lemma mutates_no_Normal_if:
  assumes "mutates_no_Normal a" "mutates_no_Normal b"
  shows "mutates_no_Normal (if c then a else b)"
  using assms by simp

lemmas mutates_no_Normal_intros =
  mutates_no_Normal_and_then mutates_no_Normal_except_raise mutates_no_Normal_case_distribution
  mutates_no_Normal_if mutates_no_Normal_returns mutates_no_Normal_allocate
  mutates_no_Normal_lookup mutates_no_Normal_self_Normal mutates_no_Normal_operand_class_name
  mutates_no_Normal_raise_not_implemented mutates_no_Normal_Normal_object
  mutates_no_Normal_Dirac_object mutates_no_Normal_Distribution_object

lemma collaborators:
  assumes "collaborators_mutate_no_Normal oext"
  shows "mutates_no_Normal (asdist_object oext other)"
    "mutates_no_Normal (eq_zero_object oext other)"
    "mutates_no_Normal (neg_object oext d)"
    "mutates_no_Normal (inv_object oext d)"
    "mutates_no_Normal (mul_object oext d e)"
  using assms by (simp_all add: collaborators_mutate_no_Normal_def)

lemma Normal_add_object_mutates_no_Normal:
  assumes "collaborators_mutate_no_Normal oext"
  shows "mutates_no_Normal (Normal_add_object ext oext self other)"
  unfolding Normal_add_object_def
  by (intro mutates_no_Normal_intros collaborators [OF assms])

lemma Normal_sub_object_mutates_no_Normal:
  assumes "collaborators_mutate_no_Normal oext"
  shows "mutates_no_Normal (Normal_sub_object ext oext self other)"
  unfolding Normal_sub_object_def
  by (intro mutates_no_Normal_intros collaborators [OF assms]
      Normal_add_object_mutates_no_Normal [OF assms])

lemma Normal_mul_object_mutates_no_Normal:
  assumes "collaborators_mutate_no_Normal oext"
  shows "mutates_no_Normal (Normal_mul_object ext oext self other)"
  unfolding Normal_mul_object_def
  by (intro mutates_no_Normal_intros collaborators [OF assms])

lemma Normal_truediv_object_mutates_no_Normal:
  assumes "collaborators_mutate_no_Normal oext"
  shows "mutates_no_Normal (Normal_truediv_object ext oext self other)"
  unfolding Normal_truediv_object_def
  by (intro mutates_no_Normal_intros collaborators [OF assms]
      Normal_mul_object_mutates_no_Normal [OF assms])

lemma Normal_neg_object_mutates_no_Normal:
  "mutates_no_Normal (Normal_neg_object ext self)"
  unfolding Normal_neg_object_def
  by (intro mutates_no_Normal_intros)

lemma Normal_pos_object_mutates_no_Normal:
  "mutates_no_Normal (Normal_pos_object ext self)"
  unfolding Normal_pos_object_def
  by (intro mutates_no_Normal_intros)

lemma Normal_abs_object_mutates_no_Normal:
  "mutates_no_Normal (Normal_abs_object self)"
  unfolding Normal_abs_object_def
  by (intro mutates_no_Normal_intros)

lemma Normal_invert_object_mutates_no_Normal:
  "mutates_no_Normal (Normal_invert_object self)"
  unfolding Normal_invert_object_def
  by (intro mutates_no_Normal_intros)

lemma Normal_radd_object_mutates_no_Normal:
  assumes "collaborators_mutate_no_Normal oext"
  shows "mutates_no_Normal (Normal_radd_object ext oext self other)"
  unfolding Normal_radd_object_def
  by (intro mutates_no_Normal_intros collaborators [OF assms]
      Normal_add_object_mutates_no_Normal [OF assms])

lemma Normal_rsub_object_mutates_no_Normal:
  assumes "collaborators_mutate_no_Normal oext"
  shows "mutates_no_Normal (Normal_rsub_object ext oext self other)"
  unfolding Normal_rsub_object_def
  by (intro mutates_no_Normal_intros collaborators [OF assms]
      Normal_add_object_mutates_no_Normal [OF assms] Normal_neg_object_mutates_no_Normal)

lemma Normal_rmul_object_mutates_no_Normal:
  assumes "collaborators_mutate_no_Normal oext"
  shows "mutates_no_Normal (Normal_rmul_object ext oext self other)"
  unfolding Normal_rmul_object_def
  by (intro mutates_no_Normal_intros collaborators [OF assms]
      Normal_mul_object_mutates_no_Normal [OF assms])

lemma Normal_rmatmul_object_mutates_no_Normal:
  assumes "collaborators_mutate_no_Normal oext"
  shows "mutates_no_Normal (Normal_rmatmul_object ext oext self other)"
  unfolding Normal_rmatmul_object_def
  by (intro mutates_no_Normal_intros collaborators [OF assms])

lemma Normal_rtruediv_object_mutates_no_Normal:
  assumes "collaborators_mutate_no_Normal oext"
  shows "mutates_no_Normal (Normal_rtruediv_object ext oext self other)"
  unfolding Normal_rtruediv_object_def
  by (intro mutates_no_Normal_intros collaborators [OF assms]
      Normal_invert_object_mutates_no_Normal)

lemma Normal_matmul_object_mutates_no_Normal:
  assumes "collaborators_mutate_no_Normal oext"
  shows "mutates_no_Normal (Normal_matmul_object ext oext self other)"
proof -
  have u: "mutates_no_Normal (UnivariateNormal_matmul_object ext oext self other)"
    unfolding UnivariateNormal_matmul_object_def
    by (intro mutates_no_Normal_intros collaborators [OF assms])
  have m: "mutates_no_Normal (MultivariateNormal_matmul_object ext oext self other)"
    unfolding MultivariateNormal_matmul_object_def
    by (intro mutates_no_Normal_intros collaborators [OF assms])
  have x: "mutates_no_Normal (MatrixvariateNormal_matmul_object oext self other)"
    unfolding MatrixvariateNormal_matmul_object_def
    by (intro mutates_no_Normal_intros collaborators [OF assms])
  have o: "mutates_no_Normal (OperatorvariateNormal_matmul_object ext oext self other)"
    unfolding OperatorvariateNormal_matmul_object_def
    by (intro mutates_no_Normal_intros collaborators [OF assms])
  have "mutates_no_Normal
     (case v of
        UnivariateNormal \<Rightarrow> UnivariateNormal_matmul_object ext oext self other
      | MultivariateNormal \<Rightarrow> MultivariateNormal_matmul_object ext oext self other
      | MatrixvariateNormal \<Rightarrow> MatrixvariateNormal_matmul_object oext self other
      | OperatorvariateNormal \<Rightarrow> OperatorvariateNormal_matmul_object ext oext self other
      | SymmetricKroneckerIdenticalFactorsNormal \<Rightarrow>
          OperatorvariateNormal_matmul_object ext oext self other)" for v
    using u m x o by (cases v) simp_all
  then show ?thesis
    unfolding Normal_matmul_object_def
    by (intro mutates_no_Normal_and_then) simp_all
qed

section \<open>What a method returns is a new object\<close>

lemma returns_new_Inl [simp]: "returns_new (returns (Inl e))"
  by (simp add: returns_new_def returns_def)

lemma returns_new_allocate [simp]: "returns_new (allocate d)"
  by (auto simp: returns_new_def allocate_def)

lemma returns_new_and_then:
  assumes "mutates_no_Normal a" "\<And>v. returns_new (f v)"
  shows "returns_new (and_then a f)"
  unfolding returns_new_def
proof (intro allI impI)
  fix h r h'
  assume run: "and_then a f h = (Inr r, h')"
  obtain r1 h1 where a: "a h = (r1, h1)"
    by (cases "a h")
  with assms(1) have "Normals_unchanged h h1"
    by (simp add: mutates_no_Normal_def)
  then have l: "length h \<le> length h1"
    by (simp add: Normals_unchanged_def)
  show "length h \<le> r \<and> r < length h'"
  proof (cases r1)
    case (Inl e)
    with run a show ?thesis
      by (simp add: and_then_def)
  next
    case (Inr v)
    with run a have "f v h1 = (Inr r, h')"
      by (simp add: and_then_def)
    with assms(2) [of v] have "length h1 \<le> r \<and> r < length h'"
      by (simp add: returns_new_def)
    with l show ?thesis by simp
  qed
qed

lemma returns_new_except_raise:
  assumes "returns_new a"
  shows "returns_new (except_raise msg a)"
  using assms
  by (auto simp: returns_new_def except_raise_def split: prod.splits sum.splits)

lemma returns_new_raise_not_implemented [simp]:
  "returns_new (raise_not_implemented what reflected self other)"
  unfolding raise_not_implemented_def
  by (intro returns_new_and_then) simp_all

lemma returns_new_Normal_object [simp]: "returns_new (Normal_object ext m c rs)"
  unfolding Normal_object_def
  by (intro returns_new_and_then) simp_all

lemma returns_new_Dirac_object [simp]: "returns_new (Dirac_object s rs)"
  by (simp add: Dirac_object_def)

lemma returns_new_Distribution_object [simp]: "returns_new (Distribution_object rs)"
  by (simp add: Distribution_object_def)

lemma returns_new_case_distribution:
  assumes "\<And>N. returns_new (f N)" "\<And>x rs. returns_new (g x rs)"
    "\<And>n rs. returns_new (k n rs)"
  shows "returns_new (case d of NormalDist N \<Rightarrow> f N | Dirac x rs \<Rightarrow> g x rs
    | Distribution n rs \<Rightarrow> k n rs)"
  using assms by (cases d) simp_all

lemma returns_new_if:
  assumes "returns_new a" "returns_new b"
  shows "returns_new (if c then a else b)"
  using assms by simp

lemmas returns_new_intros =
  returns_new_and_then returns_new_except_raise returns_new_case_distribution returns_new_if
  returns_new_Inl returns_new_allocate returns_new_raise_not_implemented
  returns_new_Normal_object returns_new_Dirac_object returns_new_Distribution_object
  mutates_no_Normal_returns mutates_no_Normal_lookup mutates_no_Normal_self_Normal

lemma Normal_add_object_returns_new:
  assumes "collaborators_mutate_no_Normal oext"
  shows "returns_new (Normal_add_object ext oext self other)"
  unfolding Normal_add_object_def
  by (intro returns_new_intros collaborators [OF assms])

lemma Normal_sub_object_returns_new:
  assumes "collaborators_mutate_no_Normal oext"
  shows "returns_new (Normal_sub_object ext oext self other)"
  unfolding Normal_sub_object_def
  by (intro returns_new_intros collaborators [OF assms] Normal_add_object_returns_new [OF assms])

lemma Normal_mul_object_returns_new:
  assumes "collaborators_mutate_no_Normal oext"
  shows "returns_new (Normal_mul_object ext oext self other)"
  unfolding Normal_mul_object_def
  by (intro returns_new_intros collaborators [OF assms])

lemma Normal_truediv_object_returns_new:
  assumes "collaborators_mutate_no_Normal oext"
  shows "returns_new (Normal_truediv_object ext oext self other)"
  unfolding Normal_truediv_object_def
  by (intro returns_new_intros collaborators [OF assms] Normal_mul_object_returns_new [OF assms])

lemma Normal_neg_object_returns_new: "returns_new (Normal_neg_object ext self)"
  unfolding Normal_neg_object_def
  by (intro returns_new_intros)

lemma Normal_pos_object_returns_new: "returns_new (Normal_pos_object ext self)"
  unfolding Normal_pos_object_def
  by (intro returns_new_intros)

lemma Normal_abs_object_returns_new: "returns_new (Normal_abs_object self)"
  unfolding Normal_abs_object_def
  by (intro returns_new_intros)

lemma Normal_invert_object_returns_new: "returns_new (Normal_invert_object self)"
  unfolding Normal_invert_object_def
  by (intro returns_new_intros)

lemma Normal_radd_object_returns_new:
  assumes "collaborators_mutate_no_Normal oext"
  shows "returns_new (Normal_radd_object ext oext self other)"
  unfolding Normal_radd_object_def
  by (intro returns_new_intros collaborators [OF assms] Normal_add_object_returns_new [OF assms])

lemma Normal_rsub_object_returns_new:
  assumes "collaborators_mutate_no_Normal oext"
  shows "returns_new (Normal_rsub_object ext oext self other)"
  unfolding Normal_rsub_object_def
  by (intro returns_new_intros collaborators [OF assms] Normal_add_object_returns_new [OF assms]
      Normal_neg_object_mutates_no_Normal)

lemma Normal_rmul_object_returns_new:
  assumes "collaborators_mutate_no_Normal oext"
  shows "returns_new (Normal_rmul_object ext oext self other)"
  unfolding Normal_rmul_object_def
  by (intro returns_new_intros collaborators [OF assms] Normal_mul_object_returns_new [OF assms])

lemma Normal_rmatmul_object_returns_new:
  assumes "collaborators_mutate_no_Normal oext"
  shows "returns_new (Normal_rmatmul_object ext oext self other)"
  unfolding Normal_rmatmul_object_def
  by (intro returns_new_intros collaborators [OF assms])

lemma Normal_rtruediv_object_returns_new:
  assumes "collaborators_mutate_no_Normal oext" "\<And>d e. returns_new (mul_object oext d e)"
  shows "returns_new (Normal_rtruediv_object ext oext self other)"
  unfolding Normal_rtruediv_object_def
  by (intro returns_new_intros collaborators [OF assms(1)] assms(2)
      Normal_invert_object_mutates_no_Normal)

lemma Normal_matmul_object_returns_new:
  assumes "collaborators_mutate_no_Normal oext"
  shows "returns_new (Normal_matmul_object ext oext self other)"
proof -
  have u: "returns_new (UnivariateNormal_matmul_object ext oext self other)"
    unfolding UnivariateNormal_matmul_object_def
    by (intro returns_new_intros collaborators [OF assms])
  have m: "returns_new (MultivariateNormal_matmul_object ext oext self other)"
    unfolding MultivariateNormal_matmul_object_def
    by (intro returns_new_intros collaborators [OF assms])
  have x: "returns_new (MatrixvariateNormal_matmul_object oext self other)"
    unfolding MatrixvariateNormal_matmul_object_def
    by (intro returns_new_intros collaborators [OF assms])
  have o: "returns_new (OperatorvariateNormal_matmul_object ext oext self other)"
    unfolding OperatorvariateNormal_matmul_object_def
    by (intro returns_new_intros collaborators [OF assms])
  have "returns_new
     (case v of
        UnivariateNormal \<Rightarrow> UnivariateNormal_matmul_object ext oext self other
      | MultivariateNormal \<Rightarrow> MultivariateNormal_matmul_object ext oext self other
      | MatrixvariateNormal \<Rightarrow> MatrixvariateNormal_matmul_object oext self other
      | OperatorvariateNormal \<Rightarrow> OperatorvariateNormal_matmul_object ext oext self other
      | SymmetricKroneckerIdenticalFactorsNormal \<Rightarrow>
          OperatorvariateNormal_matmul_object ext oext self other)" for v
    using u m x o by (cases v) simp_all
  then show ?thesis
    unfolding Normal_matmul_object_def
    by (intro returns_new_and_then) simp_all
qed

section \<open>What a method returns is as a constructor leaves it\<close>

lemma returns_constructed_Inl [simp]: "returns_constructed tf (returns (Inl e))"
  by (simp add: returns_constructed_def returns_def)

lemma returns_constructed_and_then:
  assumes "\<And>v. returns_constructed tf (f v)"
  shows "returns_constructed tf (and_then a f)"
  unfolding returns_constructed_def
proof (intro allI impI)
  fix h r h'
  assume run: "and_then a f h = (Inr r, h')"
  obtain r1 h1 where a: "a h = (r1, h1)"
    by (cases "a h")
  show "r < length h' \<and> newly_constructed tf (h' ! r)"
  proof (cases r1)
    case (Inl e)
    with run a show ?thesis
      by (simp add: and_then_def)
  next
    case (Inr v)
    with run a have "f v h1 = (Inr r, h')"
      by (simp add: and_then_def)
    with assms [of v] show ?thesis
      by (simp add: returns_constructed_def)
  qed
qed

lemma returns_constructed_except_raise:
  assumes "returns_constructed tf a"
  shows "returns_constructed tf (except_raise msg a)"
  using assms
  by (auto simp: returns_constructed_def except_raise_def split: prod.splits sum.splits)

lemma returns_constructed_raise_not_implemented [simp]:
  "returns_constructed tf (raise_not_implemented what reflected self other)"
  unfolding raise_not_implemented_def
  by (intro returns_constructed_and_then) simp

lemma returns_constructed_Normal_object [simp]:
  "returns_constructed (to_float ext) (Normal_object ext m c rs)"
  by (cases "Normal (to_float ext) m c rs")
    (auto simp: returns_constructed_def Normal_object_def and_then_def returns_def allocate_def
      dest: Normal_constructed)

lemma returns_constructed_Dirac_object [simp]: "returns_constructed tf (Dirac_object s rs)"
  by (auto simp: returns_constructed_def Dirac_object_def allocate_def)

lemma returns_constructed_Distribution_object [simp]:
  "returns_constructed tf (Distribution_object rs)"
  by (auto simp: returns_constructed_def Distribution_object_def allocate_def)

lemma returns_constructed_case_distribution:
  assumes "\<And>N. returns_constructed tf (f N)" "\<And>x rs. returns_constructed tf (g x rs)"
    "\<And>n rs. returns_constructed tf (k n rs)"
  shows "returns_constructed tf (case d of NormalDist N \<Rightarrow> f N | Dirac x rs \<Rightarrow> g x rs
    | Distribution n rs \<Rightarrow> k n rs)"
  using assms by (cases d) simp_all

lemma returns_constructed_if:
  assumes "returns_constructed tf a" "returns_constructed tf b"
  shows "returns_constructed tf (if c then a else b)"
  using assms by simp

lemmas returns_constructed_intros =
  returns_constructed_and_then returns_constructed_except_raise
  returns_constructed_case_distribution returns_constructed_if returns_constructed_Inl
  returns_constructed_raise_not_implemented returns_constructed_Normal_object
  returns_constructed_Dirac_object returns_constructed_Distribution_object

lemma Normal_add_object_returns_constructed:
  "returns_constructed (to_float ext) (Normal_add_object ext oext self other)"
  unfolding Normal_add_object_def
  by (intro returns_constructed_intros)

lemma Normal_sub_object_returns_constructed:
  "returns_constructed (to_float ext) (Normal_sub_object ext oext self other)"
  unfolding Normal_sub_object_def
  by (intro returns_constructed_intros Normal_add_object_returns_constructed)

lemma Normal_mul_object_returns_constructed:
  "returns_constructed (to_float ext) (Normal_mul_object ext oext self other)"
  unfolding Normal_mul_object_def
  by (intro returns_constructed_intros)

lemma Normal_truediv_object_returns_constructed:
  "returns_constructed (to_float ext) (Normal_truediv_object ext oext self other)"
  unfolding Normal_truediv_object_def
  by (intro returns_constructed_intros Normal_mul_object_returns_constructed)

lemma Normal_neg_object_returns_constructed:
  "returns_constructed (to_float ext) (Normal_neg_object ext self)"
  unfolding Normal_neg_object_def
  by (intro returns_constructed_intros)

lemma Normal_pos_object_returns_constructed:
  "returns_constructed (to_float ext) (Normal_pos_object ext self)"
  unfolding Normal_pos_object_def
  by (intro returns_constructed_intros)

lemma Normal_abs_object_returns_constructed:
  "returns_constructed tf (Normal_abs_object self)"
  unfolding Normal_abs_object_def
  by (intro returns_constructed_intros)

lemma Normal_invert_object_returns_constructed:
  "returns_constructed tf (Normal_invert_object self)"
  unfolding Normal_invert_object_def
  by (intro returns_constructed_intros)

lemma Normal_radd_object_returns_constructed:
  "returns_constructed (to_float ext) (Normal_radd_object ext oext self other)"
  unfolding Normal_radd_object_def
  by (intro returns_constructed_intros Normal_add_object_returns_constructed)

lemma Normal_rsub_object_returns_constructed:
  "returns_constructed (to_float ext) (Normal_rsub_object ext oext self other)"
  unfolding Normal_rsub_object_def
  by (intro returns_constructed_intros Normal_add_object_returns_constructed)

lemma Normal_rmul_object_returns_constructed:
  "returns_constructed (to_float ext) (Normal_rmul_object ext oext self other)"
  unfolding Normal_rmul_object_def
  by (intro returns_constructed_intros Normal_mul_object_returns_constructed)

lemma Normal_rmatmul_object_returns_constructed:
  "returns_constructed (to_float ext) (Normal_rmatmul_object ext oext self other)"
  unfolding Normal_rmatmul_object_def
  by (intro returns_constructed_intros)

lemma Normal_matmul_object_returns_constructed:
  "returns_constructed (to_float ext) (Normal_matmul_object ext oext self other)"
proof -
  have u: "returns_constructed (to_float ext) (UnivariateNormal_matmul_object ext oext self other)"
    unfolding UnivariateNormal_matmul_object_def
    by (intro returns_constructed_intros)
  have m: "returns_constructed (to_float ext)
      (MultivariateNormal_matmul_object ext oext self other)"
    unfolding MultivariateNormal_matmul_object_def
    by (intro returns_constructed_intros)
  have x: "returns_constructed (to_float ext) (MatrixvariateNormal_matmul_object oext self other)"
    unfolding MatrixvariateNormal_matmul_object_def
    by (intro returns_constructed_intros)
  have o: "returns_constructed (to_float ext)
      (OperatorvariateNormal_matmul_object ext oext self other)"
    unfolding OperatorvariateNormal_matmul_object_def
    by (intro returns_constructed_intros)
  have "returns_constructed (to_float ext)
     (case v of
        UnivariateNormal \<Rightarrow> UnivariateNormal_matmul_object ext oext self other
      | MultivariateNormal \<Rightarrow> MultivariateNormal_matmul_object ext oext self other
      | MatrixvariateNormal \<Rightarrow> MatrixvariateNormal_matmul_object oext self other
      | OperatorvariateNormal \<Rightarrow> OperatorvariateNormal_matmul_object ext oext self other
      | SymmetricKroneckerIdenticalFactorsNormal \<Rightarrow>
          OperatorvariateNormal_matmul_object ext oext self other)" for v
    using u m x o by (cases v) simp_all
  then show ?thesis
    unfolding Normal_matmul_object_def
    by (intro returns_constructed_and_then)
qed

section \<open>The methods on objects and on values\<close>

lemma and_then_Inr: "a h = (Inr v, h1) \<Longrightarrow> and_then a f h = f v h1"
  by (simp add: and_then_def)

lemma and_then_Inl: "a h = (Inl e, h1) \<Longrightarrow> and_then a f h = (Inl e, h1)"
  by (simp add: and_then_def)

lemma and_then_returns_Inr [simp]: "and_then (returns (Inr v)) f = f v"
  by (simp add: and_then_def returns_def)

lemma and_then_returns_Inl [simp]: "and_then (returns (Inl e)) f = returns (Inl e)"
  by (simp add: and_then_def returns_def)

lemma lookup_in_heap: "r < length h \<Longrightarrow> lookup r h = (Inr (h ! r), h)"
  by (simp add: lookup_def)

lemma self_Normal_in_heap:
  "self < length h \<Longrightarrow> h ! self = NormalDist N \<Longrightarrow> self_Normal self h = (Inr N, h)"
  by (simp add: self_Normal_def and_then_def lookup_def returns_def)

lemma Normal_add_object_Dirac:
  assumes "asdist_object oext other h = (Inr a, h1)" "a < length h1" "h1 ! a = Dirac d ds"
    and "self < length h1" "h1 ! self = NormalDist N"
  shows "Normal_add_object ext oext self other h =
     and_then (returns (py_add ext (Normal_mean N) d)) (\<lambda>m.
       Normal_object ext m (Normal_cov N) (Normal_random_state N)) h1"
  unfolding Normal_add_object_def
  by (simp add: and_then_def assms lookup_def self_Normal_def returns_def)

lemma Normal_object_result:
  "Normal (to_float ext) m c rs = Inr N' \<Longrightarrow>
   Normal_object ext m c rs h = (Inr (length h), h @ [NormalDist N'])"
  by (simp add: Normal_object_def allocate_def)

lemma Normal_add_object_result:
  assumes "asdist_object oext other h = (Inr a, h1) \<and> a < length h1 \<and> h1 ! a = Dirac d ds \<and>
      self < length h1 \<and> h1 ! self = NormalDist N \<and>
      py_add ext (Normal_mean N) d = Inr m' \<and>
      Normal (to_float ext) m' (Normal_cov N) (Normal_random_state N) = Inr N'"
  shows "Normal_add_object ext oext self other h = (Inr (length h1), h1 @ [NormalDist N'])"
proof -
  from assms have a: "asdist_object oext other h = (Inr a, h1)" "a < length h1"
    "h1 ! a = Dirac d ds" "self < length h1" "h1 ! self = NormalDist N"
    and p: "py_add ext (Normal_mean N) d = Inr m'"
    and n: "Normal (to_float ext) m' (Normal_cov N) (Normal_random_state N) = Inr N'"
    by simp_all
  show ?thesis
    unfolding Normal_add_object_Dirac [OF a] p
    by (simp add: Normal_object_result [OF n])
qed


lemma np_oext_collaborators: "collaborators_mutate_no_Normal np_oext"
proof -
  have "mutates_no_Normal (np_asdist_object other)" for other
    unfolding np_asdist_object_def
    by (cases other) (simp_all add: mutates_no_Normal_and_then)
  moreover have "mutates_no_Normal (np_eq_zero_object other)" for other
    unfolding np_eq_zero_object_def by (cases other) simp_all
  moreover have "mutates_no_Normal (np_neg_object r)" for r
    unfolding np_neg_object_def
    by (intro mutates_no_Normal_and_then) simp_all
  ultimately show ?thesis
    by (simp add: collaborators_mutate_no_Normal_def np_oext_def)
qed

text \<open>
  C7. Every augmented assignment operator of a Normal raises \<open>NotImplementedError\<close> and
  leaves the heap as it is, whatever the receiver and the operand. When the collaborators
  of \<open>normal.py\<close> (\<open>asdist\<close>, \<open>==\<close>, and the operators of the other distribution classes)
  change no Normal, no arithmetic method of \<open>Normal\<close> changes one, whether it returns or
  raises: every Normal that exists when the method is called, the receiver among them,
  has its class, mean, covariance and random state when the method ends. What a method
  returns is an object that did not exist when it was called, and it is as a constructor
  leaves it: a \<open>Dirac\<close>, a \<open>Distribution\<close>, or a Normal whose class is the one
  \<open>Normal.__new__\<close> selects for the parameters it stores. \<open>__rtruediv__\<close> returns what
  \<open>Distribution.__mul__\<close> returns, a new object when that method returns new objects.
\<close>

theorem in_place_operations_raise:
  assumes "collaborators_mutate_no_Normal oext"
  shows
    "Normal_iadd_object self other h = (Inl (NotImplementedError []), h) \<and>
     Normal_isub_object self other h = (Inl (NotImplementedError []), h) \<and>
     Normal_imul_object self other h = (Inl (NotImplementedError []), h) \<and>
     Normal_imatmul_object self other h = (Inl (NotImplementedError []), h) \<and>
     Normal_itruediv_object self other h = (Inl (NotImplementedError []), h) \<and>
     Normal_ipow_object self other h = (Inl (NotImplementedError []), h) \<and>
     mutates_no_Normal (Normal_add_object ext oext self other) \<and>
     mutates_no_Normal (Normal_sub_object ext oext self other) \<and>
     mutates_no_Normal (Normal_mul_object ext oext self other) \<and>
     mutates_no_Normal (Normal_truediv_object ext oext self other) \<and>
     mutates_no_Normal (Normal_matmul_object ext oext self other) \<and>
     mutates_no_Normal (Normal_pow_object self other) \<and>
     mutates_no_Normal (Normal_radd_object ext oext self other) \<and>
     mutates_no_Normal (Normal_rsub_object ext oext self other) \<and>
     mutates_no_Normal (Normal_rmul_object ext oext self other) \<and>
     mutates_no_Normal (Normal_rmatmul_object ext oext self other) \<and>
     mutates_no_Normal (Normal_rtruediv_object ext oext self other) \<and>
     mutates_no_Normal (Normal_rpow_object self other) \<and>
     mutates_no_Normal (Normal_neg_object ext self) \<and>
     mutates_no_Normal (Normal_pos_object ext self) \<and>
     mutates_no_Normal (Normal_abs_object self) \<and>
     mutates_no_Normal (Normal_invert_object self) \<and>
     returns_new (Normal_add_object ext oext self other) \<and>
     returns_new (Normal_sub_object ext oext self other) \<and>
     returns_new (Normal_mul_object ext oext self other) \<and>
     returns_new (Normal_truediv_object ext oext self other) \<and>
     returns_new (Normal_matmul_object ext oext self other) \<and>
     returns_new (Normal_radd_object ext oext self other) \<and>
     returns_new (Normal_rsub_object ext oext self other) \<and>
     returns_new (Normal_rmul_object ext oext self other) \<and>
     returns_new (Normal_rmatmul_object ext oext self other) \<and>
     ((\<forall>d e. returns_new (mul_object oext d e)) \<longrightarrow>
        returns_new (Normal_rtruediv_object ext oext self other)) \<and>
     returns_new (Normal_neg_object ext self) \<and>
     returns_new (Normal_pos_object ext self) \<and>
     returns_new (Normal_abs_object self) \<and>
     returns_new (Normal_invert_object self) \<and>
     returns_constructed (to_float ext) (Normal_add_object ext oext self other) \<and>
     returns_constructed (to_float ext) (Normal_sub_object ext oext self other) \<and>
     returns_constructed (to_float ext) (Normal_mul_object ext oext self other) \<and>
     returns_constructed (to_float ext) (Normal_truediv_object ext oext self other) \<and>
     returns_constructed (to_float ext) (Normal_matmul_object ext oext self other) \<and>
     returns_constructed (to_float ext) (Normal_radd_object ext oext self other) \<and>
     returns_constructed (to_float ext) (Normal_rsub_object ext oext self other) \<and>
     returns_constructed (to_float ext) (Normal_rmul_object ext oext self other) \<and>
     returns_constructed (to_float ext) (Normal_rmatmul_object ext oext self other) \<and>
     returns_constructed (to_float ext) (Normal_neg_object ext self) \<and>
     returns_constructed (to_float ext) (Normal_pos_object ext self) \<and>
     returns_constructed (to_float ext) (Normal_abs_object self) \<and>
     returns_constructed (to_float ext) (Normal_invert_object self)"
proof -
  have in_place:
    "Normal_iadd_object self other h = (Inl (NotImplementedError []), h)"
    "Normal_isub_object self other h = (Inl (NotImplementedError []), h)"
    "Normal_imul_object self other h = (Inl (NotImplementedError []), h)"
    "Normal_imatmul_object self other h = (Inl (NotImplementedError []), h)"
    "Normal_itruediv_object self other h = (Inl (NotImplementedError []), h)"
    "Normal_ipow_object self other h = (Inl (NotImplementedError []), h)"
    by (simp_all add: Normal_iadd_object_def Normal_isub_object_def Normal_imul_object_def
        Normal_imatmul_object_def Normal_itruediv_object_def Normal_ipow_object_def returns_def)
  have pow: "mutates_no_Normal (Normal_pow_object self other)"
    "mutates_no_Normal (Normal_rpow_object self other)"
    by (simp_all add: Normal_pow_object_def Normal_rpow_object_def)
  have rtruediv: "(\<forall>d e. returns_new (mul_object oext d e)) \<longrightarrow>
      returns_new (Normal_rtruediv_object ext oext self other)"
    using Normal_rtruediv_object_returns_new [OF assms] by simp
  note frame =
    Normal_add_object_mutates_no_Normal [OF assms]
    Normal_sub_object_mutates_no_Normal [OF assms]
    Normal_mul_object_mutates_no_Normal [OF assms]
    Normal_truediv_object_mutates_no_Normal [OF assms]
    Normal_matmul_object_mutates_no_Normal [OF assms]
    Normal_radd_object_mutates_no_Normal [OF assms]
    Normal_rsub_object_mutates_no_Normal [OF assms]
    Normal_rmul_object_mutates_no_Normal [OF assms]
    Normal_rmatmul_object_mutates_no_Normal [OF assms]
    Normal_rtruediv_object_mutates_no_Normal [OF assms]
    Normal_neg_object_mutates_no_Normal Normal_pos_object_mutates_no_Normal
    Normal_abs_object_mutates_no_Normal Normal_invert_object_mutates_no_Normal
  note new =
    Normal_add_object_returns_new [OF assms]
    Normal_sub_object_returns_new [OF assms]
    Normal_mul_object_returns_new [OF assms]
    Normal_truediv_object_returns_new [OF assms]
    Normal_matmul_object_returns_new [OF assms]
    Normal_radd_object_returns_new [OF assms]
    Normal_rsub_object_returns_new [OF assms]
    Normal_rmul_object_returns_new [OF assms]
    Normal_rmatmul_object_returns_new [OF assms]
    Normal_neg_object_returns_new Normal_pos_object_returns_new
    Normal_abs_object_returns_new Normal_invert_object_returns_new
  note constructed =
    Normal_add_object_returns_constructed Normal_sub_object_returns_constructed
    Normal_mul_object_returns_constructed Normal_truediv_object_returns_constructed
    Normal_matmul_object_returns_constructed Normal_radd_object_returns_constructed
    Normal_rsub_object_returns_constructed Normal_rmul_object_returns_constructed
    Normal_rmatmul_object_returns_constructed Normal_neg_object_returns_constructed
    Normal_pos_object_returns_constructed Normal_abs_object_returns_constructed
    Normal_invert_object_returns_constructed
  show ?thesis
    by (intro conjI in_place pow rtruediv frame new constructed)
qed

theorem in_place_operations_raise_witness:
  "collaborators_mutate_no_Normal np_oext \<and>
   Normal_iadd_object 0 (Value (Scalar ''float'' False [1])) [NormalDist N_one] =
     (Inl (NotImplementedError []), [NormalDist N_one]) \<and>
   Normal_add_object np_ext np_oext 0 (Value (Scalar ''float'' False [1])) [NormalDist N_one] =
     (Inr 2, [NormalDist N_one, Dirac (Scalar ''float'' False [1]) None,
              NormalDist (N_one\<lparr>Normal_mean := Scalar ''float'' False [2]\<rparr>)]) \<and>
   Normals_unchanged [NormalDist N_one]
     [NormalDist N_one, Dirac (Scalar ''float'' False [1]) None,
      NormalDist (N_one\<lparr>Normal_mean := Scalar ''float'' False [2]\<rparr>)] \<and>
   length [NormalDist N_one] \<le> (2::nat) \<and>
   newly_constructed (to_float np_ext)
     (NormalDist (N_one\<lparr>Normal_mean := Scalar ''float'' False [2]\<rparr>))"
proof -
  let ?h = "[NormalDist N_one]"
  let ?one = "Value (Scalar ''float'' False [1::int])"
  let ?h' = "[NormalDist N_one, Dirac (Scalar ''float'' False [1]) None,
      NormalDist (N_one\<lparr>Normal_mean := Scalar ''float'' False [2]\<rparr>)]"
  note T = in_place_operations_raise [OF np_oext_collaborators, of 0 ?one ?h np_ext]
  have a: "asdist_object np_oext ?one ?h = (Inr 1, ?h @ [Dirac (Scalar ''float'' False [1]) None]) \<and>
      1 < length (?h @ [Dirac (Scalar ''float'' False [1::int]) None]) \<and>
      (?h @ [Dirac (Scalar ''float'' False [1]) None]) ! 1 = Dirac (Scalar ''float'' False [1]) None \<and>
      0 < length (?h @ [Dirac (Scalar ''float'' False [1::int]) None]) \<and>
      (?h @ [Dirac (Scalar ''float'' False [1]) None]) ! 0 = NormalDist N_one \<and>
      py_add np_ext (Normal_mean N_one) (Scalar ''float'' False [1]) =
        Inr (Scalar ''float'' False [2]) \<and>
      Normal (to_float np_ext) (Scalar ''float'' False [2]) (Normal_cov N_one)
          (Normal_random_state N_one) =
        Inr (N_one\<lparr>Normal_mean := Scalar ''float'' False [2]\<rparr>)"
    by (simp add: np_oext_def np_asdist_object_def number_class_def allocate_def np_ext_def
        N_one_def result_class_def exact_def binary64_small Normal_univariate_floats)
  have run: "Normal_add_object np_ext np_oext 0 ?one ?h = (Inr 2, ?h')"
    using Normal_add_object_result [OF a] by simp
  note frame = T [THEN conjunct2, THEN conjunct2, THEN conjunct2, THEN conjunct2, THEN conjunct2, THEN conjunct2, THEN conjunct1]
  note new = T [THEN conjunct2, THEN conjunct2, THEN conjunct2, THEN conjunct2, THEN conjunct2, THEN conjunct2, THEN conjunct2, THEN conjunct2, THEN conjunct2, THEN conjunct2, THEN conjunct2, THEN conjunct2, THEN conjunct2, THEN conjunct2, THEN conjunct2, THEN conjunct2, THEN conjunct2, THEN conjunct2, THEN conjunct2, THEN conjunct2, THEN conjunct2, THEN conjunct2, THEN conjunct1]
  note built = T [THEN conjunct2, THEN conjunct2, THEN conjunct2, THEN conjunct2, THEN conjunct2, THEN conjunct2, THEN conjunct2, THEN conjunct2, THEN conjunct2, THEN conjunct2, THEN conjunct2, THEN conjunct2, THEN conjunct2, THEN conjunct2, THEN conjunct2, THEN conjunct2, THEN conjunct2, THEN conjunct2, THEN conjunct2, THEN conjunct2, THEN conjunct2, THEN conjunct2, THEN conjunct2, THEN conjunct2, THEN conjunct2, THEN conjunct2, THEN conjunct2, THEN conjunct2, THEN conjunct2, THEN conjunct2, THEN conjunct2, THEN conjunct2, THEN conjunct2, THEN conjunct2, THEN conjunct2, THEN conjunct2, THEN conjunct1]
  from run frame new built have "Normals_unchanged ?h ?h'" "length ?h \<le> (2::nat)"
    "newly_constructed (to_float np_ext) (?h' ! 2)"
    unfolding mutates_no_Normal_def returns_new_def returns_constructed_def by blast+
  with run T [THEN conjunct1] np_oext_collaborators show ?thesis
    by simp
qed

section \<open>Shifting and scaling by a point mass\<close>




lemma Normal_mul_Dirac:
  assumes "asdist ext other = Inr (Dirac delta ds)"
  shows "Normal_mul ext N other =
     bind (eq_zero ext (Val delta)) (\<lambda>zero.
       if zero
       then bind (py_mul ext (int_lit ext 0) (Normal_mean N)) (\<lambda>support.
              Inr (Dirac support (Normal_random_state N)))
       else bind (py_mul ext (Normal_mean N) delta) (\<lambda>m.
            bind (py_pow ext delta (int_lit ext 2)) (\<lambda>delta2.
            bind (py_mul ext (Normal_cov N) delta2) (\<lambda>c.
              Normal_dist ext m c (Normal_random_state N)))))"
  by (simp add: Normal_mul_def assms)

lemma Normal_dist_same_kind:
  assumes "constructed (to_float ext) N"
    and "kind m' = kind (Normal_mean N)" "kind c' = kind (Normal_cov N)"
  shows "Normal_dist ext m' c' rs' =
     Inr (NormalDist (N\<lparr>Normal_mean := m', Normal_cov := c', Normal_random_state := rs'\<rparr>))"
  by (simp add: Normal_dist_def Normal_same_kind [OF assms])

lemma Normal_dist_univariate:
  assumes h: "variant N = UnivariateNormal \<and>
      np_shape m \<in> set dim1shapes \<and> np_shape c \<in> set dim1shapes \<and>
      py_float (to_float ext) m = Inr x \<and> py_float (to_float ext) c = Inr y"
  shows "Normal_dist ext m c (Normal_random_state N) =
     Inr (NormalDist (N\<lparr>Normal_mean := x, Normal_cov := y\<rparr>))"
proof -
  have "Normal (to_float ext) m c (Normal_random_state N) =
      Inr \<lparr>variant = UnivariateNormal, Normal_mean = x, Normal_cov = y,
           Normal_random_state = Normal_random_state N\<rparr>"
    using h by (intro Normal_univariate) simp_all
  moreover have "\<lparr>variant = UnivariateNormal, Normal_mean = x, Normal_cov = y,
      Normal_random_state = Normal_random_state N\<rparr> = N\<lparr>Normal_mean := x, Normal_cov := y\<rparr>"
    using h by (cases N) simp
  ultimately show ?thesis
    by (simp add: Normal_dist_def)
qed

text \<open>
  C9 as stated is false: for the point mass at the \<open>float\<close> \<open>2.0 ** 600\<close>, which is not
  zero, \<open>delta ** 2\<close> raises \<open>OverflowError\<close>, and so does \<open>N * delta\<close>.

  C9, amended. For every Normal \<open>N\<close> and every point mass \<open>delta\<close>: when \<open>delta == 0\<close>
  holds, \<open>N * delta\<close> is the \<open>Dirac\<close> at \<open>0 * N.mean()\<close>, with the random state of \<open>N\<close>,
  and not a Normal; when it does not hold and \<open>N.mean() * delta\<close>, \<open>delta ** 2\<close> and
  \<open>N.cov() * delta ** 2\<close> can be computed (the power of a \<open>float\<close> raises
  \<open>OverflowError\<close> when it is out of range), \<open>N * delta\<close> is what the constructor returns
  for the two products: when it accepts them, a Normal whose mean is \<open>N.mean() * delta\<close>
  and whose cov is \<open>N.cov() * delta ** 2\<close> (the univariate class stores \<open>float(mean)\<close>
  and \<open>float(cov)\<close>), as it does whenever the products have the classes and shapes of
  \<open>N.mean()\<close> and \<open>N.cov()\<close>, or \<open>N\<close> is univariate and they are numbers or arrays with
  one entry; when it does not, the exception of the constructor. An exception of \<open>==\<close>,
  \<open>*\<close> or \<open>**\<close> is the outcome of \<open>N * delta\<close>.
\<close>

theorem Normal_mul_point_mass:
  assumes "asdist ext other = Inr (Dirac delta ds)"
  shows
    "(eq_zero ext (Val delta) = Inl err \<longrightarrow> Normal_mul ext N other = Inl err) \<and>
     (eq_zero ext (Val delta) = Inr True \<longrightarrow>
        (py_mul ext (int_lit ext 0) (Normal_mean N) = Inr z \<longrightarrow>
           Normal_mul ext N other = Inr (Dirac z (Normal_random_state N))) \<and>
        (py_mul ext (int_lit ext 0) (Normal_mean N) = Inl err \<longrightarrow>
           Normal_mul ext N other = Inl err) \<and>
        Normal_mul ext N other \<noteq> Inr (NormalDist N')) \<and>
     (eq_zero ext (Val delta) = Inr False \<longrightarrow>
        (py_mul ext (Normal_mean N) delta = Inl err \<longrightarrow> Normal_mul ext N other = Inl err) \<and>
        (py_mul ext (Normal_mean N) delta = Inr m' \<longrightarrow>
           (py_pow ext delta (int_lit ext 2) = Inl err \<longrightarrow> Normal_mul ext N other = Inl err) \<and>
           (py_pow ext delta (int_lit ext 2) = Inr delta2 \<longrightarrow>
              (py_mul ext (Normal_cov N) delta2 = Inl err \<longrightarrow>
                 Normal_mul ext N other = Inl err) \<and>
              (py_mul ext (Normal_cov N) delta2 = Inr c' \<longrightarrow>
                 (Normal_mul ext N other = Inr r \<longleftrightarrow>
                    (\<exists>N'. Normal (to_float ext) m' c' (Normal_random_state N) = Inr N' \<and>
                          r = NormalDist N')) \<and>
                 (Normal (to_float ext) m' c' (Normal_random_state N) = Inl err \<longrightarrow>
                    Normal_mul ext N other = Inl err) \<and>
                 (Normal_mul ext N other = Inr (NormalDist N') \<longrightarrow>
                    constructed (to_float ext) N' \<and>
                    Normal_random_state N' = Normal_random_state N \<and>
                    (variant N' \<noteq> UnivariateNormal \<longrightarrow>
                       Normal_mean N' = m' \<and> Normal_cov N' = c') \<and>
                    (variant N' = UnivariateNormal \<longrightarrow>
                       py_float (to_float ext) m' = Inr (Normal_mean N') \<and>
                       py_float (to_float ext) c' = Inr (Normal_cov N'))) \<and>
                 (constructed (to_float ext) N \<and> kind m' = kind (Normal_mean N) \<and>
                  kind c' = kind (Normal_cov N) \<longrightarrow>
                    Normal_mul ext N other =
                      Inr (NormalDist (N\<lparr>Normal_mean := m', Normal_cov := c'\<rparr>))) \<and>
                 (variant N = UnivariateNormal \<and>
                  np_shape m' \<in> set dim1shapes \<and> np_shape c' \<in> set dim1shapes \<and>
                  py_float (to_float ext) m' = Inr x \<and> py_float (to_float ext) c' = Inr y \<longrightarrow>
                    Normal_mul ext N other =
                      Inr (NormalDist (N\<lparr>Normal_mean := x, Normal_cov := y\<rparr>)))))))"
    (is "?E1 \<and> (?Z \<longrightarrow> ?ZZ) \<and>
      (?F \<longrightarrow> ?E2 \<and> (?P1 \<longrightarrow> ?E3 \<and> (?P2 \<longrightarrow> ?E4 \<and> (?P3 \<longrightarrow> ?FINAL))))")
proof -
  let ?tf = "to_float ext"
  let ?rs = "Normal_random_state N"
  note M = Normal_mul_Dirac [OF assms, of N]
  have zero: ?ZZ if ?Z
    unfolding M that by (cases "py_mul ext (int_lit ext 0) (Normal_mean N)") simp_all
  have final: ?FINAL if ?F ?P1 ?P2 ?P3
  proof -
    have e: "Normal_mul ext N other = Normal_dist ext m' c' ?rs"
      by (simp add: M that)
    have k: "constructed ?tf N \<and> kind m' = kind (Normal_mean N) \<and>
        kind c' = kind (Normal_cov N) \<longrightarrow>
        Normal_dist ext m' c' ?rs =
          Inr (NormalDist (N\<lparr>Normal_mean := m', Normal_cov := c'\<rparr>))"
      using Normal_dist_same_kind [of ext N m' c' ?rs] by simp
    have u: "variant N = UnivariateNormal \<and>
        np_shape m' \<in> set dim1shapes \<and> np_shape c' \<in> set dim1shapes \<and>
        py_float ?tf m' = Inr x \<and> py_float ?tf c' = Inr y \<longrightarrow>
        Normal_dist ext m' c' ?rs =
          Inr (NormalDist (N\<lparr>Normal_mean := x, Normal_cov := y\<rparr>))"
      by (rule impI) (rule Normal_dist_univariate)
    note D = Normal_dist_shifted [of ext m' c' ?rs r err N']
    show ?thesis
      unfolding e
      by (rule conjI, rule D [THEN conjunct1], rule conjI, rule D [THEN conjunct2, THEN conjunct1],
          rule conjI, rule D [THEN conjunct2, THEN conjunct2], rule conjI, rule k, rule u)
  qed
  have e1: ?E1
    by (simp add: M)
  have e2: ?E2 if ?F
    by (simp add: M that)
  have e3: ?E3 if ?F ?P1
    by (simp add: M that)
  have e4: ?E4 if ?F ?P1 ?P2
    by (simp add: M that)
  have l3: "?P3 \<longrightarrow> ?FINAL" if ?F ?P1 ?P2
    by (rule impI) (erule final [OF that])
  have l2: "?P2 \<longrightarrow> ?E4 \<and> (?P3 \<longrightarrow> ?FINAL)" if ?F ?P1
    by (rule impI, rule conjI, erule e4 [OF that], erule l3 [OF that])
  have l1: "?P1 \<longrightarrow> ?E3 \<and> (?P2 \<longrightarrow> ?E4 \<and> (?P3 \<longrightarrow> ?FINAL))" if ?F
    by (rule impI, rule conjI, erule e3 [OF that], erule l2 [OF that])
  have l0: "?F \<longrightarrow> ?E2 \<and> (?P1 \<longrightarrow> ?E3 \<and> (?P2 \<longrightarrow> ?E4 \<and> (?P3 \<longrightarrow> ?FINAL)))"
    by (rule impI, rule conjI, erule e2, erule l1)
  have lz: "?Z \<longrightarrow> ?ZZ"
    by (rule impI) (erule zero)
  show ?thesis
    by (rule conjI, rule e1, rule conjI, rule lz, rule l0)
qed

theorem Normal_mul_point_mass_counterexample:
  "asdist np_ext (Val (Scalar ''float'' False [huge])) =
     Inr (Dirac (Scalar ''float'' False [huge]) None) \<and>
   eq_zero np_ext (Val (Scalar ''float'' False [huge])) = Inr False \<and>
   py_mul np_ext (Normal_mean N_one) (Scalar ''float'' False [huge]) =
     Inr (Scalar ''float'' False [huge]) \<and>
   py_pow np_ext (Scalar ''float'' False [huge]) (int_lit np_ext 2) = Inl (OverflowError []) \<and>
   Normal_mul np_ext N_one (Val (Scalar ''float'' False [huge])) = Inl (OverflowError [])"
  by (simp add: np_ext_def N_one_def Normal_mul_def int_lit_def number_class_def
      result_class_def exact_def binary64_small binary64_huge huge_nonzero huge_square [simplified])

theorem Normal_mul_point_mass_witness:
  "asdist np_ext (Val (Scalar ''int'' False [0])) = Inr (Dirac (Scalar ''int'' False [0]) None) \<and>
   eq_zero np_ext (Val (Scalar ''int'' False [0])) = Inr True \<and>
   Normal_mul np_ext N_one (Val (Scalar ''int'' False [0])) =
     Inr (Dirac (Scalar ''float'' False [0]) None) \<and>
   asdist np_ext (Val (Scalar ''int'' False [2])) = Inr (Dirac (Scalar ''int'' False [2]) None) \<and>
   eq_zero np_ext (Val (Scalar ''int'' False [2])) = Inr False \<and>
   py_mul np_ext (Normal_mean N_one) (Scalar ''int'' False [2]) = Inr (Scalar ''float'' False [2]) \<and>
   py_pow np_ext (Scalar ''int'' False [2]) (int_lit np_ext 2) = Inr (Scalar ''int'' False [4]) \<and>
   py_mul np_ext (Normal_cov N_one) (Scalar ''int'' False [4]) = Inr (Scalar ''float'' False [4]) \<and>
   Normal_mul np_ext N_one (Val (Scalar ''int'' False [2])) =
     Inr (NormalDist (N_one\<lparr>Normal_mean := Scalar ''float'' False [2],
                            Normal_cov := Scalar ''float'' False [4]\<rparr>)) \<and>
   constructed (to_float np_ext) N_two \<and>
   py_mul np_ext (Normal_mean N_two) (Scalar ''int'' False [2]) = Inr (ndarray [2] [2, 4]) \<and>
   py_mul np_ext (Normal_cov N_two) (Scalar ''int'' False [4]) =
     Inr (ndarray [2, 2] [4, 0, 0, 4]) \<and>
   Normal_mul np_ext N_two (Val (Scalar ''int'' False [2])) =
     Inr (NormalDist (N_two\<lparr>Normal_mean := ndarray [2] [2, 4],
                            Normal_cov := ndarray [2, 2] [4, 0, 0, 4]\<rparr>)) \<and>
   eq_zero np_ext (Val (Scalar ''float'' False [huge])) = Inr False \<and>
   py_pow np_ext (Scalar ''float'' False [huge]) (int_lit np_ext 2) = Inl (OverflowError []) \<and>
   Normal_mul np_ext N_one (Val (Scalar ''float'' False [huge])) = Inl (OverflowError [])"
proof -
  note simps = np_ext_def N_one_def N_two_def int_lit_def number_class_def result_class_def
    exact_def binary64_small
  have z: "eq_zero np_ext (Val (Scalar ''int'' False [0])) = Inr True"
    and z0: "py_mul np_ext (int_lit np_ext 0) (Normal_mean N_one) = Inr (Scalar ''float'' False [0])"
    by (simp_all add: simps)
  have f: "eq_zero np_ext (Val (Scalar ''int'' False [2])) = Inr False"
    and p1: "py_mul np_ext (Normal_mean N_one) (Scalar ''int'' False [2]) =
      Inr (Scalar ''float'' False [2])"
    and p2: "py_pow np_ext (Scalar ''int'' False [2]) (int_lit np_ext 2) =
      Inr (Scalar ''int'' False [4])"
    and p3: "py_mul np_ext (Normal_cov N_one) (Scalar ''int'' False [4]) =
      Inr (Scalar ''float'' False [4])"
    and q1: "py_mul np_ext (Normal_mean N_two) (Scalar ''int'' False [2]) = Inr (ndarray [2] [2, 4])"
    and q3: "py_mul np_ext (Normal_cov N_two) (Scalar ''int'' False [4]) =
      Inr (ndarray [2, 2] [4, 0, 0, 4])"
    by (simp_all add: simps)
  have u: "variant N_one = UnivariateNormal \<and>
      np_shape (Scalar ''float'' False [2::int]) \<in> set dim1shapes \<and>
      np_shape (Scalar ''float'' False [4::int]) \<in> set dim1shapes \<and>
      py_float (to_float np_ext) (Scalar ''float'' False [2]) = Inr (Scalar ''float'' False [2]) \<and>
      py_float (to_float np_ext) (Scalar ''float'' False [4]) = Inr (Scalar ''float'' False [4])"
    by (simp add: dim1shapes_def N_one_def)
  have k: "constructed (to_float np_ext) N_two \<and>
      kind (ndarray [2] [2, 4 :: int]) = kind (Normal_mean N_two) \<and>
      kind (ndarray [2, 2] [4, 0, 0, 4 :: int]) = kind (Normal_cov N_two)"
    by (simp add: N_two_constructed) (simp add: N_two_def kind_def)
  have h: "eq_zero np_ext (Val (Scalar ''float'' False [huge])) = Inr False"
    and h1: "py_mul np_ext (Normal_mean N_one) (Scalar ''float'' False [huge]) =
      Inr (Scalar ''float'' False [huge])"
    and h2: "py_pow np_ext (Scalar ''float'' False [huge]) (int_lit np_ext 2) =
      Inl (OverflowError [])"
    by (simp_all add: simps binary64_huge huge_nonzero huge_square [simplified])
  note T0 = Normal_mul_point_mass [OF np_asdist_int [of "[0]"], of _ N_one]
  note T2 = Normal_mul_point_mass [OF np_asdist_int [of "[2]"], of _ N_one]
  note T3 = Normal_mul_point_mass [OF np_asdist_int [of "[2]"], of _ N_two]
  note T4 = Normal_mul_point_mass [OF np_asdist_float [of "[huge]"], of _ N_one]
  note r0 = T0 [THEN conjunct2, THEN conjunct1, rule_format, OF z, THEN conjunct1, rule_format,
      OF z0]
  note r2 = T2 [THEN conjunct2, THEN conjunct2, rule_format, OF f, THEN conjunct2, rule_format,
      OF p1, THEN conjunct2, rule_format, OF p2, THEN conjunct2, rule_format, OF p3,
      THEN conjunct2, THEN conjunct2, THEN conjunct2, THEN conjunct2, rule_format, OF u]
  note r3 = T3 [THEN conjunct2, THEN conjunct2, rule_format, OF f, THEN conjunct2, rule_format,
      OF q1, THEN conjunct2, rule_format, OF p2, THEN conjunct2, rule_format, OF q3,
      THEN conjunct2, THEN conjunct2, THEN conjunct2, THEN conjunct1, rule_format, OF k]
  note r4 = T4 [THEN conjunct2, THEN conjunct2, rule_format, OF h, THEN conjunct2, rule_format,
      OF h1, THEN conjunct1, rule_format, OF h2]
  from r0 r2 r3 r4 z f p1 p2 p3 q1 q3 k h h2 np_asdist_int [of "[0]"] np_asdist_int [of "[2]"]
  show ?thesis by (simp add: N_one_def [THEN arg_cong, of Normal_random_state])
qed

section \<open>Indexing and stacking a \<open>_RandomVariableList\<close>\<close>

lemma collect_map_Inr:
  "\<forall>x \<in> set xs. f x = Inr (g x) \<Longrightarrow> collect (map f xs) = Inr (map g xs)"
  by (induction xs) simp_all

lemma block_concat:
  "\<forall>y \<in> set ys. length y = p \<Longrightarrow> k < length ys \<Longrightarrow>
   take p (drop (k * p) (concat ys)) = ys ! k"
proof (induction ys arbitrary: k)
  case Nil
  then show ?case by simp
next
  case (Cons y ys)
  show ?case
  proof (cases k)
    case 0
    with Cons.prems show ?thesis by simp
  next
    case (Suc j)
    with Cons.prems have "take p (drop (j * p) (concat ys)) = ys ! j"
      by (intro Cons.IH) auto
    with Suc Cons.prems show ?thesis by simp
  qed
qed

lemma length_concat_same:
  "\<forall>y \<in> set ys. length y = p \<Longrightarrow> length (concat ys) = length ys * p"
  by (induction ys) simp_all

lemma stacked_in_order_stack:
  assumes "xs \<noteq> []" "all_of_shape f s xs"
  shows "stacked_in_order f s xs (bind (collect (map f xs)) np_stack)"
proof -
  let ?g = "\<lambda>x. projr (f x)"
  have g: "f x = Inr (?g x) \<and> fst (?g x) = s \<and> length (snd (?g x)) = prod_list s"
    if "x \<in> set xs" for x
  proof (cases "f x")
    case (Inl e)
    with assms(2) that show ?thesis
      by (auto simp: all_of_shape_def)
  next
    case (Inr a)
    with assms(2) that show ?thesis
      by (auto simp: all_of_shape_def)
  qed
  then have c: "collect (map f xs) = Inr (map ?g xs)"
    by (intro collect_map_Inr) simp
  from assms(1) obtain x rest where xs: "xs = x # rest"
    by (cases xs) auto
  have "\<forall>b \<in> set (map ?g rest). fst b = fst (?g x)"
    using g xs by auto
  then have st: "np_stack (map ?g xs) = Inr (length xs # s, concat (map snd (map ?g xs)))"
    using g [of x] xs by (simp add: np_stack_def)
  have len: "length (concat (map snd (map ?g xs))) = length xs * prod_list s"
    using g length_concat_same [of "map snd (map ?g xs)" "prod_list s"] by simp
  have "f (xs ! k) = Inr (s, take (prod_list s) (drop (k * prod_list s)
          (concat (map snd (map ?g xs)))))" if "k < length xs" for k
  proof -
    have "take (prod_list s) (drop (k * prod_list s) (concat (map snd (map ?g xs)))) =
        map snd (map ?g xs) ! k"
      using that g by (intro block_concat) auto
    also have "\<dots> = snd (?g (xs ! k))"
      using that by simp
    finally have t: "take (prod_list s) (drop (k * prod_list s)
        (concat (map snd (map ?g xs)))) = snd (?g (xs ! k))" .
    from g [of "xs ! k"] that obtain a where a: "f (xs ! k) = Inr a" "fst a = s"
      by (cases "f (xs ! k)") auto
    show ?thesis
      unfolding t using a by (cases a) simp
  qed
  then show ?thesis
    using len by (simp add: c st stacked_in_order_def)
qed

lemma list_getitem_int_in_range:
  assumes "- int (length xs) \<le> i" "i < int (length xs)"
  shows "list_getitem_int xs i = Inr (xs ! nat (if i < 0 then i + int (length xs) else i))"
  using assms by (simp add: list_getitem_int_def Let_def)

lemma slice_bound_range:
  assumes "lower \<le> upper" "lower \<le> missing" "missing \<le> upper" "lower \<le> 0" "n - 1 \<le> upper"
  shows "lower \<le> slice_bound n lower upper missing given \<and>
     slice_bound n lower upper missing given \<le> upper"
  using assms by (cases given) (auto simp: slice_bound_def)

lemma div_mult_le_int:
  fixes x k :: int
  assumes "0 < k"
  shows "x div k * k \<le> x"
proof -
  have "x div k * k = x - x mod k"
    by (simp add: minus_mod_eq_div_mult)
  moreover have "0 \<le> x mod k"
    using assms by simp
  ultimately show ?thesis by simp
qed

lemma slice_index_in_range:
  assumes "slice_indices len start stop step = Inr (a, b, k)" "i < slice_length a b k"
  shows "0 \<le> a + int i * k \<and> a + int i * k < int len"
proof -
  have k0: "k \<noteq> 0"
    using assms(1) by (auto simp: slice_indices_def Let_def split: if_splits)
  show ?thesis
  proof (cases "k < 0")
    case True
    let ?n = "int len"
    from assms(1) True
    have a: "a = slice_bound ?n (- 1) (?n - 1) (?n - 1) start"
      and b: "b = slice_bound ?n (- 1) (?n - 1) (- 1) stop"
      by (auto simp: slice_indices_def Let_def split: if_splits)
    have ra: "- 1 \<le> a \<and> a \<le> ?n - 1"
      unfolding a by (rule slice_bound_range) simp_all
    have rb: "- 1 \<le> b \<and> b \<le> ?n - 1"
      unfolding b by (rule slice_bound_range) simp_all
    from assms(2) True have lt: "b < a" and i: "int i \<le> (a - b - 1) div (- k)"
      by (auto simp: slice_length_def split: if_splits)
    have "int i * (- k) \<le> (a - b - 1) div (- k) * (- k)"
      using i True by (intro mult_right_mono) simp_all
    also have "\<dots> \<le> a - b - 1"
      using True by (intro div_mult_le_int) simp
    finally have "int i * (- k) \<le> a - b - 1" .
    moreover have "0 \<le> int i * (- k)"
      using True by (simp add: mult_nonneg_nonpos)
    ultimately show ?thesis
      using ra rb by simp
  next
    case False
    with k0 have pos: "0 < k" by simp
    let ?n = "int len"
    from assms(1) pos
    have a: "a = slice_bound ?n 0 ?n 0 start"
      and b: "b = slice_bound ?n 0 ?n ?n stop"
      by (auto simp: slice_indices_def Let_def split: if_splits)
    have ra: "0 \<le> a \<and> a \<le> ?n"
      unfolding a by (rule slice_bound_range) simp_all
    have rb: "0 \<le> b \<and> b \<le> ?n"
      unfolding b by (rule slice_bound_range) simp_all
    from assms(2) pos have lt: "a < b" and i: "int i \<le> (b - a - 1) div k"
      by (auto simp: slice_length_def split: if_splits)
    have "int i * k \<le> (b - a - 1) div k * k"
      using i pos by (intro mult_right_mono) simp_all
    also have "\<dots> \<le> b - a - 1"
      using pos by (rule div_mult_le_int)
    finally have "int i * k \<le> b - a - 1" .
    moreover have "0 \<le> int i * k"
      using pos by simp
    ultimately show ?thesis
      using ra rb by simp
  qed
qed

lemma list_getitem_slice_subset:
  assumes "step \<noteq> Some 0"
  shows "\<exists>ys. list_getitem_slice xs start stop step = Inr ys \<and> set ys \<subseteq> set xs"
proof -
  from assms obtain a b k where s: "slice_indices (length xs) start stop step = Inr (a, b, k)"
    by (cases step) (auto simp: slice_indices_def Let_def)
  have "xs ! nat (a + int i * k) \<in> set xs" if "i < slice_length a b k" for i
  proof -
    from slice_index_in_range [OF s that]
    have "nat (a + int i * k) < length xs" by linarith
    then show ?thesis by simp
  qed
  then show ?thesis
    by (auto simp: list_getitem_slice_def s)
qed

lemma list_getitem_slice_simple:
  "list_getitem_slice xs (Some (int a)) (Some (int b)) None = Inr (drop a (take b xs))"
proof -
  let ?n = "length xs"
  have s: "slice_indices ?n (Some (int a)) (Some (int b)) None =
      Inr (int (min a ?n), int (min b ?n), 1)"
    by (simp add: slice_indices_def slice_bound_def Let_def min_def)
  have l: "slice_length (int (min a ?n)) (int (min b ?n)) 1 = min b ?n - min a ?n"
    by (auto simp: slice_length_def)
  have "map (\<lambda>i. xs ! nat (int (min a ?n) + int i * 1)) [0..<min b ?n - min a ?n] =
      drop a (take b xs)"
  proof (rule nth_equalityI)
    show "length (map (\<lambda>i. xs ! nat (int (min a ?n) + int i * 1)) [0..<min b ?n - min a ?n]) =
        length (drop a (take b xs))"
      by auto
  next
    fix i
    assume "i < length (map (\<lambda>i. xs ! nat (int (min a ?n) + int i * 1))
        [0..<min b ?n - min a ?n])"
    then have i: "i < min b ?n - min a ?n" by simp
    then have "min a ?n = a" by (auto simp: min_def split: if_splits)
    with i show "map (\<lambda>i. xs ! nat (int (min a ?n) + int i * 1)) [0..<min b ?n - min a ?n] ! i =
        drop a (take b xs) ! i"
    proof -
      from i have "a + i < b" "a + i < ?n" by simp_all
      then have "drop a (take b xs) ! i = xs ! (a + i)"
        by simp
      with i \<open>min a ?n = a\<close> show ?thesis
        by (simp add: nat_add_distrib)
    qed
  qed
  then show ?thesis
    by (simp add: list_getitem_slice_def s l)
qed

lemma accessors_empty:
  "RandomVariableList_mean [] = Inl (ValueError ''need at least one array to stack'')"
  "RandomVariableList_cov [] = Inl (ValueError ''need at least one array to stack'')"
  "RandomVariableList_var [] = Inl (ValueError ''need at least one array to stack'')"
  "RandomVariableList_std [] = Inl (ValueError ''need at least one array to stack'')"
  by (simp_all add: RandomVariableList_mean_def RandomVariableList_cov_def
      RandomVariableList_var_def RandomVariableList_std_def np_stack_def)

text \<open>
  C10 as stated is false, in two ways. On the empty \<open>_RandomVariableList\<close>, which slicing
  past the end returns, the accessors call \<open>np.stack\<close> with no array, and that raises a
  \<open>ValueError\<close>. And indexing with a position where the item is itself a list does not
  return that item: \<open>__getitem__\<close> tests \<open>isinstance(result, list)\<close> and returns a new
  \<open>_RandomVariableList\<close> with the items of the item.

  C10, amended. For every \<open>_RandomVariableList\<close>: indexing with a slice whose step is not
  zero returns a \<open>_RandomVariableList\<close> again, made of items of the list (for
  \<open>self[a:b]\<close> with \<open>a\<close>, \<open>b\<close> not negative, the items from position \<open>a\<close> up to position
  \<open>b\<close>); indexing with a position \<open>i\<close>, \<open>-len \<le> i < len\<close>, returns the item at that
  position itself when it is not a list, and a new \<open>_RandomVariableList\<close> with its items
  when it is one; when the list is not empty and the statistic of every item is an array
  of one shape, each of \<open>mean\<close>, \<open>cov\<close>, \<open>var\<close> and \<open>std\<close> returns these statistics
  stacked in list order; on the empty list each of the four raises the \<open>ValueError\<close> of
  \<open>np.stack\<close>.
\<close>

theorem RandomVariableList_access:
  "(step \<noteq> Some 0 \<longrightarrow>
      (\<exists>ys. RandomVariableList_getitem xs (Slice start stop step) =
              Inr (RandomVariableList ys) \<and> set ys \<subseteq> set xs)) \<and>
   RandomVariableList_getitem xs (Slice (Some (int a)) (Some (int b)) None) =
     Inr (RandomVariableList (drop a (take b xs))) \<and>
   (- int (length xs) \<le> i \<and> i < int (length xs) \<and>
    \<not> isinstance_list (xs ! nat (if i < 0 then i + int (length xs) else i)) \<longrightarrow>
      RandomVariableList_getitem xs (Index i) =
        Inr (xs ! nat (if i < 0 then i + int (length xs) else i))) \<and>
   (- int (length xs) \<le> i \<and> i < int (length xs) \<and>
    isinstance_list (xs ! nat (if i < 0 then i + int (length xs) else i)) \<longrightarrow>
      RandomVariableList_getitem xs (Index i) =
        Inr (RandomVariableList (items (xs ! nat (if i < 0 then i + int (length xs) else i))))) \<and>
   ((rvs :: 'c random_variable pyobject list) \<noteq> [] \<and> all_of_shape item_mean s rvs \<longrightarrow>
      stacked_in_order item_mean s rvs (RandomVariableList_mean rvs)) \<and>
   (rvs \<noteq> [] \<and> all_of_shape item_cov s rvs \<longrightarrow>
      stacked_in_order item_cov s rvs (RandomVariableList_cov rvs)) \<and>
   (rvs \<noteq> [] \<and> all_of_shape item_var s rvs \<longrightarrow>
      stacked_in_order item_var s rvs (RandomVariableList_var rvs)) \<and>
   (rvs \<noteq> [] \<and> all_of_shape item_std s rvs \<longrightarrow>
      stacked_in_order item_std s rvs (RandomVariableList_std rvs)) \<and>
   RandomVariableList_mean ([] :: 'c random_variable pyobject list) =
     Inl (ValueError ''need at least one array to stack'') \<and>
   RandomVariableList_cov ([] :: 'c random_variable pyobject list) =
     Inl (ValueError ''need at least one array to stack'') \<and>
   RandomVariableList_var ([] :: 'c random_variable pyobject list) =
     Inl (ValueError ''need at least one array to stack'') \<and>
   RandomVariableList_std ([] :: 'c random_variable pyobject list) =
     Inl (ValueError ''need at least one array to stack'')"
proof -
  let ?j = "nat (if i < 0 then i + int (length xs) else i)"
  have sl: "\<exists>ys. RandomVariableList_getitem xs (Slice start stop step) =
      Inr (RandomVariableList ys) \<and> set ys \<subseteq> set xs" if "step \<noteq> Some 0"
  proof -
    from list_getitem_slice_subset [OF that, of xs start stop]
    obtain ys where "list_getitem_slice xs start stop step = Inr ys" "set ys \<subseteq> set xs"
      by auto
    then show ?thesis
      by (simp add: RandomVariableList_getitem_def list_getitem_def)
  qed
  have ab: "RandomVariableList_getitem xs (Slice (Some (int a)) (Some (int b)) None) =
      Inr (RandomVariableList (drop a (take b xs)))"
    by (simp add: RandomVariableList_getitem_def list_getitem_def list_getitem_slice_simple)
  have i1: "RandomVariableList_getitem xs (Index i) = Inr (xs ! ?j)"
    if "- int (length xs) \<le> i \<and> i < int (length xs) \<and> \<not> isinstance_list (xs ! ?j)"
    using that
    by (simp add: RandomVariableList_getitem_def list_getitem_def list_getitem_int_in_range)
  have i2: "RandomVariableList_getitem xs (Index i) = Inr (RandomVariableList (items (xs ! ?j)))"
    if "- int (length xs) \<le> i \<and> i < int (length xs) \<and> isinstance_list (xs ! ?j)"
    using that
    by (simp add: RandomVariableList_getitem_def list_getitem_def list_getitem_int_in_range)
  have st: "stacked_in_order f s rvs (bind (collect (map f rvs)) np_stack)"
    if "rvs \<noteq> [] \<and> all_of_shape f s rvs"
    for f :: "'c random_variable pyobject \<Rightarrow> error + 'c array"
    using that stacked_in_order_stack [of rvs f s] by simp
  show ?thesis
    unfolding RandomVariableList_mean_def RandomVariableList_cov_def
      RandomVariableList_var_def RandomVariableList_std_def
    apply (intro conjI impI)
               apply (erule sl)
              apply (rule ab)
             apply (erule i1)
            apply (erule i2)
           apply (erule st)
          apply (erule st)
         apply (erule st)
        apply (erule st)
       apply (simp_all add: np_stack_def)
    done
qed

theorem RandomVariableList_access_counterexample:
  "RandomVariableList_getitem [NotList rv_one, NotList rv_three] (Slice (Some 5) None None) =
     Inr (RandomVariableList []) \<and>
   RandomVariableList_mean ([] :: int random_variable pyobject list) =
     Inl (ValueError ''need at least one array to stack'') \<and>
   RandomVariableList_getitem [PyList [NotList rv_one], NotList rv_three] (Index 0) =
     Inr (RandomVariableList [NotList rv_one]) \<and>
   [PyList [NotList rv_one], NotList rv_three] ! 0 \<noteq> RandomVariableList [NotList rv_one]"
  by (simp add: RandomVariableList_getitem_def list_getitem_def list_getitem_slice_def
      slice_indices_def slice_bound_def slice_length_def RandomVariableList_mean_def np_stack_def
      list_getitem_int_def)

theorem RandomVariableList_access_witness:
  "[NotList rv_one, NotList rv_three] \<noteq> [] \<and>
   all_of_shape item_mean [] [NotList rv_one, NotList rv_three] \<and>
   stacked_in_order item_mean [] [NotList rv_one, NotList rv_three]
     (RandomVariableList_mean [NotList rv_one, NotList rv_three]) \<and>
   RandomVariableList_mean [NotList rv_one, NotList rv_three] = Inr ([2], [1, 3]) \<and>
   all_of_shape item_std [] [NotList rv_one, NotList rv_three] \<and>
   stacked_in_order item_std [] [NotList rv_one, NotList rv_three]
     (RandomVariableList_std [NotList rv_one, NotList rv_three]) \<and>
   RandomVariableList_std [NotList rv_one, NotList rv_three] = Inr ([2], [2, 3]) \<and>
   RandomVariableList_getitem [NotList rv_one, NotList rv_three]
       (Slice (Some (int 1)) (Some (int 2)) None) =
     Inr (RandomVariableList [NotList rv_three]) \<and>
   - int (length [NotList rv_one, NotList rv_three]) \<le> - 1 \<and>
   (- 1 :: int) < int (length [NotList rv_one, NotList rv_three]) \<and>
   \<not> isinstance_list (NotList rv_three) \<and>
   RandomVariableList_getitem [NotList rv_one, NotList rv_three] (Index (- 1)) =
     Inr (NotList rv_three) \<and>
   isinstance_list (PyList [NotList rv_one]) \<and>
   RandomVariableList_getitem [PyList [NotList rv_one], NotList rv_three] (Index 0) =
     Inr (RandomVariableList [NotList rv_one])"
proof -
  let ?xs = "[NotList rv_one, NotList rv_three]"
  let ?ys = "[PyList [NotList rv_one], NotList rv_three]"
  have h: "?xs \<noteq> [] \<and> all_of_shape item_mean [] ?xs"
    and h': "?xs \<noteq> [] \<and> all_of_shape item_std [] ?xs"
    by (simp_all add: all_of_shape_def rv_one_def rv_three_def)
  have m: "RandomVariableList_mean ?xs = Inr ([2], [1, 3])"
    and sd: "RandomVariableList_std ?xs = Inr ([2], [2, 3])"
    by (simp_all add: RandomVariableList_mean_def RandomVariableList_std_def np_stack_def
        rv_one_def rv_three_def)
  have r: "- int (length ?xs) \<le> - 1 \<and> (- 1 :: int) < int (length ?xs) \<and>
      \<not> isinstance_list (?xs ! nat (if (- 1 :: int) < 0 then - 1 + int (length ?xs) else - 1))"
    by simp
  have r': "- int (length ?ys) \<le> 0 \<and> (0 :: int) < int (length ?ys) \<and>
      isinstance_list (?ys ! nat (if (0 :: int) < 0 then 0 + int (length ?ys) else 0))"
    by simp
  note T = RandomVariableList_access [where xs = ?xs and a = 1 and b = 2 and i = "- 1"
      and rvs = ?xs and s = "[]"]
  note T' = RandomVariableList_access [where xs = ?ys and i = 0]
  from T [THEN conjunct2, THEN conjunct1]
    T [THEN conjunct2, THEN conjunct2, THEN conjunct1, rule_format, OF r]
    T' [THEN conjunct2, THEN conjunct2, THEN conjunct2, THEN conjunct1, rule_format, OF r']
    T [THEN conjunct2, THEN conjunct2, THEN conjunct2, THEN conjunct2, THEN conjunct1,
      rule_format, OF h]
    T [THEN conjunct2, THEN conjunct2, THEN conjunct2, THEN conjunct2, THEN conjunct2,
      THEN conjunct2, THEN conjunct2, THEN conjunct1, rule_format, OF h']
    h h' m sd
  show ?thesis by simp
qed

end
